(* ===== verification/Prelude.thy ===== *)
theory Prelude
  imports Main "HOL-Library.Word" "HOL-Library.Signed_Division" "HOL-Library.Monad_Syntax"
begin

text \<open>
  Shared vocabulary of the AIZ-32 MIPS emulator model: the machine-integer types of the
  Rust sources (\<open>u8\<close>, \<open>u16\<close>, \<open>u32\<close>, \<open>u64\<close> as words, \<open>usize\<close> as \<open>nat\<close>),
  the little-endian byte conversions (\<open>to_le_bytes\<close>/\<open>from_le_bytes\<close>), Rust slice
  indexing with its out-of-bounds panic written as \<open>None\<close>, and a \<open>for\<close>-loop
  combinator over a state that may panic. The lemma collections declared here carry the
  component proofs: \<open>mask_lits\<close> turns the source's hexadecimal masks into \<open>mask n\<close>,
  \<open>le_bytes\<close> gathers the byte round trips, \<open>slice_simps\<close> the slice lemmas.
\<close>

unbundle bit_operations_syntax

type_synonym u8 = "8 word"
type_synonym u16 = "16 word"
type_synonym u32 = "32 word"
type_synonym u64 = "64 word"
type_synonym bytes = "u8 list"

named_theorems mask_lits "hexadecimal masks of the sources as mask n"
named_theorems le_bytes "little-endian byte conversions and their round trips"
named_theorems slice_simps "Rust slice reads and writes on byte lists"

subsection \<open>Little-endian byte conversions\<close>

text \<open>\<open>u32::to_le_bytes\<close>, \<open>u32::from_le_bytes\<close> and the 16-bit versions.\<close>

definition le_bytes32 :: "u32 \<Rightarrow> bytes" where
  "le_bytes32 w = [ucast w, ucast (drop_bit 8 w), ucast (drop_bit 16 w), ucast (drop_bit 24 w)]"

definition from_le32 :: "u8 \<Rightarrow> u8 \<Rightarrow> u8 \<Rightarrow> u8 \<Rightarrow> u32" where
  "from_le32 b0 b1 b2 b3 =
     push_bit 24 (ucast b3) OR push_bit 16 (ucast b2) OR push_bit 8 (ucast b1) OR ucast b0"

definition le_bytes16 :: "u16 \<Rightarrow> bytes" where
  "le_bytes16 w = [ucast w, ucast (drop_bit 8 w)]"

definition from_le16 :: "u8 \<Rightarrow> u8 \<Rightarrow> u16" where
  "from_le16 b0 b1 = push_bit 8 (ucast b1) OR ucast b0"

subsection \<open>Rust slices and loops\<close>

text \<open>
  \<open>mem[p..p+n].copy_from_slice(bs)\<close> and \<open>&mem[p..p+n]\<close>: both panic when the range
  leaves the buffer, which is \<open>None\<close> here.
\<close>

definition write_slice :: "nat \<Rightarrow> 'a list \<Rightarrow> 'a list \<Rightarrow> 'a list option" where
  "write_slice p bs mem =
     (if p + length bs \<le> length mem then Some (take p mem @ bs @ drop (p + length bs) mem)
      else None)"

definition read_slice :: "nat \<Rightarrow> nat \<Rightarrow> 'a list \<Rightarrow> 'a list option" where
  "read_slice p n mem = (if p + n \<le> length mem then Some (take n (drop p mem)) else None)"

text \<open>\<open>mem[i]\<close> as a checked read and \<open>mem[i] = v\<close> as a checked write.\<close>

definition get_idx :: "'a list \<Rightarrow> nat \<Rightarrow> 'a option" where
  "get_idx mem i = (if i < length mem then Some (mem ! i) else None)"

definition set_idx :: "'a list \<Rightarrow> nat \<Rightarrow> 'a \<Rightarrow> 'a list option" where
  "set_idx mem i v = (if i < length mem then Some (mem[i := v]) else None)"

text \<open>A \<open>for\<close> loop whose body may panic: the state is threaded, a panic stops the loop.\<close>

primrec for_each :: "'i list \<Rightarrow> ('i \<Rightarrow> 's \<Rightarrow> 's option) \<Rightarrow> 's \<Rightarrow> 's option" where
  "for_each [] f s = Some s"
| "for_each (i # is) f s = (case f i s of None \<Rightarrow> None | Some s' \<Rightarrow> for_each is f s')"

subsection \<open>Generic lemmas\<close>

lemma mask_lits_u32 [mask_lits]:
  "(0x3F :: u32) = mask 6" "(0x1F :: u32) = mask 5" "(0xFFFF :: u32) = mask 16"
  "(0x03FFFFFF :: u32) = mask 26" "(0x7 :: u32) = mask 3" "(0xFF :: u32) = mask 8"
  "(0xFFFFFFFF :: u64) = mask 32" "(0xFF :: u16) = mask 8"
  by (simp_all add: mask_eq_exp_minus_1)

text \<open>Masking before a narrowing cast (\<open>(v & 0xFF) as u8\<close>) changes nothing.\<close>

lemma ucast_and_low [simp]:
  "(ucast (x AND 0xFF) :: u8) = ucast (x :: u32)"
  "(ucast (x AND 0xFFFF) :: u16) = ucast (x :: u32)"
  "(ucast (y AND 0xFF) :: u8) = ucast (y :: u16)"
proof -
  have "(0xFF::u32) = mask 8" "(0xFFFF::u32) = mask 16" "(0xFF::u16) = mask 8"
    by (simp_all add: mask_eq_exp_minus_1)
  then show "(ucast (x AND 0xFF) :: u8) = ucast x" "(ucast (x AND 0xFFFF) :: u16) = ucast x"
    "(ucast (y AND 0xFF) :: u8) = ucast y"
    by (simp_all add: bit_eq_iff bit_simps)
qed

lemma bit_add_diff [simp]: "bit w (k + (n - k)) = (if k \<le> n then bit w n else bit w k)"
  by simp

lemma bit_beyond_len [simp]: "LENGTH('a) \<le> n \<Longrightarrow> bit (w::'a::len word) n = False"
  using bit_imp_le_length not_le by blast

text \<open>
  Two words are equal when their bits agree at every listed position; with the positions
  written out (\<open>upt_rec\<close>) the simplifier decides each bit on its own, which is much
  faster than case splits over an arbitrary bit index.
\<close>

lemma word32_eq_by_bits:
  fixes a b :: u32
  assumes "\<forall>n \<in> set [0..<32]. bit a n = bit b n"
  shows "a = b"
  using assms by (intro bit_word_eqI) simp

lemma word8_eq_by_bits:
  fixes a b :: u8
  assumes "\<forall>n \<in> set [0..<8]. bit a n = bit b n"
  shows "a = b"
  using assms by (intro bit_word_eqI) simp

lemmas field_bits = upt_rec bit_simps mask_lits

lemma from_le32_le_bytes [le_bytes]:
  "from_le32 (ucast w) (ucast (drop_bit 8 w)) (ucast (drop_bit 16 w)) (ucast (drop_bit 24 w)) = w"
  unfolding from_le32_def
  by (rule bit_word_eqI) (auto simp: bit_simps dest: bit_imp_le_length split: if_splits)

lemma le_bytes32_from_le32 [le_bytes]: "le_bytes32 (from_le32 b0 b1 b2 b3) = [b0, b1, b2, b3]"
  unfolding le_bytes32_def from_le32_def
  by (intro list.inject[THEN iffD2] conjI refl bit_word_eqI)
     (auto simp: bit_simps dest: bit_imp_le_length)

lemma from_le16_le_bytes [le_bytes]: "from_le16 (ucast w) (ucast (drop_bit 8 w)) = w"
  unfolding from_le16_def
  by (rule bit_word_eqI) (auto simp: bit_simps dest: bit_imp_le_length split: if_splits)

lemma le_bytes16_from_le16 [le_bytes]: "le_bytes16 (from_le16 b0 b1) = [b0, b1]"
  unfolding le_bytes16_def from_le16_def
  by (intro list.inject[THEN iffD2] conjI refl bit_word_eqI)
     (auto simp: bit_simps dest: bit_imp_le_length)

lemma length_le_bytes [simp]: "length (le_bytes32 w) = 4" "length (le_bytes16 h) = 2"
  by (simp_all add: le_bytes32_def le_bytes16_def)

lemma write_slice_Some [slice_simps]:
  "p + length bs \<le> length mem \<Longrightarrow>
     write_slice p bs mem = Some (take p mem @ bs @ drop (p + length bs) mem)"
  by (simp add: write_slice_def)

lemma write_slice_None [slice_simps]:
  "\<not> p + length bs \<le> length mem \<Longrightarrow> write_slice p bs mem = None"
  by (simp add: write_slice_def)

lemma write_slice_length:
  "write_slice p bs mem = Some mem' \<Longrightarrow> length mem' = length mem"
  by (auto simp: write_slice_def split: if_splits)

lemma write_slice_nth:
  assumes "write_slice p bs mem = Some mem'" and "i < length mem"
  shows "mem' ! i = (if p \<le> i \<and> i < p + length bs then bs ! (i - p) else mem ! i)"
  using assms by (auto simp: write_slice_def nth_append split: if_splits)

lemma read_write_slice [slice_simps]:
  "write_slice p bs mem = Some mem' \<Longrightarrow> read_slice p (length bs) mem' = Some bs"
  by (auto simp: write_slice_def read_slice_def split: if_splits)

lemma for_each_append:
  "for_each (xs @ ys) f s = (case for_each xs f s of None \<Rightarrow> None | Some s' \<Rightarrow> for_each ys f s')"
  by (induction xs arbitrary: s) (auto split: option.splits)

text \<open>
  The loop invariant rule: a property that holds at the start and that every iteration
  keeps (and under which no iteration panics) holds at the end, and the loop returns.
\<close>

lemma for_each_inv:
  assumes "P s"
    and "\<And>i t. i \<in> set xs \<Longrightarrow> P t \<Longrightarrow> \<exists>t'. f i t = Some t' \<and> P t'"
  shows "\<exists>t. for_each xs f s = Some t \<and> P t"
  using assms
proof (induction xs arbitrary: s)
  case Nil
  then show ?case by simp
next
  case (Cons x xs)
  then obtain t' where "f x s = Some t'" and "P t'" by fastforce
  with Cons.IH[of t'] Cons.prems(2) show ?case by simp
qed

text \<open>
  Consecutive slice writes compose into one write, and a loop that writes the same bytes
  at a fixed stride is one write of the repeated pattern.
\<close>

lemma write_slice_append:
  "(case write_slice p a v of None \<Rightarrow> None | Some v1 \<Rightarrow> write_slice (p + length a) b v1)
     = write_slice p (a @ b) v"
  by (auto simp: write_slice_def add_ac split: option.splits)

lemma set_idx_write_slice: "set_idx v p x = write_slice p [x] v"
  by (auto simp: set_idx_def write_slice_def upd_conv_take_nth_drop)

lemma nth_concat_replicate:
  assumes "i < n * length c"
  shows "concat (replicate n c) ! i = c ! (i mod length c)"
  using assms
proof (induction n arbitrary: i)
  case 0
  then show ?case by simp
next
  case (Suc n)
  show ?case
  proof (cases "i < length c")
    case True
    then show ?thesis by (simp add: nth_append)
  next
    case False
    then have "i - length c < n * length c" using Suc.prems by simp
    then show ?thesis using False Suc.IH[of "i - length c"]
      by (simp add: nth_append mod_if)
  qed
qed

lemma length_concat_replicate [simp]: "length (concat (replicate n c)) = n * length c"
  by (induction n) simp_all

lemma concat_replicate_Suc': "concat (replicate (Suc n) c) = concat (replicate n c) @ c"
  by (induction n) simp_all

lemma write_slice_run:
  assumes "length c = k" and "p + n * k \<le> length v"
  shows "for_each [0..<n] (\<lambda>px l. write_slice (p + px * k) c l) v =
           write_slice p (concat (replicate n c)) v"
  using assms(2)
proof (induction n)
  case 0
  then show ?case by (simp add: write_slice_def)
next
  case (Suc n)
  obtain v1 where v1: "write_slice p (concat (replicate n c)) v = Some v1"
    using Suc.prems assms(1) by (simp add: write_slice_def)
  have "for_each [0..<Suc n] (\<lambda>px l. write_slice (p + px * k) c l) v
          = write_slice (p + n * k) c v1"
    using Suc v1 by (simp add: for_each_append split: option.split)
  also have "\<dots> = write_slice p (concat (replicate n c) @ c) v"
    using write_slice_append[where p = p and a = "concat (replicate n c)" and v = v and b = c]
      v1 assms(1) by (simp add: mult.commute)
  also have "\<dots> = write_slice p (concat (replicate (Suc n) c)) v"
    by (simp only: concat_replicate_Suc')
  finally show ?case .
qed

lemma write_slice_Some_iff: "(\<exists>v'. write_slice p bs v = Some v') \<longleftrightarrow> p + length bs \<le> length v"
  by (simp add: write_slice_def)

lemma map_option_snd_Pair [simp]: "map_option snd (map_option (Pair a) x) = x"
  by (cases x) simp_all

lemma or_one_and_not_one: "(s OR 1) AND NOT 1 = s AND NOT (1::'a::len word)"
  by (rule bit_word_eqI) (auto simp: bit_simps)

lemma for_each_write_slice_Some:
  assumes "\<forall>j\<in>set js. s j + length bs \<le> length v"
  shows "\<exists>v'. for_each js (\<lambda>j. write_slice (s j) bs) v = Some v' \<and> length v' = length v"
  using for_each_inv[where P = "\<lambda>t. length t = length v" and xs = js
      and f = "\<lambda>j. write_slice (s j) bs" and s = v] assms
  by (auto simp: write_slice_def)

text \<open>
  Writes of one pattern at several places, all agreeing with a fixed byte function \<open>g\<close>
  where they land: each byte is \<open>g\<close> where some write covers it, else unchanged.
\<close>

lemma for_each_write_slice_nth:
  assumes "for_each js (\<lambda>j. write_slice (s j) bs) v = Some v'" and "i < length v"
    and "\<forall>j\<in>set js. \<forall>k. s j \<le> k \<and> k < s j + length bs \<longrightarrow> bs ! (k - s j) = g k"
  shows "v' ! i = (if \<exists>j\<in>set js. s j \<le> i \<and> i < s j + length bs then g i else v ! i)"
  using assms
proof (induction js arbitrary: v)
  case Nil
  then show ?case by simp
next
  case (Cons j js)
  obtain v1 where v1: "write_slice (s j) bs v = Some v1" and rest: "for_each js (\<lambda>j. write_slice (s j) bs) v1 = Some v'"
    using Cons.prems(1) by (auto split: option.splits)
  have len: "length v1 = length v" using v1 by (rule write_slice_length)
  have "v' ! i = (if \<exists>j\<in>set js. s j \<le> i \<and> i < s j + length bs then g i else v1 ! i)"
    using Cons.IH[OF rest] Cons.prems(2,3) len by simp
  moreover have "v1 ! i = (if s j \<le> i \<and> i < s j + length bs then g i else v ! i)"
    using write_slice_nth[OF v1 Cons.prems(2)] Cons.prems(3) by auto
  ultimately show ?case by auto
qed

lemma segment_pixels:
  fixes i :: nat
  shows "(s \<le> i \<and> i < s + n * 4) \<longleftrightarrow> (\<exists>k<n. s + k * 4 \<le> i \<and> i < s + k * 4 + 4)"
proof
  assume a: "s \<le> i \<and> i < s + n * 4"
  then show "\<exists>k<n. s + k * 4 \<le> i \<and> i < s + k * 4 + 4"
    by (intro exI[of _ "(i - s) div 4"]) auto
next
  assume "\<exists>k<n. s + k * 4 \<le> i \<and> i < s + k * 4 + 4"
  then obtain k where "k < n" "s + k * 4 \<le> i" "i < s + k * 4 + 4" by blast
  then show "s \<le> i \<and> i < s + n * 4" by linarith
qed

lemma bit_nat_high: "m < 2 ^ k \<Longrightarrow> k \<le> n \<Longrightarrow> bit (m::nat) n = False"
proof -
  assume "m < 2 ^ k" "k \<le> n"
  then have "(2::nat) ^ k \<le> 2 ^ n" by (simp add: power_increasing)
  with \<open>m < 2 ^ k\<close> have "m < 2 ^ n" by linarith
  then have "take_bit n m = m" by (rule take_bit_nat_eq_self)
  then show ?thesis using bit_take_bit_iff[of n m n] by simp
qed

lemma for_each_preserves:
  assumes "for_each xs f s = Some t" and "P s"
    and "\<And>i u u'. i \<in> set xs \<Longrightarrow> f i u = Some u' \<Longrightarrow> P u \<Longrightarrow> P u'"
  shows "P t"
  using assms
proof (induction xs arbitrary: s)
  case Nil
  then show ?case by simp
next
  case (Cons x xs)
  then obtain s' where "f x s = Some s'" "for_each xs f s' = Some t"
    by (auto split: option.splits)
  with Cons show ?case by (metis list.set_intros)
qed

lemma word16_eq_by_bits:
  fixes a b :: u16
  assumes "\<forall>n \<in> set [0..<16]. bit a n = bit b n"
  shows "a = b"
  using assms by (intro bit_word_eqI) simp

end
