(* ===== verification/Instructions.thy ===== *)
theory Instructions
  imports Prelude
begin

text \<open>
  The instruction formats of \<open>src/aiz32mips_core/src/instructions.rs\<close>: one record per
  format struct (fields prefixed by the format, since record fields share one name space),
  the tagged union \<open>Instruction\<close> as a datatype, and the decoder and encoder, both
  written bit for bit from the source's shifts and masks. The lemmas show that encoding a
  decoded word gives the word back except for the COP0 format, whose encoder drops bits
  6..10, and that decoding the encoding of a well-formed instruction gives it back.
\<close>

record rtype =
  r_opcode :: u8
  r_rs :: u8
  r_rt :: u8
  r_rd :: u8
  r_shamt :: u8
  r_funct :: u8

record itype =
  i_opcode :: u8
  i_rs :: u8
  i_rt :: u8
  i_imm :: u16

record jtype =
  j_opcode :: u8
  j_target :: u32

record cop0_ins =
  c0_opcode :: u8
  c0_rs :: u8
  c0_rt :: u8
  c0_rd :: u8
  c0_sel :: u8
  c0_funct :: u8

record cop1_ins =
  c1_opcode :: u8
  c1_fmt :: u8
  c1_ft :: u8
  c1_fs :: u8
  c1_fd :: u8
  c1_funct :: u8

record special2 =
  s2_opcode :: u8
  s2_rs :: u8
  s2_rt :: u8
  s2_rd :: u8
  s2_shamt :: u8
  s2_funct :: u8

record special3 =
  s3_opcode :: u8
  s3_rs :: u8
  s3_rt :: u8
  s3_rd :: u8
  s3_sa :: u8
  s3_funct :: u8

datatype instruction =
    RType rtype
  | IType itype
  | JType jtype
  | Cop0 cop0_ins
  | Cop1 cop1_ins
  | Special2 special2
  | Special3 special3
  | Invalid u32

subsection \<open>Decoding\<close>

definition rtype_decode :: "u32 \<Rightarrow> rtype" where
  "rtype_decode instr =
     \<lparr>r_opcode = ucast (drop_bit 26 instr AND 0x3F), r_rs = ucast (drop_bit 21 instr AND 0x1F),
      r_rt = ucast (drop_bit 16 instr AND 0x1F), r_rd = ucast (drop_bit 11 instr AND 0x1F),
      r_shamt = ucast (drop_bit 6 instr AND 0x1F), r_funct = ucast (instr AND 0x3F)\<rparr>"

definition itype_decode :: "u32 \<Rightarrow> itype" where
  "itype_decode instr =
     \<lparr>i_opcode = ucast (drop_bit 26 instr AND 0x3F), i_rs = ucast (drop_bit 21 instr AND 0x1F),
      i_rt = ucast (drop_bit 16 instr AND 0x1F), i_imm = ucast (instr AND 0xFFFF)\<rparr>"

definition jtype_decode :: "u32 \<Rightarrow> jtype" where
  "jtype_decode instr =
     \<lparr>j_opcode = ucast (drop_bit 26 instr AND 0x3F), j_target = instr AND 0x03FFFFFF\<rparr>"

definition cop0_decode :: "u32 \<Rightarrow> cop0_ins" where
  "cop0_decode instr =
     \<lparr>c0_opcode = ucast (drop_bit 26 instr AND 0x3F), c0_rs = ucast (drop_bit 21 instr AND 0x1F),
      c0_rt = ucast (drop_bit 16 instr AND 0x1F), c0_rd = ucast (drop_bit 11 instr AND 0x1F),
      c0_sel = ucast (instr AND 0x7), c0_funct = ucast (instr AND 0x3F)\<rparr>"

definition cop1_decode :: "u32 \<Rightarrow> cop1_ins" where
  "cop1_decode instr =
     \<lparr>c1_opcode = ucast (drop_bit 26 instr AND 0x3F), c1_fmt = ucast (drop_bit 21 instr AND 0x1F),
      c1_ft = ucast (drop_bit 16 instr AND 0x1F), c1_fs = ucast (drop_bit 11 instr AND 0x1F),
      c1_fd = ucast (drop_bit 6 instr AND 0x1F), c1_funct = ucast (instr AND 0x3F)\<rparr>"

definition special2_decode :: "u32 \<Rightarrow> special2" where
  "special2_decode instr =
     \<lparr>s2_opcode = ucast (drop_bit 26 instr AND 0x3F), s2_rs = ucast (drop_bit 21 instr AND 0x1F),
      s2_rt = ucast (drop_bit 16 instr AND 0x1F), s2_rd = ucast (drop_bit 11 instr AND 0x1F),
      s2_shamt = ucast (drop_bit 6 instr AND 0x1F), s2_funct = ucast (instr AND 0x3F)\<rparr>"

definition special3_decode :: "u32 \<Rightarrow> special3" where
  "special3_decode instr =
     \<lparr>s3_opcode = ucast (drop_bit 26 instr AND 0x3F), s3_rs = ucast (drop_bit 21 instr AND 0x1F),
      s3_rt = ucast (drop_bit 16 instr AND 0x1F), s3_rd = ucast (drop_bit 11 instr AND 0x1F),
      s3_sa = ucast (drop_bit 6 instr AND 0x1F), s3_funct = ucast (instr AND 0x3F)\<rparr>"

text \<open>The dispatch of \<open>Instruction::decode\<close> on the top six bits.\<close>

definition opcode_of :: "u32 \<Rightarrow> u8" where
  "opcode_of instr = ucast (drop_bit 26 instr AND 0x3F)"

definition decode :: "u32 \<Rightarrow> instruction" where
  "decode instr =
     (let opcode = opcode_of instr in
      if opcode = 0x00 then RType (rtype_decode instr)
      else if opcode = 0x10 then Cop0 (cop0_decode instr)
      else if opcode = 0x11 then Cop1 (cop1_decode instr)
      else if opcode = 0x1C then Special2 (special2_decode instr)
      else if opcode = 0x1F then Special3 (special3_decode instr)
      else if opcode = 0x02 \<or> opcode = 0x03 then JType (jtype_decode instr)
      else IType (itype_decode instr))"

subsection \<open>Encoding\<close>

definition rtype_encode :: "rtype \<Rightarrow> u32" where
  "rtype_encode r =
     push_bit 26 (ucast (r_opcode r)) OR push_bit 21 (ucast (r_rs r)) OR push_bit 16 (ucast (r_rt r))
     OR push_bit 11 (ucast (r_rd r)) OR push_bit 6 (ucast (r_shamt r)) OR ucast (r_funct r)"

definition itype_encode :: "itype \<Rightarrow> u32" where
  "itype_encode i =
     push_bit 26 (ucast (i_opcode i)) OR push_bit 21 (ucast (i_rs i)) OR push_bit 16 (ucast (i_rt i))
     OR ucast (i_imm i)"

definition jtype_encode :: "jtype \<Rightarrow> u32" where
  "jtype_encode j = push_bit 26 (ucast (j_opcode j)) OR (j_target j AND 0x03FFFFFF)"

definition cop0_encode :: "cop0_ins \<Rightarrow> u32" where
  "cop0_encode c =
     push_bit 26 (ucast (c0_opcode c)) OR push_bit 21 (ucast (c0_rs c)) OR push_bit 16 (ucast (c0_rt c))
     OR push_bit 11 (ucast (c0_rd c)) OR ucast (c0_funct c)"

definition cop1_encode :: "cop1_ins \<Rightarrow> u32" where
  "cop1_encode c =
     push_bit 26 (ucast (c1_opcode c)) OR push_bit 21 (ucast (c1_fmt c)) OR push_bit 16 (ucast (c1_ft c))
     OR push_bit 11 (ucast (c1_fs c)) OR push_bit 6 (ucast (c1_fd c)) OR ucast (c1_funct c)"

definition special2_encode :: "special2 \<Rightarrow> u32" where
  "special2_encode s =
     push_bit 26 (ucast (s2_opcode s)) OR push_bit 21 (ucast (s2_rs s)) OR push_bit 16 (ucast (s2_rt s))
     OR push_bit 11 (ucast (s2_rd s)) OR push_bit 6 (ucast (s2_shamt s)) OR ucast (s2_funct s)"

definition special3_encode :: "special3 \<Rightarrow> u32" where
  "special3_encode s =
     push_bit 26 (ucast (s3_opcode s)) OR push_bit 21 (ucast (s3_rs s)) OR push_bit 16 (ucast (s3_rt s))
     OR push_bit 11 (ucast (s3_rd s)) OR push_bit 6 (ucast (s3_sa s)) OR ucast (s3_funct s)"

primrec encode :: "instruction \<Rightarrow> u32" where
  "encode (RType r) = rtype_encode r"
| "encode (IType i) = itype_encode i"
| "encode (JType j) = jtype_encode j"
| "encode (Cop0 c) = cop0_encode c"
| "encode (Cop1 c) = cop1_encode c"
| "encode (Special2 s) = special2_encode s"
| "encode (Special3 s) = special3_encode s"
| "encode (Invalid v) = v"

subsection \<open>Well-formed instructions\<close>

text \<open>
  An instruction is well formed when every field fits its bit width and its opcode is
  one that the decoder sends to its variant; \<open>Invalid\<close> is never produced by the decoder.
\<close>

definition fits :: "nat \<Rightarrow> 'a::len word \<Rightarrow> bool" where
  "fits k x \<longleftrightarrow> x < 2 ^ k"

definition itype_opcode :: "u8 \<Rightarrow> bool" where
  "itype_opcode op \<longleftrightarrow> op \<notin> {0x00, 0x02, 0x03, 0x10, 0x11, 0x1C, 0x1F}"

primrec wf_instr :: "instruction \<Rightarrow> bool" where
  "wf_instr (RType r) \<longleftrightarrow> r_opcode r = 0 \<and> fits 5 (r_rs r) \<and> fits 5 (r_rt r) \<and> fits 5 (r_rd r)
       \<and> fits 5 (r_shamt r) \<and> fits 6 (r_funct r)"
| "wf_instr (IType i) \<longleftrightarrow> fits 6 (i_opcode i) \<and> itype_opcode (i_opcode i) \<and> fits 5 (i_rs i)
       \<and> fits 5 (i_rt i)"
| "wf_instr (JType j) \<longleftrightarrow> (j_opcode j = 2 \<or> j_opcode j = 3) \<and> fits 26 (j_target j)"
| "wf_instr (Cop0 c) \<longleftrightarrow> c0_opcode c = 0x10 \<and> fits 5 (c0_rs c) \<and> fits 5 (c0_rt c)
       \<and> fits 5 (c0_rd c) \<and> fits 6 (c0_funct c) \<and> c0_sel c = c0_funct c AND 7"
| "wf_instr (Cop1 c) \<longleftrightarrow> c1_opcode c = 0x11 \<and> fits 5 (c1_fmt c) \<and> fits 5 (c1_ft c)
       \<and> fits 5 (c1_fs c) \<and> fits 5 (c1_fd c) \<and> fits 6 (c1_funct c)"
| "wf_instr (Special2 s) \<longleftrightarrow> s2_opcode s = 0x1C \<and> fits 5 (s2_rs s) \<and> fits 5 (s2_rt s)
       \<and> fits 5 (s2_rd s) \<and> fits 5 (s2_shamt s) \<and> fits 6 (s2_funct s)"
| "wf_instr (Special3 s) \<longleftrightarrow> s3_opcode s = 0x1F \<and> fits 5 (s3_rs s) \<and> fits 5 (s3_rt s)
       \<and> fits 5 (s3_rd s) \<and> fits 5 (s3_sa s) \<and> fits 6 (s3_funct s)"
| "wf_instr (Invalid v) \<longleftrightarrow> False"

subsection \<open>Round trips\<close>

lemma fits_high: "fits k x \<Longrightarrow> k \<le> n \<Longrightarrow> bit x n = False"
  unfolding fits_def by (metis less_mask_eq bit_and_iff bit_mask_iff not_le)
lemma format_encode_decode:
  "rtype_encode (rtype_decode w) = w" "itype_encode (itype_decode w) = w"
  "jtype_encode (jtype_decode w) = w" "cop1_encode (cop1_decode w) = w"
  "special2_encode (special2_decode w) = w" "special3_encode (special3_decode w) = w"
  "cop0_encode (cop0_decode w) = w AND NOT (push_bit 6 (mask 5))"
  unfolding rtype_decode_def itype_decode_def jtype_decode_def cop0_decode_def
      cop1_decode_def special2_decode_def special3_decode_def rtype_encode_def itype_encode_def
      jtype_encode_def cop0_encode_def cop1_encode_def special2_encode_def special3_encode_def
  by (rule word32_eq_by_bits; simp add: field_bits)+

text \<open>
  C6: re-encoding a decoded word gives the word back, for every 32-bit word, except for
  the COP0 format (opcode 0x10), whose encoder has no field for bits 6..10 and clears them.
\<close>

lemma encode_decode:
  "encode (decode w) = (if opcode_of w = 0x10 then w AND NOT (push_bit 6 (mask 5)) else w)"
  by (simp add: decode_def Let_def format_encode_decode)

lemma opcode_of_decoded:
  "opcode_of w = r_opcode (rtype_decode w)" "opcode_of w = i_opcode (itype_decode w)"
  "opcode_of w = j_opcode (jtype_decode w)" "opcode_of w = c0_opcode (cop0_decode w)"
  "opcode_of w = c1_opcode (cop1_decode w)" "opcode_of w = s2_opcode (special2_decode w)"
  "opcode_of w = s3_opcode (special3_decode w)"
  by (simp_all add: opcode_of_def rtype_decode_def itype_decode_def jtype_decode_def
      cop0_decode_def cop1_decode_def special2_decode_def special3_decode_def)

lemma rtype_decode_encode:
  assumes "fits 6 (r_opcode r)" "fits 5 (r_rs r)" "fits 5 (r_rt r)" "fits 5 (r_rd r)"
    "fits 5 (r_shamt r)" "fits 6 (r_funct r)"
  shows "rtype_decode (rtype_encode r) = r"
  unfolding rtype_decode_def rtype_encode_def
  by (intro rtype.equality word8_eq_by_bits; simp add: field_bits assms[THEN fits_high])

lemma itype_decode_encode:
  assumes "fits 6 (i_opcode i)" "fits 5 (i_rs i)" "fits 5 (i_rt i)"
  shows "itype_decode (itype_encode i) = i"
  unfolding itype_decode_def itype_encode_def
  by (intro itype.equality word8_eq_by_bits bit_word_eqI;
      simp add: field_bits assms[THEN fits_high])

lemma jtype_decode_encode:
  assumes "fits 6 (j_opcode j)" "fits 26 (j_target j)"
  shows "jtype_decode (jtype_encode j) = j"
  unfolding jtype_decode_def jtype_encode_def
  by (intro jtype.equality word8_eq_by_bits word32_eq_by_bits;
      simp add: field_bits assms[THEN fits_high])

lemma cop0_decode_encode:
  assumes "fits 6 (c0_opcode c)" "fits 5 (c0_rs c)" "fits 5 (c0_rt c)" "fits 5 (c0_rd c)"
    "fits 6 (c0_funct c)" "c0_sel c = c0_funct c AND 7"
  shows "cop0_decode (cop0_encode c) = c"
  unfolding cop0_decode_def cop0_encode_def
  by (intro cop0_ins.equality word8_eq_by_bits;
      simp add: field_bits assms(6) assms(1-5)[THEN fits_high])

lemma cop1_decode_encode:
  assumes "fits 6 (c1_opcode c)" "fits 5 (c1_fmt c)" "fits 5 (c1_ft c)" "fits 5 (c1_fs c)"
    "fits 5 (c1_fd c)" "fits 6 (c1_funct c)"
  shows "cop1_decode (cop1_encode c) = c"
  unfolding cop1_decode_def cop1_encode_def
  by (intro cop1_ins.equality word8_eq_by_bits; simp add: field_bits assms[THEN fits_high])

lemma special2_decode_encode:
  assumes "fits 6 (s2_opcode s)" "fits 5 (s2_rs s)" "fits 5 (s2_rt s)" "fits 5 (s2_rd s)"
    "fits 5 (s2_shamt s)" "fits 6 (s2_funct s)"
  shows "special2_decode (special2_encode s) = s"
  unfolding special2_decode_def special2_encode_def
  by (intro special2.equality word8_eq_by_bits; simp add: field_bits assms[THEN fits_high])

lemma special3_decode_encode:
  assumes "fits 6 (s3_opcode s)" "fits 5 (s3_rs s)" "fits 5 (s3_rt s)" "fits 5 (s3_rd s)"
    "fits 5 (s3_sa s)" "fits 6 (s3_funct s)"
  shows "special3_decode (special3_encode s) = s"
  unfolding special3_decode_def special3_encode_def
  by (intro special3.equality word8_eq_by_bits; simp add: field_bits assms[THEN fits_high])

lemma fits6_opcodes: "fits 6 (0::u8)" "fits 6 (2::u8)" "fits 6 (3::u8)" "fits 6 (0x10::u8)"
  "fits 6 (0x11::u8)" "fits 6 (0x1C::u8)" "fits 6 (0x1F::u8)"
  by (simp_all add: fits_def)

text \<open>
  C5: decoding the encoding of a well-formed instruction (every field within its bit
  width, the opcode one that the decoder sends to that variant) gives the instruction back.
\<close>

lemma decode_encode:
  assumes wf: "wf_instr i"
  shows "decode (encode i) = i"
proof (cases i)
  case (RType r)
  with wf have d: "rtype_decode (rtype_encode r) = r"
    by (simp add: rtype_decode_encode fits6_opcodes)
  then have "opcode_of (rtype_encode r) = r_opcode r" by (metis opcode_of_decoded(1))
  with RType wf d show ?thesis by (simp add: decode_def)
next
  case (IType x)
  with wf have d: "itype_decode (itype_encode x) = x" by (simp add: itype_decode_encode)
  then have "opcode_of (itype_encode x) = i_opcode x" by (metis opcode_of_decoded(2))
  with IType wf d show ?thesis by (simp add: decode_def itype_opcode_def)
next
  case (JType j)
  with wf have d: "jtype_decode (jtype_encode j) = j"
    by (auto simp: jtype_decode_encode fits6_opcodes)
  then have "opcode_of (jtype_encode j) = j_opcode j" by (metis opcode_of_decoded(3))
  with JType wf d show ?thesis by (auto simp: decode_def)
next
  case (Cop0 c)
  with wf have d: "cop0_decode (cop0_encode c) = c"
    by (simp add: cop0_decode_encode fits6_opcodes)
  then have "opcode_of (cop0_encode c) = c0_opcode c" by (metis opcode_of_decoded(4))
  with Cop0 wf d show ?thesis by (simp add: decode_def)
next
  case (Cop1 c)
  with wf have d: "cop1_decode (cop1_encode c) = c"
    by (simp add: cop1_decode_encode fits6_opcodes)
  then have "opcode_of (cop1_encode c) = c1_opcode c" by (metis opcode_of_decoded(5))
  with Cop1 wf d show ?thesis by (simp add: decode_def)
next
  case (Special2 s)
  with wf have d: "special2_decode (special2_encode s) = s"
    by (simp add: special2_decode_encode fits6_opcodes)
  then have "opcode_of (special2_encode s) = s2_opcode s" by (metis opcode_of_decoded(6))
  with Special2 wf d show ?thesis by (simp add: decode_def)
next
  case (Special3 s)
  with wf have d: "special3_decode (special3_encode s) = s"
    by (simp add: special3_decode_encode fits6_opcodes)
  then have "opcode_of (special3_encode s) = s3_opcode s" by (metis opcode_of_decoded(7))
  with Special3 wf d show ?thesis by (simp add: decode_def)
next
  case (Invalid v)
  with wf show ?thesis by simp
qed

lemma decode_encode_witness:
  "wf_instr (IType \<lparr>i_opcode = 9, i_rs = 0, i_rt = 2, i_imm = 5\<rparr>) \<and>
   decode (encode (IType \<lparr>i_opcode = 9, i_rs = 0, i_rt = 2, i_imm = 5\<rparr>)) =
     IType \<lparr>i_opcode = 9, i_rs = 0, i_rt = 2, i_imm = 5\<rparr>"
proof -
  have wf: "wf_instr (IType \<lparr>i_opcode = 9, i_rs = 0, i_rt = 2, i_imm = 5\<rparr>)"
    by (simp add: fits_def itype_opcode_def)
  from decode_encode[OF wf] wf show ?thesis by simp
qed
lemma decode_addiu_example: "decode 0x24020005 = IType \<lparr>i_opcode = 9, i_rs = 0, i_rt = 2, i_imm = 5\<rparr>"
  by (simp add: decode_def opcode_of_def itype_decode_def)
lemma cop0_roundtrip_example: "encode (decode 0x400007C0) = 0x40000000"
  by code_simp

end
