(* ===== verification/Registers.thy ===== *)
theory Registers
  imports Prelude
begin

text \<open>
  The register file of \<open>src/aiz32mips_core/src/registers.rs\<close> and the coprocessor banks
  of \<open>src/aiz32mips_core/src/cop.rs\<close>. The fixed-size Rust arrays (\<open>[u32; 32]\<close>) are
  lists whose length 32 is the type invariant; an index out of range panics in Rust and
  is \<open>None\<close> here. General register 0 reads as zero and ignores writes. The FPU bank of
  \<open>Cop1\<close> keeps each \<open>f64\<close> as its IEEE bit pattern (\<open>to_bits\<close>/\<open>from_bits\<close>),
  which is all the emulator does with it.
\<close>

record special_registers =
  hi :: u32
  lo :: u32
  pc :: u32
  epc :: u32
  status :: u32
  cause :: u32
  badvaddr :: u32
  index :: u32
  random :: u32
  entrylo0 :: u32
  entrylo1 :: u32
  count :: u32
  compare :: u32
  entryhi :: u32

record registers =
  general :: "u32 list"
  special :: special_registers

datatype special_reg =
  Hi | Lo | Pc | Epc | Status | Cause | BadVAddr | Index | Random | EntryLo0 | EntryLo1
  | Count | Compare | EntryHi

definition special_default :: special_registers where
  "special_default =
     \<lparr>hi = 0, lo = 0, pc = 0xBFC00000, epc = 0, status = 0, cause = 0, badvaddr = 0, index = 0,
      random = 31, entrylo0 = 0, entrylo1 = 0, count = 0, compare = 0, entryhi = 0\<rparr>"

definition registers_default :: registers where
  "registers_default = \<lparr>general = replicate 32 0, special = special_default\<rparr>"

text \<open>\<open>Registers::reset\<close> restores the default.\<close>

definition registers_reset :: "registers \<Rightarrow> registers" where
  "registers_reset r = registers_default"

definition get_pc :: "registers \<Rightarrow> u32" where
  "get_pc r = pc (special r)"

definition set_pc :: "u32 \<Rightarrow> registers \<Rightarrow> registers" where
  "set_pc v r = r\<lparr>special := (special r)\<lparr>pc := v\<rparr>\<rparr>"

definition get_gpc :: "registers \<Rightarrow> u32" where
  "get_gpc r = general r ! 28"

definition set_gpc :: "u32 \<Rightarrow> registers \<Rightarrow> registers" where
  "set_gpc v r = r\<lparr>general := (general r)[28 := v]\<rparr>"

definition get_sp :: "registers \<Rightarrow> u32" where
  "get_sp r = general r ! 29"

definition set_sp :: "u32 \<Rightarrow> registers \<Rightarrow> registers" where
  "set_sp v r = r\<lparr>general := (general r)[29 := v]\<rparr>"

definition get_fp :: "registers \<Rightarrow> u32" where
  "get_fp r = general r ! 30"

definition set_fp :: "u32 \<Rightarrow> registers \<Rightarrow> registers" where
  "set_fp v r = r\<lparr>general := (general r)[30 := v]\<rparr>"

text \<open>\<open>read\<close>: register 0 is zero; any other index reads the array and panics beyond it.\<close>

definition reg_read :: "registers \<Rightarrow> nat \<Rightarrow> u32 option" where
  "reg_read r i = (if i = 0 then Some 0 else get_idx (general r) i)"

text \<open>\<open>write\<close>: ignored for register 0 and for indices past 31.\<close>

definition reg_write :: "nat \<Rightarrow> u32 \<Rightarrow> registers \<Rightarrow> registers" where
  "reg_write i v r = (if i \<noteq> 0 \<and> i < 32 then r\<lparr>general := (general r)[i := v]\<rparr> else r)"

primrec read_special :: "registers \<Rightarrow> special_reg \<Rightarrow> u32" where
  "read_special r Hi = hi (special r)"
| "read_special r Lo = lo (special r)"
| "read_special r Pc = pc (special r)"
| "read_special r Epc = epc (special r)"
| "read_special r Status = status (special r)"
| "read_special r Cause = cause (special r)"
| "read_special r BadVAddr = badvaddr (special r)"
| "read_special r Index = index (special r)"
| "read_special r Random = random (special r)"
| "read_special r EntryLo0 = entrylo0 (special r)"
| "read_special r EntryLo1 = entrylo1 (special r)"
| "read_special r Count = count (special r)"
| "read_special r Compare = compare (special r)"
| "read_special r EntryHi = entryhi (special r)"

primrec write_special :: "special_reg \<Rightarrow> u32 \<Rightarrow> registers \<Rightarrow> registers" where
  "write_special Hi v r = r\<lparr>special := (special r)\<lparr>hi := v\<rparr>\<rparr>"
| "write_special Lo v r = r\<lparr>special := (special r)\<lparr>lo := v\<rparr>\<rparr>"
| "write_special Pc v r = r\<lparr>special := (special r)\<lparr>pc := v\<rparr>\<rparr>"
| "write_special Epc v r = r\<lparr>special := (special r)\<lparr>epc := v\<rparr>\<rparr>"
| "write_special Status v r = r\<lparr>special := (special r)\<lparr>status := v\<rparr>\<rparr>"
| "write_special Cause v r = r\<lparr>special := (special r)\<lparr>cause := v\<rparr>\<rparr>"
| "write_special BadVAddr v r = r\<lparr>special := (special r)\<lparr>badvaddr := v\<rparr>\<rparr>"
| "write_special Index v r = r\<lparr>special := (special r)\<lparr>index := v\<rparr>\<rparr>"
| "write_special Random v r = r\<lparr>special := (special r)\<lparr>random := v\<rparr>\<rparr>"
| "write_special EntryLo0 v r = r\<lparr>special := (special r)\<lparr>entrylo0 := v\<rparr>\<rparr>"
| "write_special EntryLo1 v r = r\<lparr>special := (special r)\<lparr>entrylo1 := v\<rparr>\<rparr>"
| "write_special Count v r = r\<lparr>special := (special r)\<lparr>count := v\<rparr>\<rparr>"
| "write_special Compare v r = r\<lparr>special := (special r)\<lparr>compare := v\<rparr>\<rparr>"
| "write_special EntryHi v r = r\<lparr>special := (special r)\<lparr>entryhi := v\<rparr>\<rparr>"

definition tick :: "registers \<Rightarrow> registers" where
  "tick r = r\<lparr>special := (special r)\<lparr>count := count (special r) + 1\<rparr>\<rparr>"

subsection \<open>Coprocessor 0\<close>

record cop0 =
  c0_regs :: "u32 list"

definition cop0_default :: cop0 where
  "cop0_default = \<lparr>c0_regs = replicate 32 0\<rparr>"

definition cop0_read :: "cop0 \<Rightarrow> nat \<Rightarrow> u32 option" where
  "cop0_read c i = get_idx (c0_regs c) i"

definition cop0_write :: "nat \<Rightarrow> u32 \<Rightarrow> cop0 \<Rightarrow> cop0 option" where
  "cop0_write i v c = map_option (\<lambda>rs. c\<lparr>c0_regs := rs\<rparr>) (set_idx (c0_regs c) i v)"

text \<open>The named aliases: Status is register 12, Cause 13, EPC 14, BadVAddr 8.\<close>

definition cop0_status :: "cop0 \<Rightarrow> u32" where
  "cop0_status c = c0_regs c ! 12"

definition cop0_set_status :: "u32 \<Rightarrow> cop0 \<Rightarrow> cop0" where
  "cop0_set_status v c = c\<lparr>c0_regs := (c0_regs c)[12 := v]\<rparr>"

definition cop0_cause :: "cop0 \<Rightarrow> u32" where
  "cop0_cause c = c0_regs c ! 13"

definition cop0_epc :: "cop0 \<Rightarrow> u32" where
  "cop0_epc c = c0_regs c ! 14"

definition cop0_set_epc :: "u32 \<Rightarrow> cop0 \<Rightarrow> cop0" where
  "cop0_set_epc v c = c\<lparr>c0_regs := (c0_regs c)[14 := v]\<rparr>"

definition cop0_badvaddr :: "cop0 \<Rightarrow> u32" where
  "cop0_badvaddr c = c0_regs c ! 8"

definition set_status_bit :: "u32 \<Rightarrow> cop0 \<Rightarrow> cop0" where
  "set_status_bit b c = c\<lparr>c0_regs := (c0_regs c)[12 := (c0_regs c ! 12) OR b]\<rparr>"

definition clear_status_bit :: "u32 \<Rightarrow> cop0 \<Rightarrow> cop0" where
  "clear_status_bit b c = c\<lparr>c0_regs := (c0_regs c)[12 := (c0_regs c ! 12) AND NOT b]\<rparr>"

definition status_bit :: "u32 \<Rightarrow> cop0 \<Rightarrow> bool" where
  "status_bit b c \<longleftrightarrow> (c0_regs c ! 12) AND b \<noteq> 0"

subsection \<open>Coprocessor 1\<close>

record cop1 =
  fregs :: "u64 list"
  fcsr :: u32
  fir :: u32

definition cop1_default :: cop1 where
  "cop1_default = \<lparr>fregs = replicate 32 0, fcsr = 0, fir = 0\<rparr>"

definition cop1_read_bits :: "cop1 \<Rightarrow> nat \<Rightarrow> u64 option" where
  "cop1_read_bits c i = get_idx (fregs c) i"

definition cop1_write_bits :: "nat \<Rightarrow> u64 \<Rightarrow> cop1 \<Rightarrow> cop1 option" where
  "cop1_write_bits i v c = map_option (\<lambda>fs. c\<lparr>fregs := fs\<rparr>) (set_idx (fregs c) i v)"

definition cop1_set_fcsr :: "u32 \<Rightarrow> cop1 \<Rightarrow> cop1" where
  "cop1_set_fcsr v c = c\<lparr>fcsr := v\<rparr>"

definition cop1_fcsr :: "cop1 \<Rightarrow> u32" where
  "cop1_fcsr c = fcsr c"

definition cop1_fir :: "cop1 \<Rightarrow> u32" where
  "cop1_fir c = fir c"

text \<open>
  \<open>read_f\<close> and \<open>write_f\<close> move an \<open>f64\<close> in and out of the array unchanged; with the
  \<open>f64\<close> represented by its bit pattern they index the same list, panicking past 31.
\<close>

definition cop1_read_f :: "cop1 \<Rightarrow> nat \<Rightarrow> u64 option" where
  "cop1_read_f c i = get_idx (fregs c) i"

definition cop1_write_f :: "nat \<Rightarrow> u64 \<Rightarrow> cop1 \<Rightarrow> cop1 option" where
  "cop1_write_f i v c = map_option (\<lambda>fs. c\<lparr>fregs := fs\<rparr>) (set_idx (fregs c) i v)"

text \<open>\<open>Registers::new\<close>, \<open>Cop0::new\<close> and \<open>Cop1::new\<close> are \<open>Self::default()\<close>.\<close>

definition registers_new :: registers where
  "registers_new = registers_default"

definition cop0_new :: cop0 where
  "cop0_new = cop0_default"

definition cop1_new :: cop1 where
  "cop1_new = cop1_default"

subsection \<open>The type invariant\<close>

text \<open>The arrays of the Rust structs have 32 entries.\<close>

definition regs_ok :: "registers \<Rightarrow> bool" where
  "regs_ok r \<longleftrightarrow> length (general r) = 32"

lemma regs_ok_default [simp]: "regs_ok registers_default"
  by (simp add: regs_ok_def registers_default_def)

lemma regs_ok_updates [simp]:
  "regs_ok (reg_write i v r) = regs_ok r" "regs_ok (set_pc v r) = regs_ok r"
  "regs_ok (set_sp v r) = regs_ok r" "regs_ok (set_gpc v r) = regs_ok r"
  "regs_ok (set_fp v r) = regs_ok r" "regs_ok (write_special s v r) = regs_ok r"
  "regs_ok (tick r) = regs_ok r" "regs_ok (registers_reset r)"
  by (simp_all add: regs_ok_def reg_write_def set_pc_def set_sp_def set_gpc_def set_fp_def
      tick_def registers_reset_def registers_default_def) (cases s; simp)
lemma reg_read_Some:
  "regs_ok r \<Longrightarrow> i < 32 \<Longrightarrow> reg_read r i = Some (if i = 0 then 0 else general r ! i)"
  by (simp add: reg_read_def get_idx_def regs_ok_def)

lemma get_pc_updates [simp]:
  "get_pc (set_pc v r) = v" "get_pc (reg_write i v r) = get_pc r"
  "get_pc (set_sp v r) = get_pc r" "get_pc (set_gpc v r) = get_pc r"
  by (simp_all add: get_pc_def set_pc_def reg_write_def set_sp_def set_gpc_def)

text \<open>
  C7: register 0 is hard-wired to zero and every other register reads what was last
  written to it: after writing v to register i, register j (below 32) reads 0 when
  j = 0, v when j = i, and its old value otherwise; a write to register 0 or to an
  index past 31 changes nothing, and a read of register 0 gives 0 whatever the array
  holds.
\<close>

theorem reg_read_write:
  assumes "regs_ok r" and "j < 32"
  shows "reg_read (reg_write i v r) j = Some (if j = 0 then 0 else if j = i then v else general r ! j)
         \<and> reg_write 0 v r = r \<and> reg_write (32 + k) v r = r \<and> reg_read r' 0 = Some 0"
  using assms by (auto simp: reg_read_def reg_write_def get_idx_def regs_ok_def)

lemma reg_read_write_witness:
  "reg_read (reg_write 5 7 registers_default) 5 = Some 7 \<and>
   reg_read (reg_write 31 7 registers_default) 30 = Some 0 \<and>
   reg_read \<lparr>general = [9], special = special_default\<rparr> 0 = Some 0"
  using reg_read_write[OF regs_ok_default, of 5 5 7 0 "\<lparr>general = [9], special = special_default\<rparr>"]
    reg_read_write[OF regs_ok_default, of 30 31 7]
  by (simp add: registers_default_def)

end
