(* ===== verification/Alu.thy ===== *)
theory Alu
  imports Prelude
begin

text \<open>
  \<open>ALU::execute\<close> of \<open>src/aiz32mips_core/src/alu.rs\<close>: a pure function of the operand
  values, the instruction fields and the current HI/LO. Casts follow Rust: \<open>as i32\<close> is
  \<open>sint\<close>, \<open>imm as i16 as i32 as u32\<close> is \<open>scast\<close>, \<open>as u64\<close> is \<open>ucast\<close>. Integer
  division and remainder on \<open>i32\<close> truncate towards zero (\<open>sdiv\<close>/\<open>smod\<close> of
  HOL-Library.Signed_Division) and panic on \<open>i32::MIN / -1\<close> in every build, which is
  \<open>None\<close> here. Shifts by a \<open>u8\<close> amount follow a release build, which masks the amount
  to five bits; every caller passes a five-bit field, so no other build differs.
\<close>

datatype alu_op =
    OpAdd | OpSub | OpAnd | OpOr | OpXor | OpNor | OpSlt | OpSltu | OpSll | OpSrl | OpSra
  | OpMult | OpMultu | OpDiv | OpDivu | OpMfhi | OpMflo | OpMthi | OpMtlo | OpLui | OpTeq
  | OpNone

record alu_result =
  res_value :: u32
  res_hi :: "u32 option"
  res_lo :: "u32 option"
  res_overflow :: bool
  res_op :: alu_op

definition alu_out :: "u32 \<Rightarrow> u32 option \<Rightarrow> u32 option \<Rightarrow> alu_op \<Rightarrow> alu_result" where
  "alu_out v h l op = \<lparr>res_value = v, res_hi = h, res_lo = l, res_overflow = False, res_op = op\<rparr>"

text \<open>The immediate (I-type) half, selected by the opcode.\<close>

definition alu_imm :: "u32 \<Rightarrow> u16 \<Rightarrow> u8 \<Rightarrow> alu_result" where
  "alu_imm rs_val imm opcode =
     (let imm_se = (scast imm :: u32) in
      if opcode = 0x08 then alu_out (rs_val + imm_se) None None OpAdd
      else if opcode = 0x09 then alu_out (rs_val + imm_se) None None OpAdd
      else if opcode = 0x0C then alu_out (rs_val AND ucast imm) None None OpAnd
      else if opcode = 0x0D then alu_out (rs_val OR ucast imm) None None OpOr
      else if opcode = 0x0E then alu_out (rs_val XOR ucast imm) None None OpXor
      else if opcode = 0x0A then alu_out (if sint rs_val < sint imm then 1 else 0) None None OpSlt
      else if opcode = 0x0B then alu_out (if rs_val < ucast imm then 1 else 0) None None OpSltu
      else if opcode = 0x0F then alu_out (push_bit 16 (ucast imm)) None None OpLui
      else alu_out 0 None None OpNone)"

text \<open>The products of MULT and MULTU as the source forms them in 64 bits.\<close>

definition mult_prod :: "u32 \<Rightarrow> u32 \<Rightarrow> u64" where
  "mult_prod a b = scast a * scast b"

definition multu_prod :: "u32 \<Rightarrow> u32 \<Rightarrow> u64" where
  "multu_prod a b = ucast a * ucast b"

definition hi_of :: "u64 \<Rightarrow> u32" where
  "hi_of p = ucast (drop_bit 32 p)"

definition lo_of :: "u64 \<Rightarrow> u32" where
  "lo_of p = ucast p"

text \<open>The register (R-type) half, selected by the function field.\<close>

definition alu_reg :: "u32 \<Rightarrow> u32 \<Rightarrow> u8 \<Rightarrow> u8 \<Rightarrow> u32 \<Rightarrow> u32 \<Rightarrow> alu_result option" where
  "alu_reg rs_val rt_val shamt funct hi_in lo_in =
     (let sa = unat shamt mod 32; sv = unat (rs_val AND 0x1F) in
      if funct = 0x20 \<or> funct = 0x21 then Some (alu_out (rs_val + rt_val) None None OpAdd)
      else if funct = 0x22 \<or> funct = 0x23 then Some (alu_out (rs_val - rt_val) None None OpSub)
      else if funct = 0x24 then Some (alu_out (rs_val AND rt_val) None None OpAnd)
      else if funct = 0x25 then Some (alu_out (rs_val OR rt_val) None None OpOr)
      else if funct = 0x26 then Some (alu_out (rs_val XOR rt_val) None None OpXor)
      else if funct = 0x27 then Some (alu_out (NOT (rs_val OR rt_val)) None None OpNor)
      else if funct = 0x2A then
        Some (alu_out (if sint rs_val < sint rt_val then 1 else 0) None None OpSlt)
      else if funct = 0x2B then Some (alu_out (if rs_val < rt_val then 1 else 0) None None OpSltu)
      else if funct = 0x34 then Some (alu_out (if rs_val = rt_val then 1 else 0) None None OpTeq)
      else if funct = 0x00 then Some (alu_out (push_bit sa rt_val) None None OpSll)
      else if funct = 0x02 then Some (alu_out (drop_bit sa rt_val) None None OpSrl)
      else if funct = 0x03 then Some (alu_out (signed_drop_bit sa rt_val) None None OpSra)
      else if funct = 0x04 then Some (alu_out (push_bit sv rt_val) None None OpSll)
      else if funct = 0x06 then Some (alu_out (drop_bit sv rt_val) None None OpSrl)
      else if funct = 0x07 then Some (alu_out (signed_drop_bit sv rt_val) None None OpSra)
      else if funct = 0x18 then
        (let p = mult_prod rs_val rt_val in Some (alu_out 0 (Some (hi_of p)) (Some (lo_of p)) OpMult))
      else if funct = 0x19 then
        (let p = multu_prod rs_val rt_val in Some (alu_out 0 (Some (hi_of p)) (Some (lo_of p)) OpMultu))
      else if funct = 0x1A then
        (if rt_val = 0 then Some (alu_out 0 None None OpDiv)
         else if sint rs_val = -(2 ^ 31) \<and> sint rt_val = -1 then None
         else Some (alu_out 0 (Some (word_of_int (sint rs_val smod sint rt_val)))
                      (Some (word_of_int (sint rs_val sdiv sint rt_val))) OpDiv))
      else if funct = 0x1B then
        (if rt_val = 0 then Some (alu_out 0 None None OpDivu)
         else Some (alu_out 0 (Some (rs_val mod rt_val)) (Some (rs_val div rt_val)) OpDivu))
      else if funct = 0x10 then Some (alu_out hi_in None None OpMfhi)
      else if funct = 0x12 then Some (alu_out lo_in None None OpMflo)
      else if funct = 0x11 then Some (alu_out 0 (Some rs_val) None OpMthi)
      else if funct = 0x13 then Some (alu_out 0 None (Some rs_val) OpMtlo)
      else Some (alu_out 0 None None OpNone))"

text \<open>
  HI:LO read as one 64-bit accumulator, as the MADD family of \<open>cpu.rs\<close> forms it:
  \<open>((hi as i64) << 32) | (lo as i64)\<close>.
\<close>

definition hilo :: "u32 \<Rightarrow> u32 \<Rightarrow> u64" where
  "hilo h l = push_bit 32 (ucast h) OR ucast l"

definition alu_execute ::
  "u32 \<Rightarrow> u32 \<Rightarrow> u8 \<Rightarrow> u16 \<Rightarrow> u8 \<Rightarrow> u8 \<Rightarrow> bool \<Rightarrow> u32 \<Rightarrow> u32 \<Rightarrow> alu_result option" where
  "alu_execute rs_val rt_val shamt imm opcode funct inmediate hi_in lo_in =
     (if inmediate then Some (alu_imm rs_val imm opcode)
      else alu_reg rs_val rt_val shamt funct hi_in lo_in)"

subsection \<open>Properties\<close>

lemma hilo_split: "hilo (hi_of p) (lo_of p) = p"
  unfolding hilo_def hi_of_def lo_of_def
  by (rule bit_word_eqI) (auto simp: bit_simps dest: bit_imp_le_length split: if_splits)

lemma alu_out_inject [simp]:
  "alu_out v h l op = alu_out v' h' l' op' \<longleftrightarrow> v = v' \<and> h = h' \<and> l = l' \<and> op = op'"
  by (simp add: alu_out_def)

lemma sint_of_int_in_range:
  "- (2 ^ (LENGTH('a) - 1)) \<le> x \<Longrightarrow> x < 2 ^ (LENGTH('a) - 1) \<Longrightarrow> sint (word_of_int x :: 'a::len word) = x"
  by (simp add: sint_sbintrunc' signed_take_bit_int_eq_self)

lemma sint_mult_prod: "sint (mult_prod a b) = sint a * sint b"
proof -
  have a: "\<bar>sint a\<bar> \<le> 2 ^ 31" and b: "\<bar>sint b\<bar> \<le> 2 ^ 31"
    using sint_ge[of a] sint_lt[of a] sint_ge[of b] sint_lt[of b] by auto
  have "\<bar>sint a\<bar> * \<bar>sint b\<bar> \<le> 2 ^ 31 * 2 ^ 31"
    by (rule mult_mono[OF a b]) simp_all
  then have "\<bar>sint a * sint b\<bar> \<le> 2 ^ 31 * 2 ^ 31"
    by (simp add: abs_mult)
  then have lo: "- (2 ^ (LENGTH(64) - 1)) \<le> sint a * sint b"
    and up: "sint a * sint b < 2 ^ (LENGTH(64) - 1)"
    by (simp_all add: abs_le_iff)
  have eq: "mult_prod a b = word_of_int (sint a * sint b)"
    by (simp add: mult_prod_def)
  show ?thesis
    unfolding eq by (rule sint_of_int_in_range[OF lo up])
qed

lemma unat_ucast_u64: "unat (ucast (a::u32) :: u64) = unat a"
proof -
  have "unat a < 2 ^ LENGTH(32)" by (rule unsigned_less)
  then have "unat a < 2 ^ 64" by simp
  then show ?thesis
    by (simp add: unsigned_ucast_eq take_bit_nat_eq_self)
qed

lemma unat_multu_prod: "unat (multu_prod a b) = unat a * unat b"
proof -
  have a: "unat a < 2 ^ LENGTH(32)" and b: "unat b < 2 ^ LENGTH(32)"
    by (rule unsigned_less)+
  have "unat a * unat b < 2 ^ LENGTH(32) * 2 ^ LENGTH(32)"
    using a b by (rule mult_strict_mono) simp_all
  then have "unat (ucast a :: u64) * unat (ucast b :: u64) < 2 ^ LENGTH(64)"
    by (simp add: unat_ucast_u64)
  then have "unat (ucast a * ucast b :: u64) = unat (ucast a :: u64) * unat (ucast b :: u64)"
    by (rule unat_mult_lem[THEN iffD1])
  then show ?thesis
    by (simp add: multu_prod_def unat_ucast_u64)
qed

lemma sint_min: "sint (w::u32) = - 2147483648 \<longleftrightarrow> w = 0x80000000"
proof
  assume "sint w = - 2147483648"
  then have "sint w = sint (0x80000000 :: u32)" by simp
  then show "w = 0x80000000" by (rule signed_word_eqI)
qed simp

lemma sint_minus1: "sint (w::u32) = - 1 \<longleftrightarrow> w = 0xFFFFFFFF"
proof
  assume "sint w = - 1"
  then have "sint w = sint (0xFFFFFFFF :: u32)" by simp
  then show "w = 0xFFFFFFFF" by (rule signed_word_eqI)
qed simp

text \<open>
  C27: the ALU panics (the Rust division \<open>i32::MIN / -1\<close> overflows) exactly for DIV of
  0x80000000 by 0xFFFFFFFF; every other input, immediate or register form, gives a result.
\<close>

lemma alu_execute_None:
  "alu_execute rs rt sh imm opc f im h l = None \<longleftrightarrow>
     \<not> im \<and> f = 0x1A \<and> rs = 0x80000000 \<and> rt = 0xFFFFFFFF"
  by (auto simp: alu_execute_def alu_reg_def Let_def sint_min sint_minus1)

text \<open>
  C28: MULT writes to HI:LO the exact signed 64-bit product of the two operands.
\<close>

lemma alu_mult:
  "\<exists>h' l'. alu_execute rs rt sh imm opc 0x18 False h l = Some (alu_out 0 (Some h') (Some l') OpMult)
     \<and> sint (hilo h' l') = sint rs * sint rt"
  by (simp add: alu_execute_def alu_reg_def Let_def hilo_split sint_mult_prod)

text \<open>
  MULTU writes to HI:LO the exact unsigned 64-bit product of the two operands.
\<close>

lemma alu_multu:
  "\<exists>h' l'. alu_execute rs rt sh imm opc 0x19 False h l = Some (alu_out 0 (Some h') (Some l') OpMultu)
     \<and> unat (hilo h' l') = unat rs * unat rt"
  by (simp add: alu_execute_def alu_reg_def Let_def hilo_split unat_multu_prod)

text \<open>
  C31: SRA is an arithmetic shift: the signed result is the signed operand divided by
  2 to the shift amount, rounded down; HI and LO are not written.
\<close>

lemma alu_sra:
  "\<exists>v. alu_execute rs rt sh imm opc 0x03 False h l = Some (alu_out v None None OpSra)
     \<and> sint v = sint rt div 2 ^ (unat sh mod 32)"
  by (simp add: alu_execute_def alu_reg_def sint_signed_drop_bit_eq drop_bit_eq_div)

text \<open>
  DIVU with a non-zero divisor puts the unsigned quotient in LO and the remainder in
  HI: quotient times divisor plus remainder is the dividend, and the remainder is smaller
  than the divisor.
\<close>

lemma alu_divu:
  assumes "rt \<noteq> 0"
  shows "\<exists>q r. alu_execute rs rt sh imm opc 0x1B False h l = Some (alu_out 0 (Some r) (Some q) OpDivu)
     \<and> unat q * unat rt + unat r = unat rs \<and> r < rt"
  using assms by (simp add: alu_execute_def alu_reg_def unat_div unat_mod word_mod_less_divisor
      word_neq_0_conv)

text \<open>
  C30: DIV and DIVU by zero produce neither HI nor LO, so both registers keep their value;
  no trap is raised.
\<close>

lemma alu_div_by_zero:
  "f = 0x1A \<or> f = 0x1B \<Longrightarrow>
     \<exists>op. alu_execute rs 0 sh imm opc f False h l = Some (alu_out 0 None None op)"
  by (auto simp: alu_execute_def alu_reg_def)

lemma sdiv_in_range:
  fixes x y :: int
  assumes "- (2 ^ 31) \<le> x" "x < 2 ^ 31" "y \<noteq> 0" "\<not> (x = - (2 ^ 31) \<and> y = - 1)"
  shows "- (2 ^ 31) \<le> x sdiv y \<and> x sdiv y < 2 ^ 31"
proof -
  have "\<bar>x\<bar> div \<bar>y\<bar> \<le> \<bar>x\<bar> div 1"
    using assms(3) by (intro zdiv_mono2) auto
  then have q: "\<bar>x\<bar> div \<bar>y\<bar> \<le> \<bar>x\<bar>" by simp
  have ax: "\<bar>x\<bar> \<le> 2 ^ 31" using assms(1,2) by simp
  have e: "x sdiv y = sgn x * sgn y * (\<bar>x\<bar> div \<bar>y\<bar>)"
    by (simp add: signed_divide_int_def)
  show ?thesis
  proof (cases "\<bar>x\<bar> div \<bar>y\<bar> = 2 ^ 31")
    case True
    with q ax have "\<bar>x\<bar> = 2 ^ 31" by simp
    with assms(2) have x: "x = - (2 ^ 31)" by (auto simp: abs_if split: if_splits)
    have "\<bar>y\<bar> = 1"
    proof (rule ccontr)
      assume "\<bar>y\<bar> \<noteq> 1"
      with assms(3) have "1 < \<bar>y\<bar>" by linarith
      then have "\<bar>x\<bar> div \<bar>y\<bar> < \<bar>x\<bar>"
        using x by (intro int_div_less_self) simp_all
      with True x show False by simp
    qed
    with assms(4) x have "y = 1" by (auto simp: abs_if split: if_splits)
    with x show ?thesis by simp
  next
    case False
    with q ax have "\<bar>x\<bar> div \<bar>y\<bar> < 2 ^ 31" by simp
    moreover have "0 \<le> \<bar>x\<bar> div \<bar>y\<bar>" by (simp add: div_int_pos_iff)
    ultimately show ?thesis
      unfolding e by (auto simp: sgn_if)
  qed
qed

lemma smod_bounds:
  fixes x y :: int
  assumes "y \<noteq> 0"
  shows "\<bar>x smod y\<bar> < \<bar>y\<bar> \<and> (x smod y = 0 \<or> sgn (x smod y) = sgn x)"
proof -
  have m: "0 \<le> \<bar>x\<bar> mod \<bar>y\<bar>" "\<bar>x\<bar> mod \<bar>y\<bar> < \<bar>y\<bar>"
    using assms by simp_all
  then show ?thesis
    by (auto simp: smod_int_alt_def abs_mult sgn_mult sgn_if)
qed

lemma sint_eq_0: "sint (w::u32) = 0 \<longleftrightarrow> w = 0"
proof
  assume "sint w = 0"
  then have "sint w = sint (0 :: u32)" by simp
  then show "w = 0" by (rule signed_word_eqI)
qed simp

text \<open>
  C29: DIV with a non-zero divisor (and not the overflowing 0x80000000 / -1) puts the
  quotient truncated towards zero in LO and the remainder in HI: quotient times divisor
  plus remainder is the dividend, the remainder is smaller than the divisor in magnitude
  and has the sign of the dividend.
\<close>

lemma alu_div:
  assumes nz: "rt \<noteq> 0" and no_ovf: "\<not> (rs = 0x80000000 \<and> rt = 0xFFFFFFFF)"
  shows "\<exists>q r. alu_execute rs rt sh imm opc 0x1A False h l = Some (alu_out 0 (Some r) (Some q) OpDiv)
     \<and> sint q * sint rt + sint r = sint rs \<and> \<bar>sint r\<bar> < \<bar>sint rt\<bar>
     \<and> (sint r = 0 \<or> sgn (sint r) = sgn (sint rs))"
proof -
  let ?x = "sint rs" and ?y = "sint rt"
  have y: "?y \<noteq> 0" using nz by (simp add: sint_eq_0)
  have nov: "\<not> (?x = - (2 ^ 31) \<and> ?y = - 1)"
    using no_ovf by (simp add: sint_min sint_minus1)
  have xb: "- (2 ^ 31) \<le> ?x" "?x < 2 ^ 31"
    using sint_ge[of rs] sint_lt[of rs] by simp_all
  have yb: "\<bar>?y\<bar> \<le> 2 ^ 31"
    using sint_ge[of rt] sint_lt[of rt] by simp
  have qr: "- (2 ^ 31) \<le> ?x sdiv ?y \<and> ?x sdiv ?y < 2 ^ 31"
    using sdiv_in_range[OF xb y nov] .
  have sm: "\<bar>?x smod ?y\<bar> < \<bar>?y\<bar> \<and> (?x smod ?y = 0 \<or> sgn (?x smod ?y) = sgn ?x)"
    using smod_bounds[OF y] .
  have sq: "sint (word_of_int (?x sdiv ?y) :: u32) = ?x sdiv ?y"
    using qr by (intro sint_of_int_in_range) simp_all
  have sr: "sint (word_of_int (?x smod ?y) :: u32) = ?x smod ?y"
    using sm yb by (intro sint_of_int_in_range) (simp_all add: abs_less_iff)
  have eq: "?x sdiv ?y * ?y + ?x smod ?y = ?x"
    by (rule sdiv_mult_smod_eq)
  have "alu_execute rs rt sh imm opc 0x1A False h l =
          Some (alu_out 0 (Some (word_of_int (?x smod ?y))) (Some (word_of_int (?x sdiv ?y))) OpDiv)"
    using nz nov by (simp add: alu_execute_def alu_reg_def)
  with sq sr eq sm show ?thesis by auto
qed

lemma alu_divu_witness:
  "(3::u32) \<noteq> 0 \<and> (\<exists>q r. alu_execute 7 3 0 0 0 0x1B False 0 0 = Some (alu_out 0 (Some r) (Some q) OpDivu)
     \<and> unat q * unat (3::u32) + unat r = unat (7::u32) \<and> r < 3)"
  using alu_divu[where rt = 3 and rs = 7 and sh = 0 and imm = 0 and opc = 0 and h = 0 and l = 0]
  by simp

lemma alu_div_witness:
  "(0xFFFFFFFE::u32) \<noteq> 0 \<and> \<not> ((7::u32) = 0x80000000 \<and> (0xFFFFFFFE::u32) = 0xFFFFFFFF) \<and>
   (\<exists>q r. alu_execute 7 0xFFFFFFFE 0 0 0 0x1A False 0 0 = Some (alu_out 0 (Some r) (Some q) OpDiv)
     \<and> sint q * sint (0xFFFFFFFE::u32) + sint r = sint (7::u32)
     \<and> \<bar>sint r\<bar> < \<bar>sint (0xFFFFFFFE::u32)\<bar> \<and> (sint r = 0 \<or> sgn (sint r) = sgn (sint (7::u32))))"
  using alu_div[where rt = "0xFFFFFFFE" and rs = 7 and sh = 0 and imm = 0 and opc = 0 and h = 0 and l = 0]
  by simp

lemma alu_div_by_zero_witness:
  "((0x1A::u8) = 0x1A \<or> (0x1A::u8) = 0x1B) \<and>
   (\<exists>op. alu_execute 9 0 0 0 0 0x1A False 5 6 = Some (alu_out 0 None None op))"
  using alu_div_by_zero[where f = "0x1A" and rs = 9 and sh = 0 and imm = 0 and opc = 0 and h = 5 and l = 6]
  by simp

end
