(* ===== verification/Devices.thy ===== *)
theory Devices
  imports Prelude
begin

text \<open>
  The byte-addressed memory devices of \<open>src/aiz32mips_core/src/devices/\<close> (\<open>ram.rs\<close>,
  \<open>rom.rs\<close>, \<open>vram.rs\<close>) and the error type of \<open>memory.rs\<close>. The three structs have
  the same fields, a base physical address and a byte vector, so they share one record;
  each keeps its own operations. A device access returns \<open>MemResult\<close>, the sum
  \<open>mem_error + 'a\<close> with the error on the left. A byte write either succeeds with the
  new device or fails with the device unchanged, so the result carries the device.
  Lengths and offsets are \<open>usize\<close>, i.e. \<open>nat\<close>; \<open>len() as u32\<close> is \<open>word_of_nat\<close>.
\<close>

datatype mem_error =
    AddressErrorLoad u32
  | AddressErrorStore u32
  | Unmapped u32
  | RomWrite u32

type_synonym 'a mem_result = "mem_error + 'a"

record byte_dev =
  base :: u32
  data :: bytes

text \<open>\<open>Ram::new\<close> and \<open>GpuVram::new\<close> zero-fill; \<open>Rom::new\<close> takes the image.\<close>

definition ram_new :: "u32 \<Rightarrow> nat \<Rightarrow> byte_dev" where
  "ram_new b sz = \<lparr>base = b, data = replicate sz 0\<rparr>"

definition rom_new :: "u32 \<Rightarrow> bytes \<Rightarrow> byte_dev" where
  "rom_new b img = \<lparr>base = b, data = img\<rparr>"

text \<open>
  \<open>offset\<close> / \<open>to_off\<close>: the wrapping distance from the base, valid below the length.
\<close>

definition dev_offset :: "byte_dev \<Rightarrow> u32 \<Rightarrow> nat option" where
  "dev_offset d paddr = (let off = unat (paddr - base d) in if off < length (data d) then Some off else None)"

text \<open>
  \<open>range\<close>: the inclusive interval \<open>base ..= base + len - 1\<close>, computed in \<open>u32\<close>
  (\<open>wrapping_add\<close> in RAM and ROM; VRAM's plain \<open>+\<close> is the same value in a release build).
\<close>

definition mem_range :: "byte_dev \<Rightarrow> u32 \<times> u32" where
  "mem_range d = (base d, base d + (word_of_nat (length (data d)) - 1))"

definition mem_read8 :: "byte_dev \<Rightarrow> u32 \<Rightarrow> u8 mem_result" where
  "mem_read8 d paddr =
     (case dev_offset d paddr of Some off \<Rightarrow> Inr (data d ! off) | None \<Rightarrow> Inl (Unmapped paddr))"

definition ram_write8 :: "byte_dev \<Rightarrow> u32 \<Rightarrow> u8 \<Rightarrow> byte_dev mem_result" where
  "ram_write8 d paddr v =
     (case dev_offset d paddr of
        Some off \<Rightarrow> Inr (d\<lparr>data := (data d)[off := v]\<rparr>)
      | None \<Rightarrow> Inl (Unmapped paddr))"

text \<open>
  \<open>Rom\<close> (\<open>rom.rs\<close>) repeats RAM's \<open>offset\<close>, \<open>range\<close> and \<open>read8\<close> on its image.
\<close>

definition rom_offset :: "byte_dev \<Rightarrow> u32 \<Rightarrow> nat option" where
  "rom_offset d paddr = (let off = unat (paddr - base d) in if off < length (data d) then Some off else None)"

definition rom_range :: "byte_dev \<Rightarrow> u32 \<times> u32" where
  "rom_range d = (base d, base d + (word_of_nat (length (data d)) - 1))"

definition rom_read8 :: "byte_dev \<Rightarrow> u32 \<Rightarrow> u8 mem_result" where
  "rom_read8 d paddr =
     (case rom_offset d paddr of Some off \<Rightarrow> Inr (data d ! off) | None \<Rightarrow> Inl (Unmapped paddr))"

text \<open>\<open>Rom::write8\<close> refuses every write, in range or not.\<close>

definition rom_write8 :: "byte_dev \<Rightarrow> u32 \<Rightarrow> u8 \<Rightarrow> byte_dev mem_result" where
  "rom_write8 d paddr v = Inl (RomWrite paddr)"

text \<open>
  \<open>GpuVram\<close> (\<open>vram.rs\<close>): its own \<open>to_off\<close>, \<open>range_bounds\<close> with plain \<open>+\<close> and
  \<open>-\<close> (wrapping in a release build), and \<open>read8\<close>/\<open>write8\<close> on the buffer the GPU
  also draws into.
\<close>

definition vram_to_off :: "byte_dev \<Rightarrow> u32 \<Rightarrow> nat option" where
  "vram_to_off d paddr = (let off = unat (paddr - base d) in if off < length (data d) then Some off else None)"

definition vram_range :: "byte_dev \<Rightarrow> u32 \<times> u32" where
  "vram_range d = (base d, base d + word_of_nat (length (data d)) - 1)"

definition vram_read8 :: "byte_dev \<Rightarrow> u32 \<Rightarrow> u8 mem_result" where
  "vram_read8 d paddr =
     (case vram_to_off d paddr of Some off \<Rightarrow> Inr (data d ! off) | None \<Rightarrow> Inl (Unmapped paddr))"

definition vram_write8 :: "byte_dev \<Rightarrow> u32 \<Rightarrow> u8 \<Rightarrow> byte_dev mem_result" where
  "vram_write8 d paddr v =
     (case vram_to_off d paddr of
        Some off \<Rightarrow> Inr (d\<lparr>data := (data d)[off := v]\<rparr>)
      | None \<Rightarrow> Inl (Unmapped paddr))"

subsection \<open>Lemmas\<close>

lemma vram_to_off_eq [simp]: "vram_to_off = dev_offset"
  by (simp add: fun_eq_iff vram_to_off_def dev_offset_def)

text \<open>The ROM's copies of the RAM code are the RAM's operations.\<close>

lemma rom_as_ram [simp]: "rom_offset = dev_offset" "rom_range = mem_range" "rom_read8 = mem_read8"
  by (simp_all add: fun_eq_iff rom_offset_def dev_offset_def rom_range_def mem_range_def
      rom_read8_def mem_read8_def)

lemma dev_offset_Some:
  "dev_offset d paddr = Some off \<longleftrightarrow> off = unat (paddr - base d) \<and> off < length (data d)"
  by (auto simp: dev_offset_def Let_def)

lemma ram_write8_length:
  "ram_write8 d p v = Inr d' \<Longrightarrow> length (data d') = length (data d) \<and> base d' = base d"
  by (auto simp: ram_write8_def split: option.splits)

lemma unat_sub_inj:
  assumes "unat (q - b) = unat (p - b)"
  shows "q = (p::'a::len word)"
proof -
  from assms have "q - b = p - b" by (rule unsigned_word_eqI)
  then show ?thesis by simp
qed

lemma dev_offset_same:
  "dev_offset d q = Some off \<Longrightarrow> dev_offset d p = Some off \<Longrightarrow> q = p"
  unfolding dev_offset_Some by (auto dest: unat_sub_inj)

lemma mem_read8_ram_write8:
  assumes "ram_write8 d p v = Inr d'"
  shows "mem_read8 d' q = (if q = p then Inr v else mem_read8 d q)"
proof -
  from assms obtain off where off: "dev_offset d p = Some off"
    and d': "d' = d\<lparr>data := (data d)[off := v]\<rparr>"
    by (auto simp: ram_write8_def split: option.splits)
  have same: "dev_offset d' q = dev_offset d q"
    using d' by (simp add: dev_offset_def)
  show ?thesis
  proof (cases "dev_offset d q")
    case None
    then show ?thesis using off same by (auto simp: mem_read8_def)
  next
    case (Some k)
    have "k < length (data d)" using Some by (simp add: dev_offset_Some)
    moreover have "k = off \<longleftrightarrow> q = p"
      using Some off dev_offset_same by (auto simp: dev_offset_Some)
    ultimately show ?thesis using Some same d' by (auto simp: mem_read8_def)
  qed
qed

subsection \<open>Properties\<close>

text \<open>
  C36: the video memory device behaves exactly as RAM: the same range, the same byte
  read and the same byte write (offset check, error and update) on every device and
  address.
\<close>

theorem vram_as_ram:
  "vram_range d = mem_range d \<and> vram_read8 d p = mem_read8 d p \<and> vram_write8 d p v = ram_write8 d p v"
  by (simp add: vram_range_def mem_range_def vram_read8_def mem_read8_def vram_write8_def
      ram_write8_def add_diff_eq)

end
