(* ===== verification/GpuFifo.thy ===== *)
theory GpuFifo
  imports Prelude
begin

text \<open>
  The GPU's parameter FIFO (\<open>struct Fifo\<close> in \<open>src/aiz32mips_core/src/devices/gpu.rs\<close>):
  a fixed array of 256 \<open>u16\<close> entries and a fill index \<open>head\<close>. The array is a list
  whose length the invariant \<open>fifo_ok\<close> fixes at 256. Indexing and \<open>copy_within\<close>
  panic out of range; that is \<open>None\<close>, and the invariant rules it out. The abstract
  specification is a bounded queue (\<open>q_push\<close>, \<open>q_pop\<close>) of the entries
  \<open>take head buf\<close>; the lemmas show that every operation refines it and keeps the
  invariant, and that \<open>read_u16\<close> (unused by the commands) reads the newest entry.
\<close>

record fifo =
  fbuf :: "u16 list"
  fhead :: nat

definition fifo_cap :: nat where
  "fifo_cap = 256"

definition fifo_new :: fifo where
  "fifo_new = \<lparr>fbuf = replicate 256 0, fhead = 0\<rparr>"

definition fifo_reset :: "fifo \<Rightarrow> fifo" where
  "fifo_reset f = f\<lparr>fhead := 0\<rparr>"

text \<open>\<open>push\<close>: a full FIFO drops the value.\<close>

definition fifo_push :: "u16 \<Rightarrow> fifo \<Rightarrow> fifo" where
  "fifo_push v f =
     (if fhead f < length (fbuf f) then f\<lparr>fbuf := (fbuf f)[fhead f := v], fhead := fhead f + 1\<rparr>
      else f)"

text \<open>\<open>read_u16\<close>: \<open>head -= 1; buf[head]\<close>, the entry pushed last.\<close>

definition fifo_read_u16 :: "fifo \<Rightarrow> (u16 \<times> fifo) option" where
  "fifo_read_u16 f =
     (if min (fhead f) (length (fbuf f)) = 0 then Some (0, f)
      else map_option (\<lambda>v. (v, f\<lparr>fhead := fhead f - 1\<rparr>)) (get_idx (fbuf f) (fhead f - 1)))"

text \<open>
  \<open>pop\<close>: the entry at index 0, then \<open>buf.copy_within(1..head, 0)\<close> shifts the rest
  down by one (it panics when \<open>head\<close> exceeds the array) and \<open>head\<close> decreases.
\<close>

definition fifo_pop :: "fifo \<Rightarrow> (u16 \<times> fifo) option" where
  "fifo_pop f =
     (if fhead f = 0 then Some (0, f)
      else if fhead f \<le> length (fbuf f) then
        Some (fbuf f ! 0,
              f\<lparr>fbuf := take (fhead f - 1) (drop 1 (fbuf f)) @ drop (fhead f - 1) (fbuf f),
                fhead := fhead f - 1\<rparr>)
      else None)"

text \<open>\<open>pop_u32\<close>: \<open>(pop() as u32) | ((pop() as u32) << 16)\<close>, the low half popped first.\<close>

definition fifo_pop_u32 :: "fifo \<Rightarrow> (u32 \<times> fifo) option" where
  "fifo_pop_u32 f = do {
     (lo, f1) \<leftarrow> fifo_pop f;
     (hi, f2) \<leftarrow> fifo_pop f1;
     Some (ucast lo OR push_bit 16 (ucast hi), f2)
   }"

subsection \<open>Abstract queue\<close>

definition fifo_ok :: "fifo \<Rightarrow> bool" where
  "fifo_ok f \<longleftrightarrow> length (fbuf f) = fifo_cap \<and> fhead f \<le> fifo_cap"

definition fifo_list :: "fifo \<Rightarrow> u16 list" where
  "fifo_list f = take (fhead f) (fbuf f)"

text \<open>A bounded queue: a push beyond 256 entries is lost; popping the empty queue gives 0.\<close>

definition q_push :: "u16 \<Rightarrow> u16 list \<Rightarrow> u16 list" where
  "q_push v q = (if length q < fifo_cap then q @ [v] else q)"

fun q_pop :: "u16 list \<Rightarrow> u16 \<times> u16 list" where
  "q_pop [] = (0, [])"
| "q_pop (x # xs) = (x, xs)"

definition q_pop_u32 :: "u16 list \<Rightarrow> u32 \<times> u16 list" where
  "q_pop_u32 q = (let (lo, q1) = q_pop q; (hi, q2) = q_pop q1 in (ucast lo OR push_bit 16 (ucast hi), q2))"

subsection \<open>Refinement\<close>

lemma fifo_ok_new [simp]: "fifo_ok fifo_new" and fifo_list_new [simp]: "fifo_list fifo_new = []"
  by (simp_all add: fifo_ok_def fifo_new_def fifo_cap_def fifo_list_def)

lemma fifo_reset_refines [simp]:
  "fifo_ok f \<Longrightarrow> fifo_ok (fifo_reset f)" "fifo_list (fifo_reset f) = []"
  by (simp_all add: fifo_ok_def fifo_reset_def fifo_list_def)

lemma length_fifo_list: "fifo_ok f \<Longrightarrow> length (fifo_list f) = fhead f"
  by (simp add: fifo_ok_def fifo_list_def)

lemma fifo_push_step:
  assumes "fifo_ok f"
  shows "fifo_ok (fifo_push v f) \<and> fifo_list (fifo_push v f) = q_push v (fifo_list f)"
  using assms
  by (auto simp: fifo_ok_def fifo_push_def fifo_list_def q_push_def take_Suc_conv_app_nth
      min_def)

lemma take_shift_down:
  assumes "0 < h" "h \<le> length b"
  shows "take (h - 1) (take (h - 1) (drop 1 b) @ drop (h - 1) b) = tl (take h b)"
  using assms by (simp add: tl_take drop_Suc)

lemma fifo_pop_step:
  assumes "fifo_ok f"
  shows "\<exists>f'. fifo_pop f = Some (fst (q_pop (fifo_list f)), f') \<and> fifo_ok f'
              \<and> fifo_list f' = snd (q_pop (fifo_list f))"
proof (cases "fhead f = 0")
  case True
  then show ?thesis using assms by (simp add: fifo_pop_def fifo_list_def)
next
  case False
  define b h where "b = fbuf f" and "h = fhead f"
  have len: "h \<le> length b" "length b = fifo_cap" "0 < h"
    using assms False by (simp_all add: fifo_ok_def b_def h_def)
  then obtain x xs where q: "take h b = x # xs" and x: "x = b ! 0"
    by (cases b) (auto simp: take_Cons')
  define b' where "b' = take (h - 1) (drop 1 b) @ drop (h - 1) b"
  have "length b' = fifo_cap" using len by (simp add: b'_def)
  moreover have "take (h - 1) b' = xs"
    using take_shift_down[OF len(3,1)] q by (simp add: b'_def)
  moreover have "fifo_pop f = Some (x, f\<lparr>fbuf := b', fhead := h - 1\<rparr>)"
    using False len x by (simp add: fifo_pop_def b_def h_def b'_def)
  ultimately show ?thesis
    using len q by (simp add: fifo_ok_def fifo_list_def h_def[symmetric] b_def[symmetric])
qed

lemma fifo_pop_u32_step:
  assumes "fifo_ok f"
  shows "\<exists>f'. fifo_pop_u32 f = Some (fst (q_pop_u32 (fifo_list f)), f') \<and> fifo_ok f'
              \<and> fifo_list f' = snd (q_pop_u32 (fifo_list f))"
proof -
  obtain f1 where 1: "fifo_pop f = Some (fst (q_pop (fifo_list f)), f1)" "fifo_ok f1"
    "fifo_list f1 = snd (q_pop (fifo_list f))"
    using fifo_pop_step[OF assms] by blast
  obtain f2 where 2: "fifo_pop f1 = Some (fst (q_pop (fifo_list f1)), f2)" "fifo_ok f2"
    "fifo_list f2 = snd (q_pop (fifo_list f1))"
    using fifo_pop_step[OF 1(2)] by blast
  show ?thesis using 1 2 by (simp add: fifo_pop_u32_def q_pop_u32_def split_def Let_def)
qed

text \<open>Pushing a sequence keeps its first entries up to the capacity, in order.\<close>

lemma q_push_fold: "length q \<le> fifo_cap \<Longrightarrow> fold q_push vs q = take fifo_cap (q @ vs)"
proof (induction vs arbitrary: q)
  case Nil
  then show ?case by simp
next
  case (Cons v vs)
  show ?case
  proof (cases "length q < fifo_cap")
    case True
    then show ?thesis using Cons.IH[of "q @ [v]"] by (simp add: q_push_def)
  next
    case False
    then have "length q = fifo_cap" using Cons.prems by simp
    then show ?thesis using Cons.IH[of q] by (simp add: q_push_def)
  qed
qed

lemma fifo_push_fold:
  "fifo_ok f \<Longrightarrow> fifo_ok (fold fifo_push vs f) \<and> fifo_list (fold fifo_push vs f) = fold q_push vs (fifo_list f)"
  by (induction vs arbitrary: f) (simp_all add: fifo_push_step)

lemma fifo_pop_len: "fifo_pop f = Some (x, f') \<Longrightarrow> length (fbuf f') = length (fbuf f)"
  by (auto simp: fifo_pop_def split: if_splits)

lemma fifo_pop_u32_len: "fifo_pop_u32 f = Some (x, f') \<Longrightarrow> length (fbuf f') = length (fbuf f)"
  by (auto simp: fifo_pop_u32_def bind_eq_Some_conv dest!: fifo_pop_len)

subsection \<open>Properties\<close>

text \<open>
  C8: the FIFO refines a bounded queue of 256 entries: on a well-formed FIFO, \<open>push\<close>
  appends unless full, \<open>pop\<close> and \<open>pop_u32\<close> take from the front (0 when empty)
  without panicking, \<open>reset\<close> empties it, and each keeps the invariant.
\<close>

theorem fifo_refines:
  assumes "fifo_ok f"
  shows "(fifo_ok (fifo_push v f) \<and> fifo_list (fifo_push v f) = q_push v (fifo_list f))
    \<and> (\<exists>f'. fifo_pop f = Some (fst (q_pop (fifo_list f)), f') \<and> fifo_ok f'
              \<and> fifo_list f' = snd (q_pop (fifo_list f)))
    \<and> (\<exists>f'. fifo_pop_u32 f = Some (fst (q_pop_u32 (fifo_list f)), f') \<and> fifo_ok f'
              \<and> fifo_list f' = snd (q_pop_u32 (fifo_list f)))
    \<and> fifo_ok (fifo_reset f) \<and> fifo_list (fifo_reset f) = []"
  using assms fifo_push_step fifo_pop_step fifo_pop_u32_step by simp

text \<open>Pushing 7 then 9 on the empty FIFO and popping both gives \<open>0x00090007\<close>.\<close>

lemma fifo_refines_witness:
  "\<exists>f'. fifo_pop_u32 (fifo_push 9 (fifo_push 7 fifo_new)) = Some (0x00090007, f') \<and> fifo_list f' = []"
proof -
  have 1: "fifo_ok (fifo_push 7 fifo_new)" "fifo_list (fifo_push 7 fifo_new) = [7]"
    using fifo_refines[OF fifo_ok_new, of 7] by (simp_all add: q_push_def fifo_cap_def)
  then have 2: "fifo_ok (fifo_push 9 (fifo_push 7 fifo_new))"
    "fifo_list (fifo_push 9 (fifo_push 7 fifo_new)) = [7, 9]"
    using fifo_refines[OF 1(1), of 9] by (simp_all add: q_push_def fifo_cap_def)
  have "q_pop_u32 [7, 9] = (0x00090007, [])" by (simp add: q_pop_u32_def)
  then show ?thesis using fifo_refines[OF 2(1), of 0] 2(2) by auto
qed

end
