(* ===== verification/Gpu.thy ===== *)
theory Gpu
  imports Prelude
begin

text \<open>
  The raster engine of \<open>GpuMmio\<close> (\<open>src/aiz32mips_core/src/devices/gpu.rs\<close>): the
  register file \<open>Registers\<close>, the BUSY flag, the pixel addressing (\<open>pitch_bytes\<close>,
  \<open>clamp_to_fb\<close>, \<open>put_pixel_32\<close>), \<open>lerp\<close>, and the drawing commands \<open>cmd_*\<close>.
  The GPU reaches video memory through a raw pointer to the \<open>GpuVram\<close> device; here
  every command takes the bytes of that device and returns them updated, which is the
  per-call handle that the spec's design notes recommend and has the same effect.
  Each command sets BUSY, runs its body and clears BUSY on every exit path
  (\<open>busy_cmd\<close>); a slice access out of range panics, which is \<open>None\<close>.
  \<open>i32\<close> coordinates are \<open>int\<close>: they are \<open>u16\<close> values plus or minus one, so
  no \<open>i32\<close> arithmetic of these routines can overflow. \<open>usize\<close> is \<open>nat\<close>: the
  products of \<open>u16\<close> and \<open>u32\<close> values stay far below \<open>2^64\<close>.
  Bresenham's line is in \<open>GpuLine\<close>, command dispatch and the MMIO window in \<open>GpuMmio\<close>.
\<close>

record gpu_regs =
  gwidth :: u16
  gheight :: u16
  gpitch :: u16
  gbpp :: u8
  fb_addr :: u32
  gstatus :: u32
  font_addr :: u32
  font_w :: u8
  font_h :: u8
  palette_addr :: u32

text \<open>\<open>#[derive(Default)]\<close>: every register zero.\<close>

definition gpu_regs_default :: gpu_regs where
  "gpu_regs_default = \<lparr>gwidth = 0, gheight = 0, gpitch = 0, gbpp = 0, fb_addr = 0, gstatus = 0,
     font_addr = 0, font_w = 0, font_h = 0, palette_addr = 0\<rparr>"

definition set_busy :: "bool \<Rightarrow> gpu_regs \<Rightarrow> gpu_regs" where
  "set_busy busy r =
     (if busy then r\<lparr>gstatus := gstatus r OR 1\<rparr> else r\<lparr>gstatus := gstatus r AND NOT 1\<rparr>)"

text \<open>
  The common frame of the commands: \<open>set_busy(true)\<close>, the body on the registers so
  updated, \<open>set_busy(false)\<close>. A body's early \<open>return\<close> is \<open>Some\<close> of the bytes as
  they are; the source clears BUSY before each such return.
\<close>

definition busy_cmd :: "gpu_regs \<Rightarrow> (gpu_regs \<Rightarrow> bytes \<Rightarrow> bytes option) \<Rightarrow> bytes
                        \<Rightarrow> (gpu_regs \<times> bytes) option" where
  "busy_cmd r body vram =
     (let r1 = set_busy True r in map_option (\<lambda>v. (set_busy False r1, v)) (body r1 vram))"

definition pitch_bytes :: "gpu_regs \<Rightarrow> nat" where
  "pitch_bytes r =
     (if gbpp r = 32 then unat (gpitch r) * 4
      else if gbpp r = 8 then unat (gpitch r)
      else unat (gpitch r))"

definition clamp_to_fb :: "gpu_regs \<Rightarrow> int \<Rightarrow> int \<Rightarrow> (nat \<times> nat) option" where
  "clamp_to_fb r x y =
     (let w = uint (gwidth r); h = uint (gheight r)
      in if x < 0 \<or> y < 0 \<or> x \<ge> w \<or> y \<ge> h then None else Some (nat x, nat y))"

definition put_pixel_32 :: "gpu_regs \<Rightarrow> int \<Rightarrow> int \<Rightarrow> u32 \<Rightarrow> bytes \<Rightarrow> bytes option" where
  "put_pixel_32 r x y color vram =
     (if gbpp r \<noteq> 32 then Some vram
      else case clamp_to_fb r x y of
        None \<Rightarrow> Some vram
      | Some (px, py) \<Rightarrow>
          write_slice (unat (fb_addr r) + py * pitch_bytes r + px * 4) (le_bytes32 color) vram)"

text \<open>
  The byte offset of pixel \<open>(x, y)\<close> in video memory (\<open>fb_off + y * stride + x * 4\<close>
  of \<open>put_pixel_32\<close>), and the condition that the framebuffer the registers describe
  lies inside video memory, under which no pixel write panics.
\<close>

definition pixel_off :: "gpu_regs \<Rightarrow> nat \<Rightarrow> nat \<Rightarrow> nat" where
  "pixel_off r x y = unat (fb_addr r) + y * pitch_bytes r + x * 4"

definition fb_fits :: "gpu_regs \<Rightarrow> bytes \<Rightarrow> bool" where
  "fb_fits r vram \<longleftrightarrow>
     unat (fb_addr r) + (unat (gheight r) - 1) * pitch_bytes r + unat (gwidth r) * 4 \<le> length vram"

text \<open>
  The bytes a rectangle covers: those of the pixels \<open>(px, py)\<close> of the rectangle
  clipped to the screen. A specification predicate of the lemmas, not code.
\<close>

definition in_rect :: "gpu_regs \<Rightarrow> u16 \<Rightarrow> u16 \<Rightarrow> u16 \<Rightarrow> u16 \<Rightarrow> nat \<Rightarrow> bool" where
  "in_rect r x y w h i \<longleftrightarrow>
     (\<exists>px py. unat x \<le> px \<and> px < min (unat x + unat w) (unat (gwidth r))
            \<and> unat y \<le> py \<and> py < min (unat y + unat h) (unat (gheight r))
            \<and> pixel_off r px py \<le> i \<and> i < pixel_off r px py + 4)"

text \<open>A sample register file: a 4 by 2 screen at 32 bits per pixel, framebuffer at 0.\<close>

definition demo_regs :: gpu_regs where
  "demo_regs = gpu_regs_default\<lparr>gwidth := 4, gheight := 2, gpitch := 4, gbpp := 32\<rparr>"

subsection \<open>Colour interpolation\<close>

text \<open>
  \<open>lerp\<close> interpolates each byte of the two colours. The division by \<open>t_den = 0\<close>
  and the subtraction \<open>t_den - t_num\<close> below zero panic (the latter in a debug
  build); both are \<open>None\<close>, and no caller reaches them.
\<close>

definition channel :: "nat \<Rightarrow> u32 \<Rightarrow> nat" where
  "channel k c = unat (drop_bit k c AND 0xFF)"

definition lerp :: "u32 \<Rightarrow> u32 \<Rightarrow> nat \<Rightarrow> nat \<Rightarrow> u32 option" where
  "lerp a b t_num t_den =
     (if t_den = 0 \<or> t_den < t_num then None
      else
        let mix = (\<lambda>k. (channel k a * (t_den - t_num) + channel k b * t_num) div t_den)
        in Some (push_bit 24 (word_of_nat (mix 24)) OR push_bit 16 (word_of_nat (mix 16))
                 OR push_bit 8 (word_of_nat (mix 8)) OR word_of_nat (mix 0)))"

text \<open>The packing in the last line of \<open>lerp\<close>, of four channel values.\<close>

definition pack :: "nat \<Rightarrow> nat \<Rightarrow> nat \<Rightarrow> nat \<Rightarrow> u32" where
  "pack m3 m2 m1 m0 = push_bit 24 (word_of_nat m3) OR push_bit 16 (word_of_nat m2)
                      OR push_bit 8 (word_of_nat m1) OR word_of_nat m0"

subsection \<open>Running-pointer loops\<close>

text \<open>
  \<open>vram[p..p + 4].copy_from_slice(&c.to_le_bytes()); p += 4\<close> and
  \<open>vram[p] = val; p += 1\<close>: one step of a loop that carries the pointer \<open>p\<close>.
\<close>

definition px_step :: "bytes \<Rightarrow> nat \<times> bytes \<Rightarrow> (nat \<times> bytes) option" where
  "px_step c s = map_option (\<lambda>v'. (fst s + length c, v')) (write_slice (fst s) c (snd s))"

definition byte_step :: "u8 \<Rightarrow> nat \<times> bytes \<Rightarrow> (nat \<times> bytes) option" where
  "byte_step val s = map_option (\<lambda>v'. (fst s + 1, v')) (set_idx (snd s) (fst s) val)"

subsection \<open>Commands\<close>

text \<open>\<open>cmd_clear\<close>: one pointer runs over \<open>width * height\<close> pixels from \<open>fb_addr\<close>.\<close>

definition clear_body :: "u32 \<Rightarrow> gpu_regs \<Rightarrow> bytes \<Rightarrow> bytes option" where
  "clear_body color r vram =
     (let fb_off = unat (fb_addr r); w = unat (gwidth r); h = unat (gheight r)
      in if gbpp r = 32 then
           map_option snd
             (for_each [0..<h] (\<lambda>_. for_each [0..<w] (\<lambda>_. px_step (le_bytes32 color))) (fb_off, vram))
         else if gbpp r = 8 \<or> gbpp r = 4 \<or> gbpp r = 2 then
           map_option snd
             (for_each [0..<h] (\<lambda>_. for_each [0..<w] (\<lambda>_. byte_step (ucast (color AND 0xFF))))
               (fb_off, vram))
         else Some vram)"

definition cmd_clear :: "gpu_regs \<Rightarrow> u32 \<Rightarrow> bytes \<Rightarrow> (gpu_regs \<times> bytes) option" where
  "cmd_clear r color vram = busy_cmd r (clear_body color) vram"

text \<open>
  \<open>cmd_fillrect\<close>: each row takes the sub-slice \<open>vram[ptr..ptr + rw * 4]\<close> (a panic
  when it leaves the buffer) and writes the colour into it pixel by pixel.
\<close>

definition fill_row :: "nat \<Rightarrow> nat \<Rightarrow> bytes \<Rightarrow> bytes \<Rightarrow> bytes option" where
  "fill_row ptr rw color4 vram = do {
     line \<leftarrow> read_slice ptr (rw * 4) vram;
     line' \<leftarrow> for_each [0..<rw] (\<lambda>px l. write_slice (px * 4) color4 l) line;
     write_slice ptr line' vram
   }"

definition fillrect_body :: "u16 \<Rightarrow> u16 \<Rightarrow> u16 \<Rightarrow> u16 \<Rightarrow> u32 \<Rightarrow> gpu_regs \<Rightarrow> bytes
                             \<Rightarrow> bytes option" where
  "fillrect_body x y w h color r vram =
     (if gbpp r \<noteq> 32 then Some vram
      else
        let fb_off = unat (fb_addr r); stride = pitch_bytes r;
            max_w = unat (gwidth r); max_h = unat (gheight r);
            vx = unat x; vy = unat y; vw = unat w; vh = unat h
        in if vx \<ge> max_w \<or> vy \<ge> max_h then Some vram
           else
             let rw = min vw (max_w - vx); rh = min vh (max_h - vy)
             in for_each [0..<rh]
                  (\<lambda>j. fill_row (fb_off + (vy + j) * stride + vx * 4) rw (le_bytes32 color)) vram)"

definition cmd_fillrect :: "gpu_regs \<Rightarrow> u16 \<Rightarrow> u16 \<Rightarrow> u16 \<Rightarrow> u16 \<Rightarrow> u32 \<Rightarrow> bytes
                            \<Rightarrow> (gpu_regs \<times> bytes) option" where
  "cmd_fillrect r x y w h color vram = busy_cmd r (fillrect_body x y w h color) vram"

text \<open>
  The gradients write one computed colour per pixel with the running pointer; the
  denominator is \<open>extent.saturating_sub(1).max(1)\<close>.
\<close>

definition grad_den :: "nat \<Rightarrow> nat" where
  "grad_den n = max (n - 1) 1"

definition lerp_step :: "u32 \<Rightarrow> u32 \<Rightarrow> nat \<Rightarrow> nat \<Rightarrow> nat \<times> bytes \<Rightarrow> (nat \<times> bytes) option" where
  "lerp_step a b den x s = do { c \<leftarrow> lerp a b x den; px_step (le_bytes32 c) s }"

text \<open>\<open>cmd_grad_x\<close> tests \<open>bpp\<close> after taking its registers, and uses \<open>pitch * 4\<close>.\<close>

definition grad_x_body :: "u32 \<Rightarrow> u32 \<Rightarrow> gpu_regs \<Rightarrow> bytes \<Rightarrow> bytes option" where
  "grad_x_body left right r vram =
     (let fb_off = unat (fb_addr r); w = unat (gwidth r); h = unat (gheight r)
      in if gbpp r = 32 then
           for_each [0..<h]
             (\<lambda>y v. map_option snd
                 (for_each [0..<w] (lerp_step left right (grad_den w))
                   (fb_off + y * (unat (gpitch r) * 4), v))) vram
         else Some vram)"

definition cmd_grad_x :: "gpu_regs \<Rightarrow> u32 \<Rightarrow> u32 \<Rightarrow> bytes \<Rightarrow> (gpu_regs \<times> bytes) option" where
  "cmd_grad_x r left right vram = busy_cmd r (grad_x_body left right) vram"

definition grad_y_body :: "u32 \<Rightarrow> u32 \<Rightarrow> gpu_regs \<Rightarrow> bytes \<Rightarrow> bytes option" where
  "grad_y_body top_c bottom r vram =
     (if gbpp r \<noteq> 32 then Some vram
      else
        let fb_off = unat (fb_addr r); w = unat (gwidth r); h = unat (gheight r);
            stride = pitch_bytes r
        in for_each [0..<h]
             (\<lambda>y v. do {
                c \<leftarrow> lerp top_c bottom y (grad_den h);
                map_option snd (for_each [0..<w] (\<lambda>_. px_step (le_bytes32 c)) (fb_off + y * stride, v))
              }) vram)"

definition cmd_grad_y :: "gpu_regs \<Rightarrow> u32 \<Rightarrow> u32 \<Rightarrow> bytes \<Rightarrow> (gpu_regs \<times> bytes) option" where
  "cmd_grad_y r top_c bottom vram = busy_cmd r (grad_y_body top_c bottom) vram"

definition grad_xy_body :: "u32 \<Rightarrow> u32 \<Rightarrow> u32 \<Rightarrow> u32 \<Rightarrow> gpu_regs \<Rightarrow> bytes \<Rightarrow> bytes option" where
  "grad_xy_body c00 c10 c01 c11 r vram =
     (if gbpp r \<noteq> 32 then Some vram
      else
        let fb_off = unat (fb_addr r); w = unat (gwidth r); h = unat (gheight r);
            stride = pitch_bytes r
        in for_each [0..<h]
             (\<lambda>y v. do {
                left \<leftarrow> lerp c00 c01 y (grad_den h);
                right \<leftarrow> lerp c10 c11 y (grad_den h);
                map_option snd (for_each [0..<w] (lerp_step left right (grad_den w)) (fb_off + y * stride, v))
              }) vram)"

definition cmd_grad_xy :: "gpu_regs \<Rightarrow> u32 \<Rightarrow> u32 \<Rightarrow> u32 \<Rightarrow> u32 \<Rightarrow> bytes
                           \<Rightarrow> (gpu_regs \<times> bytes) option" where
  "cmd_grad_xy r c00 c10 c01 c11 vram = busy_cmd r (grad_xy_body c00 c10 c01 c11) vram"

text \<open>
  \<open>cmd_rect_outline\<close>: \<open>x1 = x0 + w - 1\<close> and \<open>y1 = y0 + h - 1\<close> in \<open>i32\<close>; the
  inclusive ranges \<open>x0..=x1\<close> are \<open>[x0..x1]\<close> on \<open>int\<close>, empty when \<open>w = 0\<close>.
\<close>

definition rect_outline_body :: "u16 \<Rightarrow> u16 \<Rightarrow> u16 \<Rightarrow> u16 \<Rightarrow> u32 \<Rightarrow> gpu_regs \<Rightarrow> bytes
                                 \<Rightarrow> bytes option" where
  "rect_outline_body x y w h color r vram =
     (if gbpp r \<noteq> 32 then Some vram
      else
        let x0 = uint x; y0 = uint y; x1 = x0 + uint w - 1; y1 = y0 + uint h - 1
        in do {
          v1 \<leftarrow> for_each [x0..x1]
                  (\<lambda>xx v. do { v' \<leftarrow> put_pixel_32 r xx y0 color v; put_pixel_32 r xx y1 color v' })
                  vram;
          for_each [y0..y1]
            (\<lambda>yy v. do { v' \<leftarrow> put_pixel_32 r x0 yy color v; put_pixel_32 r x1 yy color v' })
            v1
        })"

definition cmd_rect_outline :: "gpu_regs \<Rightarrow> u16 \<Rightarrow> u16 \<Rightarrow> u16 \<Rightarrow> u16 \<Rightarrow> u32 \<Rightarrow> bytes
                                \<Rightarrow> (gpu_regs \<times> bytes) option" where
  "cmd_rect_outline r x y w h color vram = busy_cmd r (rect_outline_body x y w h color) vram"

text \<open>
  \<open>cmd_blit\<close>: each row is first copied out of video memory (\<open>tmp\<close>), then written
  to the destination; both slices panic when they leave the buffer.
\<close>

definition blit_body :: "u32 \<Rightarrow> u16 \<Rightarrow> u16 \<Rightarrow> u16 \<Rightarrow> u16 \<Rightarrow> gpu_regs \<Rightarrow> bytes \<Rightarrow> bytes option" where
  "blit_body src_addr src_w src_h dst_x dst_y r vram =
     (if gbpp r \<noteq> 32 then Some vram
      else
        let fb_off = unat (fb_addr r); stride = pitch_bytes r;
            dst_w = unat (gwidth r); dst_h = unat (gheight r);
            sw = unat src_w; sh = unat src_h; dx0 = unat dst_x; dy0 = unat dst_y
        in if dx0 \<ge> dst_w \<or> dy0 \<ge> dst_h then Some vram
           else
             let copy_w = min sw (dst_w - dx0); copy_h = min sh (dst_h - dy0);
                 src_base = unat src_addr
             in for_each [0..<copy_h]
                  (\<lambda>j v. do {
                     tmp \<leftarrow> read_slice (src_base + j * sw * 4) (copy_w * 4) v;
                     write_slice (fb_off + (dy0 + j) * stride + dx0 * 4) tmp v
                   }) vram)"

definition cmd_blit :: "gpu_regs \<Rightarrow> u32 \<Rightarrow> u16 \<Rightarrow> u16 \<Rightarrow> u16 \<Rightarrow> u16 \<Rightarrow> bytes
                        \<Rightarrow> (gpu_regs \<times> bytes) option" where
  "cmd_blit r src_addr src_w src_h dst_x dst_y vram =
     busy_cmd r (blit_body src_addr src_w src_h dst_x dst_y) vram"

text \<open>
  \<open>cmd_putchar\<close>: glyph rows of \<open>(font_w + 7) / 8\<close> bytes from \<open>font_addr\<close>; only the
  first byte of a row is read, pixels right of the screen are skipped (\<open>continue\<close>),
  rows below it are not tested. Depth 32 writes four bytes, depth 8 one, others nothing.
\<close>

definition glyph_bit :: "u8 \<Rightarrow> nat \<Rightarrow> u8" where
  "glyph_bit row_byte i = drop_bit (7 - (i AND 7)) row_byte AND 1"

definition putchar_px :: "u16 \<Rightarrow> u16 \<Rightarrow> u32 \<Rightarrow> u32 \<Rightarrow> gpu_regs \<Rightarrow> nat \<Rightarrow> u8 \<Rightarrow> nat
                          \<Rightarrow> bytes \<Rightarrow> bytes option" where
  "putchar_px x y fg bg r j row_byte i vram =
     (let bit = glyph_bit row_byte i; px = unat x + i; py = unat y + j;
          bpp = gbpp r; pitch_b = (if bpp = 32 then unat (gpitch r) * 4 else unat (gpitch r));
          fb_off = unat (fb_addr r)
      in if px \<ge> unat (gwidth r) then Some vram
         else
           let base = fb_off + py * pitch_b + (if bpp = 32 then px * 4 else px)
           in if bpp = 32 then write_slice base (le_bytes32 (if bit \<noteq> 0 then fg else bg)) vram
              else if bpp = 8 then set_idx vram base (ucast ((if bit \<noteq> 0 then fg else bg) AND 0xFF))
              else Some vram)"

definition putchar_body :: "u16 \<Rightarrow> u16 \<Rightarrow> u16 \<Rightarrow> u32 \<Rightarrow> u32 \<Rightarrow> gpu_regs \<Rightarrow> bytes \<Rightarrow> bytes option" where
  "putchar_body x y ch fg bg r vram =
     (let fw = unat (font_w r); fh = unat (font_h r)
      in if fw = 0 \<or> fh = 0 then Some vram
         else
           let gbpr = (fw + 7) div 8; glyph_off = unat (font_addr r) + unat ch * (gbpr * fh)
           in for_each [0..<fh]
                (\<lambda>j v. do {
                   row_byte \<leftarrow> get_idx v (glyph_off + j * gbpr);
                   for_each [0..<fw] (putchar_px x y fg bg r j row_byte) v
                 }) vram)"

definition cmd_putchar :: "gpu_regs \<Rightarrow> u16 \<Rightarrow> u16 \<Rightarrow> u16 \<Rightarrow> u32 \<Rightarrow> u32 \<Rightarrow> bytes
                           \<Rightarrow> (gpu_regs \<times> bytes) option" where
  "cmd_putchar r x y ch fg bg vram = busy_cmd r (putchar_body x y ch fg bg) vram"

text \<open>\<open>cmd_blit_tilemap\<close> is a stub: it only sets and clears BUSY.\<close>

definition cmd_blit_tilemap :: "gpu_regs \<Rightarrow> bytes \<Rightarrow> (gpu_regs \<times> bytes) option" where
  "cmd_blit_tilemap r vram = busy_cmd r (\<lambda>_ v. Some v) vram"

subsection \<open>Lemmas: slices, loops and pixel addressing\<close>

lemma px_run:
  assumes "p + length xs * length c \<le> length v"
  shows "for_each xs (\<lambda>_. px_step c) (p, v) =
           map_option (\<lambda>v'. (p + length xs * length c, v'))
             (write_slice p (concat (replicate (length xs) c)) v)"
  using assms
proof (induction xs arbitrary: p v)
  case Nil
  then show ?case by (simp add: write_slice_def)
next
  case (Cons x xs)
  obtain v1 where v1: "write_slice p c v = Some v1" and len: "length v1 = length v"
    using Cons.prems by (auto simp: write_slice_def)
  have "for_each (x # xs) (\<lambda>_. px_step c) (p, v) = for_each xs (\<lambda>_. px_step c) (p + length c, v1)"
    using v1 by (simp add: px_step_def)
  also have "\<dots> = map_option (\<lambda>v'. (p + length (x # xs) * length c, v'))
                    (write_slice (p + length c) (concat (replicate (length xs) c)) v1)"
    using Cons.IH[of "p + length c" v1] Cons.prems len by (simp add: add_ac)
  also have "write_slice (p + length c) (concat (replicate (length xs) c)) v1
               = write_slice p (concat (replicate (length (x # xs)) c)) v"
    using write_slice_append[where p = p and a = c and v = v and b = "concat (replicate (length xs) c)"]
      v1 by simp
  finally show ?case .
qed

lemma px_run_nested:
  assumes "p + length ys * length xs * length c \<le> length v"
  shows "for_each ys (\<lambda>_. for_each xs (\<lambda>_. px_step c)) (p, v) =
           map_option (\<lambda>v'. (p + length ys * length xs * length c, v'))
             (write_slice p (concat (replicate (length ys * length xs) c)) v)"
  using assms
proof (induction ys arbitrary: p v)
  case Nil
  then show ?case by (simp add: write_slice_def)
next
  case (Cons y ys)
  define n where "n = length xs * length c"
  have fit: "p + n \<le> length v" using Cons.prems by (simp add: n_def algebra_simps)
  obtain v1 where v1: "write_slice p (concat (replicate (length xs) c)) v = Some v1"
    and len: "length v1 = length v"
    using fit by (auto simp: write_slice_def n_def)
  have "for_each (y # ys) (\<lambda>_. for_each xs (\<lambda>_. px_step c)) (p, v)
          = for_each ys (\<lambda>_. for_each xs (\<lambda>_. px_step c)) (p + n, v1)"
    using v1 fit px_run[of p xs c v] by (simp add: n_def)
  also have "\<dots> = map_option (\<lambda>v'. (p + length (y # ys) * length xs * length c, v'))
                    (write_slice (p + n) (concat (replicate (length ys * length xs) c)) v1)"
    using Cons.IH[of "p + n" v1] Cons.prems len by (simp add: n_def algebra_simps)
  also have "write_slice (p + n) (concat (replicate (length ys * length xs) c)) v1
               = write_slice p (concat (replicate (length (y # ys) * length xs) c)) v"
    using write_slice_append[where p = p and a = "concat (replicate (length xs) c)" and v = v
        and b = "concat (replicate (length ys * length xs) c)"] v1
    by (simp add: n_def replicate_add)
  finally show ?case .
qed

lemma byte_step_px_step: "byte_step val = px_step [val]"
  by (simp add: fun_eq_iff byte_step_def px_step_def set_idx_write_slice)

lemma set_busy_frame [simp]: "set_busy False (set_busy True r) = r\<lparr>gstatus := gstatus r AND NOT 1\<rparr>"
  unfolding set_busy_def using or_one_and_not_one[of "gstatus r"] by simp

lemma busy_cmd_Some [simp]:
  "busy_cmd r body vram = map_option (\<lambda>v. (r\<lparr>gstatus := gstatus r AND NOT 1\<rparr>, v))
                            (body (set_busy True r) vram)"
  by (simp add: busy_cmd_def)

lemma set_busy_regs [simp]:
  "gbpp (set_busy b r) = gbpp r" "fb_addr (set_busy b r) = fb_addr r"
  "gwidth (set_busy b r) = gwidth r" "gheight (set_busy b r) = gheight r"
  "gpitch (set_busy b r) = gpitch r" "font_addr (set_busy b r) = font_addr r"
  "font_w (set_busy b r) = font_w r" "font_h (set_busy b r) = font_h r"
  "pitch_bytes (set_busy b r) = pitch_bytes r"
  by (simp_all add: set_busy_def pitch_bytes_def)

lemma clear_body_32:
  assumes "gbpp r = 32"
    and "unat (fb_addr r) + unat (gheight r) * unat (gwidth r) * 4 \<le> length vram"
  shows "clear_body color r vram =
           write_slice (unat (fb_addr r))
             (concat (replicate (unat (gheight r) * unat (gwidth r)) (le_bytes32 color))) vram"
  using px_run_nested[of "unat (fb_addr r)" "[0..<unat (gheight r)]" "[0..<unat (gwidth r)]"
      "le_bytes32 color" vram] assms
  by (simp add: clear_body_def Let_def)

lemma fill_row_write:
  assumes "length c4 = 4"
  shows "fill_row ptr rw c4 v = write_slice ptr (concat (replicate rw c4)) v"
proof (cases "ptr + rw * 4 \<le> length v")
  case True
  define line where "line = take (rw * 4) (drop ptr v)"
  have len: "length line = rw * 4" using True by (simp add: line_def)
  have "for_each [0..<rw] (\<lambda>px l. write_slice (px * 4) c4 l) line
          = write_slice 0 (concat (replicate rw c4)) line"
    using write_slice_run[of c4 4 0 rw line] assms len by simp
  also have "\<dots> = Some (concat (replicate rw c4))"
    using assms len by (simp add: write_slice_def)
  finally show ?thesis
    using True assms by (simp add: fill_row_def read_slice_def line_def write_slice_def)
next
  case False
  then show ?thesis using assms by (simp add: fill_row_def read_slice_def write_slice_def)
qed

lemma fill_row_eq:
  "length c4 = 4 \<Longrightarrow> fill_row ptr rw c4 = write_slice ptr (concat (replicate rw c4))"
  by (rule ext) (rule fill_row_write)

lemma fillrect_body_rows:
  assumes "gbpp r = 32" "unat x < unat (gwidth r)" "unat y < unat (gheight r)"
  shows "fillrect_body x y w h color r vram =
           for_each [0..<min (unat h) (unat (gheight r) - unat y)]
             (\<lambda>j. write_slice (pixel_off r (unat x) (unat y + j))
                     (concat (replicate (min (unat w) (unat (gwidth r) - unat x)) (le_bytes32 color))))
             vram"
  using assms by (simp add: fillrect_body_def Let_def fill_row_eq pixel_off_def)

lemma pixel_off_set_busy [simp]: "pixel_off (set_busy b r) = pixel_off r"
  by (simp add: pixel_off_def fun_eq_iff)

lemma pixel_off_step: "pixel_off r (x + k) y = pixel_off r x y + k * 4"
  by (simp add: pixel_off_def algebra_simps)

lemma pixel_off_phase:
  "gbpp r = 32 \<Longrightarrow> pixel_off r x y \<le> k \<Longrightarrow>
     (k - pixel_off r x y) mod 4 = (k - unat (fb_addr r)) mod 4"
proof -
  assume "gbpp r = 32" "pixel_off r x y \<le> k"
  moreover define m where "m = y * unat (gpitch r) + x"
  ultimately have "k - unat (fb_addr r) = (k - pixel_off r x y) + 4 * m"
    by (simp add: pixel_off_def pitch_bytes_def algebra_simps)
  then show ?thesis by simp
qed

lemma pixel_off_fits:
  assumes "fb_fits r vram" "x + n \<le> unat (gwidth r)" "y < unat (gheight r)"
  shows "pixel_off r x y + n * 4 \<le> length vram"
proof -
  have "y * pitch_bytes r \<le> (unat (gheight r) - 1) * pitch_bytes r"
    using assms(3) by (intro mult_le_mono1) simp
  then show ?thesis using assms(1,2) unfolding pixel_off_def fb_fits_def by linarith
qed

lemma in_rect_rows:
  assumes "unat x < unat (gwidth r)"
  shows "in_rect r x y w h i \<longleftrightarrow>
    (\<exists>j\<in>set [0..<min (unat h) (unat (gheight r) - unat y)].
        pixel_off r (unat x) (unat y + j) \<le> i
        \<and> i < pixel_off r (unat x) (unat y + j) + min (unat w) (unat (gwidth r) - unat x) * 4)"
  (is "?l \<longleftrightarrow> ?r")
proof
  assume ?l
  then obtain px py where p: "unat x \<le> px" "px < min (unat x + unat w) (unat (gwidth r))"
    "unat y \<le> py" "py < min (unat y + unat h) (unat (gheight r))"
    "pixel_off r px py \<le> i" "i < pixel_off r px py + 4"
    unfolding in_rect_def by blast
  have "pixel_off r px py = pixel_off r (unat x) (unat y + (py - unat y)) + (px - unat x) * 4"
    using p(1,3) pixel_off_step[of r "unat x" "px - unat x" py] by simp
  then show ?r using p by (intro bexI[of _ "py - unat y"]) (auto simp: segment_pixels)
next
  assume ?r
  then obtain j k where jk: "j < min (unat h) (unat (gheight r) - unat y)"
    "k < min (unat w) (unat (gwidth r) - unat x)"
    "pixel_off r (unat x) (unat y + j) + k * 4 \<le> i"
    "i < pixel_off r (unat x) (unat y + j) + k * 4 + 4"
    by (auto simp: segment_pixels)
  then show ?l unfolding in_rect_def
    by (intro exI[of _ "unat x + k"] exI[of _ "unat y + j"]) (auto simp: pixel_off_step)
qed

lemma not_in_rect_clip:
  "unat (gwidth r) \<le> unat x \<or> unat (gheight r) \<le> unat y \<Longrightarrow> \<not> in_rect r x y w h i"
  by (auto simp: in_rect_def)

lemma demo_regs_simps [simp]:
  "gwidth demo_regs = 4" "gheight demo_regs = 2" "gpitch demo_regs = 4" "gbpp demo_regs = 32"
  "fb_addr demo_regs = 0" "gstatus demo_regs = 0" "font_w demo_regs = 0" "font_h demo_regs = 0"
  "demo_regs\<lparr>gstatus := 0\<rparr> = demo_regs"
  by (simp_all add: demo_regs_def gpu_regs_default_def)

subsection \<open>Lemmas: colour channels\<close>

lemma channel_mod: "channel k c = unat (drop_bit k c) mod 256"
  by (simp add: channel_def mask_lits take_bit_eq_mask[symmetric] unsigned_take_bit_eq
      take_bit_eq_mod unat_mod)

lemma channel_le: "channel k c \<le> 255"
  by (simp add: channel_mod)

lemma unpack_channels:
  "push_bit 24 (word_of_nat (channel 24 a)) OR push_bit 16 (word_of_nat (channel 16 a))
     OR push_bit 8 (word_of_nat (channel 8 a)) OR (word_of_nat (channel 0 a) :: u32) = a"
  unfolding channel_def
  by (rule word32_eq_by_bits) (simp add: field_bits)

lemma mix_le:
  assumes "t \<le> d" "0 < d"
  shows "(channel k a * (d - t) + channel k b * t) div d < 2 ^ 8"
proof -
  have "channel k a * (d - t) + channel k b * t \<le> 255 * (d - t) + 255 * t"
    using channel_le[of k a] channel_le[of k b] by (intro add_mono mult_le_mono1) auto
  also have "\<dots> = 255 * d" using assms(1) by (simp add: algebra_simps)
  finally have "(channel k a * (d - t) + channel k b * t) div d \<le> 255 * d div d"
    by (rule div_le_mono)
  then show ?thesis using assms(2) by simp
qed

lemma channel_pack:
  assumes "m0 < 2 ^ 8" "m1 < 2 ^ 8" "m2 < 2 ^ 8" "m3 < 2 ^ 8"
  shows "channel 24 (pack m3 m2 m1 m0) = m3" "channel 16 (pack m3 m2 m1 m0) = m2"
    "channel 8 (pack m3 m2 m1 m0) = m1" "channel 0 (pack m3 m2 m1 m0) = m0"
proof -
  note hi = assms[THEN bit_nat_high]
  have "drop_bit 24 (pack m3 m2 m1 m0) AND 0xFF = word_of_nat m3"
    "drop_bit 16 (pack m3 m2 m1 m0) AND 0xFF = word_of_nat m2"
    "drop_bit 8 (pack m3 m2 m1 m0) AND 0xFF = word_of_nat m1"
    "drop_bit 0 (pack m3 m2 m1 m0) AND 0xFF = word_of_nat m0"
    unfolding pack_def by (rule word32_eq_by_bits; simp add: field_bits hi)+
  then show "channel 24 (pack m3 m2 m1 m0) = m3" "channel 16 (pack m3 m2 m1 m0) = m2"
    "channel 8 (pack m3 m2 m1 m0) = m1" "channel 0 (pack m3 m2 m1 m0) = m0"
    using assms by (simp_all add: channel_def unat_of_nat)
qed

lemma lerp_pack:
  assumes "0 < d" "t \<le> d"
  shows "lerp a b t d = Some (pack ((channel 24 a * (d - t) + channel 24 b * t) div d)
                                  ((channel 16 a * (d - t) + channel 16 b * t) div d)
                                  ((channel 8 a * (d - t) + channel 8 b * t) div d)
                                  ((channel 0 a * (d - t) + channel 0 b * t) div d))"
  using assms by (simp add: lerp_def pack_def)

subsection \<open>Properties of the raster commands\<close>

text \<open>
  C9: CLEAR at 32 bits per pixel, when the framebuffer fits in video memory, writes the
  colour's four little-endian bytes to the \<open>width * height\<close> consecutive pixels from
  \<open>fb_addr\<close>, leaves every other byte unchanged, and ends with BUSY clear.
\<close>

lemma cmd_clear_fills:
  assumes "gbpp r = 32"
    and "unat (fb_addr r) + unat (gheight r) * unat (gwidth r) * 4 \<le> length vram"
  shows "cmd_clear r color vram =
           Some (r\<lparr>gstatus := gstatus r AND NOT 1\<rparr>,
                 take (unat (fb_addr r)) vram
                 @ concat (replicate (unat (gheight r) * unat (gwidth r)) (le_bytes32 color))
                 @ drop (unat (fb_addr r) + unat (gheight r) * unat (gwidth r) * 4) vram)"
  using assms clear_body_32[where r = "set_busy True r" and color = color and vram = vram]
  by (simp add: cmd_clear_def write_slice_def mult.assoc)

lemma cmd_clear_fills_witness:
  "cmd_clear demo_regs 0x11223344 (replicate 32 0)
   = Some (demo_regs, concat (replicate 8 [0x44, 0x33, 0x22, 0x11]))"
proof -
  have "le_bytes32 0x11223344 = [0x44, 0x33, 0x22, 0x11]" by (simp add: le_bytes32_def)
  then show ?thesis
    using cmd_clear_fills[of demo_regs "replicate 32 0" "0x11223344"] by simp
qed

text \<open>
  C32: FILLRECT at 32 bits per pixel, when the framebuffer fits in video memory, does not
  panic; every byte of a pixel of the rectangle clipped to the screen receives the
  colour's byte of its position, every other byte is unchanged, and BUSY ends clear.
\<close>

lemma cmd_fillrect_paints:
  assumes "gbpp r = 32" and "fb_fits r vram"
  shows "\<exists>v'. cmd_fillrect r x y w h color vram = Some (r\<lparr>gstatus := gstatus r AND NOT 1\<rparr>, v')
           \<and> length v' = length vram
           \<and> (\<forall>i < length vram. v' ! i =
                 (if in_rect r x y w h i then le_bytes32 color ! ((i - unat (fb_addr r)) mod 4)
                  else vram ! i))"
proof (cases "unat (gwidth r) \<le> unat x \<or> unat (gheight r) \<le> unat y")
  case True
  then show ?thesis
    using assms not_in_rect_clip[OF True]
    by (auto simp: cmd_fillrect_def fillrect_body_def Let_def)
next
  case False
  define rw rh where "rw = min (unat w) (unat (gwidth r) - unat x)"
    and "rh = min (unat h) (unat (gheight r) - unat y)"
  define s where "s = (\<lambda>j. pixel_off r (unat x) (unat y + j))"
  define bs where "bs = concat (replicate rw (le_bytes32 color))"
  have body: "fillrect_body x y w h color (set_busy True r) vram = for_each [0..<rh] (\<lambda>j. write_slice (s j) bs) vram"
    using False assms(1) fillrect_body_rows[where r = "set_busy True r" and x = x and y = y and w = w and h = h and color = color and vram = vram]
    by (simp add: rw_def rh_def s_def bs_def)
  have "\<forall>j\<in>set [0..<rh]. s j + length bs \<le> length vram"
    using False pixel_off_fits[OF assms(2)] by (auto simp: s_def bs_def rw_def rh_def)
  then obtain v' where v': "for_each [0..<rh] (\<lambda>j. write_slice (s j) bs) vram = Some v'"
    "length v' = length vram"
    using for_each_write_slice_Some by blast
  have g: "\<forall>j\<in>set [0..<rh]. \<forall>k. s j \<le> k \<and> k < s j + length bs \<longrightarrow>
             bs ! (k - s j) = le_bytes32 color ! ((k - unat (fb_addr r)) mod 4)"
    using assms(1) by (auto simp: bs_def nth_concat_replicate s_def pixel_off_phase)
  have "\<forall>i < length vram. v' ! i =
          (if in_rect r x y w h i then le_bytes32 color ! ((i - unat (fb_addr r)) mod 4) else vram ! i)"
    using for_each_write_slice_nth[OF v'(1) _ g] in_rect_rows[of x r y w h] False
    by (simp add: s_def bs_def rw_def rh_def)
  then show ?thesis using body v' by (simp add: cmd_fillrect_def)
qed

lemma cmd_fillrect_paints_witness:
  "\<exists>v'. cmd_fillrect demo_regs 1 0 2 1 0xAABBCCDD (replicate 32 0)
          = Some (demo_regs\<lparr>gstatus := gstatus demo_regs AND NOT 1\<rparr>, v')
     \<and> length v' = length (replicate 32 (0::u8))
     \<and> (\<forall>i < length (replicate 32 (0::u8)). v' ! i =
          (if in_rect demo_regs 1 0 2 1 i
           then le_bytes32 0xAABBCCDD ! ((i - unat (fb_addr demo_regs)) mod 4)
           else replicate 32 0 ! i))"
  by (rule cmd_fillrect_paints) (simp_all add: fb_fits_def pitch_bytes_def)

text \<open>
  LERP returns its first colour at \<open>t = 0\<close> and its second at \<open>t = N\<close>, for every
  \<open>N \<ge> 1\<close>.
\<close>

lemma lerp_endpoints:
  assumes "0 < n"
  shows "lerp a b 0 n = Some a \<and> lerp a b n n = Some b"
  using assms unpack_channels[of a] unpack_channels[of b] by (simp add: lerp_def)

lemma lerp_endpoints_witness:
  "lerp 0x11223344 0xAABBCCDD 0 7 = Some 0x11223344 \<and> lerp 0x11223344 0xAABBCCDD 7 7 = Some 0xAABBCCDD"
  using lerp_endpoints[of 7 "0x11223344" "0xAABBCCDD"] by simp

text \<open>
  C33: for \<open>0 < d\<close> and \<open>t \<le> d\<close>, LERP does not panic, and each byte channel of the
  result is \<open>(a * (d - t) + b * t) / d\<close> of the channels of the two colours.
\<close>

lemma lerp_channels:
  assumes "0 < d" "t \<le> d" "k \<in> {0, 8, 16, 24}"
  shows "\<exists>c. lerp a b t d = Some c
               \<and> channel k c = (channel k a * (d - t) + channel k b * t) div d"
  using assms lerp_pack[OF assms(1,2), of a b]
    channel_pack[OF mix_le[OF assms(2,1)] mix_le[OF assms(2,1)] mix_le[OF assms(2,1)]
      mix_le[OF assms(2,1)]]
  by auto

lemma lerp_channels_witness:
  "\<exists>c. lerp 0 0xFF 1 2 = Some c \<and> channel 0 c = (channel 0 0 * (2 - 1) + channel 0 0xFF * 1) div 2"
  using lerp_channels[of 2 1 0 0 "0xFF"] by simp

end
