(* ===== verification/GpuLine.thy ===== *)
theory GpuLine
  imports Gpu
begin

text \<open>
  \<open>cmd_line\<close> of \<open>src/aiz32mips_core/src/devices/gpu.rs\<close>: Bresenham's algorithm over
  all octants. The loop runs until the point reaches \<open>(x1, y1)\<close>, which nothing in its
  code bounds, so it is a \<open>partial_function\<close> in the option monad; the theorem
  \<open>cmd_line_terminates\<close> shows that it always returns when the framebuffer fits in
  video memory, by the classical invariant of the error term.
\<close>

partial_function (option) line_loop ::
  "gpu_regs \<Rightarrow> u32 \<Rightarrow> int \<Rightarrow> int \<Rightarrow> int \<Rightarrow> int \<Rightarrow> int \<Rightarrow> int \<Rightarrow> int \<Rightarrow> int \<Rightarrow> int
   \<Rightarrow> bytes \<Rightarrow> bytes option" where
  "line_loop r color x1 y1 dx dy sx sy x0 y0 err vram = do {
     v \<leftarrow> put_pixel_32 r x0 y0 color vram;
     if x0 = x1 \<and> y0 = y1 then Some v
     else
       let e2 = 2 * err;
           (err', x0') = (if e2 \<ge> dy then (err + dy, x0 + sx) else (err, x0));
           (err'', y0') = (if e2 \<le> dx then (err' + dx, y0 + sy) else (err', y0))
       in line_loop r color x1 y1 dx dy sx sy x0' y0' err'' v
   }"

definition line_body :: "u16 \<Rightarrow> u16 \<Rightarrow> u16 \<Rightarrow> u16 \<Rightarrow> u32 \<Rightarrow> gpu_regs \<Rightarrow> bytes \<Rightarrow> bytes option" where
  "line_body x0 y0 x1 y1 color r vram =
     (if gbpp r \<noteq> 32 then Some vram
      else
        let x0 = uint x0; y0 = uint y0; x1 = uint x1; y1 = uint y1;
            dx = \<bar>x1 - x0\<bar>; sx = (if x0 < x1 then 1 else -1);
            dy = - \<bar>y1 - y0\<bar>; sy = (if y0 < y1 then 1 else -1)
        in line_loop r color x1 y1 dx dy sx sy x0 y0 (dx + dy) vram)"

definition cmd_line :: "gpu_regs \<Rightarrow> u16 \<Rightarrow> u16 \<Rightarrow> u16 \<Rightarrow> u16 \<Rightarrow> u32 \<Rightarrow> bytes
                        \<Rightarrow> (gpu_regs \<times> bytes) option" where
  "cmd_line r x0 y0 x1 y1 color vram = busy_cmd r (line_body x0 y0 x1 y1 color) vram"

lemma clamp_to_fb_Some:
  assumes "clamp_to_fb r x y = Some (px, py)"
  shows "px < unat (gwidth r) \<and> py < unat (gheight r)"
proof -
  have "0 \<le> x" "x < int (unat (gwidth r))" "px = nat x"
    "0 \<le> y" "y < int (unat (gheight r))" "py = nat y"
    using assms by (auto simp: clamp_to_fb_def Let_def split: if_splits)
  then show ?thesis by (simp add: nat_less_iff)
qed

lemma put_pixel_Some:
  assumes "fb_fits r vram"
  shows "\<exists>v'. put_pixel_32 r x y c vram = Some v' \<and> length v' = length vram"
proof (cases "gbpp r = 32 \<and> clamp_to_fb r x y \<noteq> None")
  case True
  then obtain px py where p: "clamp_to_fb r x y = Some (px, py)" by auto
  then have "pixel_off r px py + 1 * 4 \<le> length vram"
    using clamp_to_fb_Some[OF p] by (intro pixel_off_fits[OF assms]) auto
  then show ?thesis using True p
    by (auto simp: put_pixel_32_def pixel_off_def write_slice_def)
next
  case False
  then show ?thesis by (auto simp: put_pixel_32_def split: option.splits)
qed

text \<open>
  The invariant of the loop: with \<open>p\<close> and \<open>q\<close> the steps left to \<open>x1\<close> and
  \<open>y1\<close>, the error term is \<open>DX - DY + DY * p - DX * q\<close>. A step in x is only taken
  while \<open>p > 0\<close>, a step in y only while \<open>q > 0\<close>, and every iteration takes one.
\<close>

lemma line_step_x:
  fixes p q :: nat
  assumes "- DY \<le> 2 * (DX - DY + DY * int p - DX * int q)" "int q \<le> DY" "0 \<le> DX"
    and "\<not> (p = 0 \<and> q = 0)"
  shows "0 < p"
proof (rule ccontr)
  assume "\<not> 0 < p"
  then have "p = 0" "1 \<le> q" using assms(4) by auto
  then have "DX \<le> DX * int q" using assms(3) mult_left_mono[of 1 "int q" DX] by simp
  then show False using assms(1,2) \<open>p = 0\<close> \<open>1 \<le> q\<close> by simp
qed

lemma line_step_y:
  fixes p q :: nat
  assumes "2 * (DX - DY + DY * int p - DX * int q) \<le> DX" "int p \<le> DX" "0 \<le> DY"
    and "\<not> (p = 0 \<and> q = 0)"
  shows "0 < q"
proof (rule ccontr)
  assume "\<not> 0 < q"
  then have "q = 0" "1 \<le> p" using assms(4) by auto
  then have "DY \<le> DY * int p" using assms(3) mult_left_mono[of 1 "int p" DY] by simp
  then show False using assms(1,2) \<open>q = 0\<close> \<open>1 \<le> p\<close> by simp
qed

lemma line_loop_unfold:
  "line_loop r c x1 y1 dx dy sx sy x0 y0 err vram = do {
     v \<leftarrow> put_pixel_32 r x0 y0 c vram;
     if x0 = x1 \<and> y0 = y1 then Some v
     else line_loop r c x1 y1 dx dy sx sy
            (if dy \<le> 2 * err then x0 + sx else x0) (if 2 * err \<le> dx then y0 + sy else y0)
            (err + (if dy \<le> 2 * err then dy else 0) + (if 2 * err \<le> dx then dx else 0)) v }"
  by (subst line_loop.simps) (simp add: Let_def cong: if_cong)

lemma line_loop_returns:
  fixes p q :: nat
  assumes "fb_fits r vram" "sx = 1 \<or> sx = -1" "sy = 1 \<or> sy = -1" "int p \<le> DX" "int q \<le> DY"
  shows "\<exists>v. line_loop r c x1 y1 DX (- DY) sx sy (x1 - sx * int p) (y1 - sy * int q)
                 (DX - DY + DY * int p - DX * int q) vram = Some v"
  using assms
proof (induction "p + q" arbitrary: p q vram rule: less_induct)
  case less
  obtain v1 where v1: "put_pixel_32 r (x1 - sx * int p) (y1 - sy * int q) c vram = Some v1"
    and len1: "length v1 = length vram"
    using put_pixel_Some[OF less.prems(1)] by blast
  have fit1: "fb_fits r v1" using less.prems(1) len1 by (simp add: fb_fits_def)
  define err where "err = DX - DY + DY * int p - DX * int q"
  have done_iff: "(x1 - sx * int p = x1 \<and> y1 - sy * int q = y1) \<longleftrightarrow> p = 0 \<and> q = 0"
    using less.prems(2,3) by auto
  show ?case
  proof (cases "p = 0 \<and> q = 0")
    case True
    then show ?thesis using v1 by (subst line_loop_unfold) simp
  next
    case False
    define xs ys where "xs = (- DY \<le> 2 * err)" and "ys = (2 * err \<le> DX)"
    have some: "xs \<or> ys" using less.prems(4,5) by (auto simp: xs_def ys_def)
    have xp: "xs \<Longrightarrow> 0 < p"
      using line_step_x[of DY DX p q] less.prems(4,5) False by (simp add: xs_def err_def)
    have yq: "ys \<Longrightarrow> 0 < q"
      using line_step_y[of DX DY p q] less.prems(4,5) False by (simp add: ys_def err_def)
    define p' q' where "p' = (if xs then p - 1 else p)" and "q' = (if ys then q - 1 else q)"
    have lt: "p' + q' < p + q" using some xp yq by (auto simp: p'_def q'_def)
    have b: "int p' \<le> DX" "int q' \<le> DY" using less.prems(4,5) by (auto simp: p'_def q'_def)
    obtain v where v: "line_loop r c x1 y1 DX (- DY) sx sy (x1 - sx * int p') (y1 - sy * int q')
                         (DX - DY + DY * int p' - DX * int q') v1 = Some v"
      using less.hyps[OF lt fit1 less.prems(2,3) b] by blast
    have x': "(if - DY \<le> 2 * err then x1 - sx * int p + sx else x1 - sx * int p) = x1 - sx * int p'"
      using xp by (auto simp: xs_def p'_def of_nat_diff algebra_simps)
    have y': "(if 2 * err \<le> DX then y1 - sy * int q + sy else y1 - sy * int q) = y1 - sy * int q'"
      using yq by (auto simp: ys_def q'_def of_nat_diff algebra_simps)
    have e': "err + (if - DY \<le> 2 * err then - DY else 0) + (if 2 * err \<le> DX then DX else 0)
                = DX - DY + DY * int p' - DX * int q'"
      using xp yq by (auto simp: xs_def ys_def p'_def q'_def err_def of_nat_diff algebra_simps)
    show ?thesis
      using v1 v done_iff False x' y' e'
      by (subst line_loop_unfold) (simp add: err_def[symmetric])
  qed
qed

declare line_loop.simps [code]

lemma fb_fits_set_busy [simp]: "fb_fits (set_busy b r) = fb_fits r"
  by (simp add: fb_fits_def fun_eq_iff)

subsection \<open>Properties\<close>

text \<open>
  C22: LINE always returns (Bresenham's loop reaches its end point) and never panics
  when the framebuffer fits in video memory; it ends with BUSY clear.
\<close>

lemma cmd_line_terminates:
  assumes "fb_fits r vram"
  shows "\<exists>v. cmd_line r x0 y0 x1 y1 color vram = Some (r\<lparr>gstatus := gstatus r AND NOT 1\<rparr>, v)"
proof (cases "gbpp r = 32")
  case True
  define a b c d where "a = uint x0" and "b = uint y0" and "c = uint x1" and "d = uint y1"
  define sx sy where "sx = (if a < c then 1 else - 1 :: int)" and "sy = (if b < d then 1 else - 1 :: int)"
  have eqs: "c - sx * int (nat \<bar>c - a\<bar>) = a" "d - sy * int (nat \<bar>d - b\<bar>) = b"
    "\<bar>c - a\<bar> - \<bar>d - b\<bar> + \<bar>d - b\<bar> * int (nat \<bar>c - a\<bar>) - \<bar>c - a\<bar> * int (nat \<bar>d - b\<bar>)
       = \<bar>c - a\<bar> + - \<bar>d - b\<bar>"
    by (auto simp: sx_def sy_def)
  have "\<exists>v. line_loop (set_busy True r) color c d \<bar>c - a\<bar> (- \<bar>d - b\<bar>) sx sy
          (c - sx * int (nat \<bar>c - a\<bar>)) (d - sy * int (nat \<bar>d - b\<bar>))
          (\<bar>c - a\<bar> - \<bar>d - b\<bar> + \<bar>d - b\<bar> * int (nat \<bar>c - a\<bar>) - \<bar>c - a\<bar> * int (nat \<bar>d - b\<bar>))
          vram = Some v"
    by (rule line_loop_returns) (use assms in \<open>auto simp: sx_def sy_def\<close>)
  then have "\<exists>v. line_loop (set_busy True r) color c d \<bar>c - a\<bar> (- \<bar>d - b\<bar>) sx sy a b
                 (\<bar>c - a\<bar> + - \<bar>d - b\<bar>) vram = Some v"
    unfolding eqs .
  then show ?thesis using True
    by (simp add: cmd_line_def line_body_def Let_def a_def b_def c_def d_def sx_def sy_def)
next
  case False
  then show ?thesis by (simp add: cmd_line_def line_body_def)
qed

lemma cmd_line_terminates_witness:
  "\<exists>v. cmd_line (demo_regs\<lparr>gheight := 4\<rparr>) 0 3 3 0 0xFFFFFFFF (replicate 64 0)
        = Some (demo_regs\<lparr>gheight := 4\<rparr>\<lparr>gstatus := gstatus (demo_regs\<lparr>gheight := 4\<rparr>) AND NOT 1\<rparr>, v)"
  by (rule cmd_line_terminates) (simp add: fb_fits_def pitch_bytes_def)

end
