(* ===== verification/GpuMmio.thy ===== *)
theory GpuMmio
  imports Devices GpuFifo GpuLine
begin

text \<open>
  The MMIO face of \<open>GpuMmio\<close> (\<open>src/aiz32mips_core/src/devices/gpu.rs\<close>): the
  256-byte register window (\<open>within\<close>, \<open>read8\<close>, \<open>write8\<close>), the command dispatcher
  \<open>exec_cmd\<close> with its FIFO operand pops, and \<open>cmd_puts\<close>. The state is the record
  \<open>gpu_mmio\<close>. The command and parameter latches \<open>CMD_TMP\<close> and \<open>TMP\<close> are
  function-local \<open>static mut\<close> variables in the source, shared by every \<open>GpuMmio\<close>;
  the emulator builds one GPU, so they are fields of its record here. \<open>vram_ptr\<close>
  is the index of the video-memory device on the bus: the bus passes that device's
  bytes to \<open>write8\<close>, which returns them updated. The \<open>println!\<close> of \<open>write8\<close>
  is output only and not modelled.
\<close>

record gpu_mmio =
  gbase :: u32
  gregs :: gpu_regs
  gfifo :: fifo
  vram_ptr :: nat
  cmd_tmp :: u16
  param_tmp :: u16

definition gpu_new :: "u32 \<Rightarrow> nat \<Rightarrow> gpu_mmio" where
  "gpu_new b vram = \<lparr>gbase = b, gregs = gpu_regs_default, gfifo = fifo_new, vram_ptr = vram,
                      cmd_tmp = 0, param_tmp = 0\<rparr>"

definition gpu_range :: "gpu_mmio \<Rightarrow> u32 \<times> u32" where
  "gpu_range g = (gbase g, gbase g + 0xFF)"

definition within :: "gpu_mmio \<Rightarrow> u32 \<Rightarrow> u32 option" where
  "within g paddr = (let off = paddr - gbase g in if off < 0x100 then Some off else None)"

subsection \<open>Command dispatch\<close>

text \<open>
  \<open>cmd_puts\<close>: \<open>len\<close> glyph codes popped one by one, each drawn by \<open>cmd_putchar\<close>,
  the pen advancing by \<open>font_w\<close> with \<open>u16\<close> wrap-around.
\<close>

definition puts_step :: "u16 \<Rightarrow> u32 \<Rightarrow> u32 \<Rightarrow> nat \<Rightarrow> u16 \<times> gpu_mmio \<times> bytes
                         \<Rightarrow> (u16 \<times> gpu_mmio \<times> bytes) option" where
  "puts_step y fg bg i s = (case s of (cx, g, v) \<Rightarrow> do {
     (ch, f') \<leftarrow> fifo_pop (gfifo g);
     (r', v') \<leftarrow> cmd_putchar (gregs g) cx y ch fg bg v;
     Some (cx + ucast (font_w r'), g\<lparr>gfifo := f', gregs := r'\<rparr>, v')
   })"

definition cmd_puts :: "u16 \<Rightarrow> u16 \<Rightarrow> u16 \<Rightarrow> u32 \<Rightarrow> u32 \<Rightarrow> gpu_mmio \<Rightarrow> bytes
                        \<Rightarrow> (gpu_mmio \<times> bytes) option" where
  "cmd_puts x y len fg bg g vram =
     map_option (\<lambda>(cx, g', v'). (g', v')) (for_each [0..<unat len] (puts_step y fg bg) (x, g, vram))"

text \<open>
  A command with its operands popped: the FIFO after the pops and the registers and
  bytes the raster command returns.
\<close>

definition run_cmd :: "gpu_mmio \<Rightarrow> fifo \<Rightarrow> (gpu_regs \<times> bytes) option \<Rightarrow> (gpu_mmio \<times> bytes) option" where
  "run_cmd g f res = map_option (\<lambda>(r', v'). (g\<lparr>gfifo := f, gregs := r'\<rparr>, v')) res"

text \<open>
  \<open>exec_cmd\<close>: the operands are popped in the listed order (a \<open>u32\<close> as two entries,
  low half first), the command runs, and the FIFO is reset whatever was consumed.
  Unknown opcodes only reset the FIFO.
\<close>

definition exec_cmd :: "u16 \<Rightarrow> gpu_mmio \<Rightarrow> bytes \<Rightarrow> (gpu_mmio \<times> bytes) option" where
  "exec_cmd cmd g vram =
     map_option (\<lambda>(g', v'). (g'\<lparr>gfifo := fifo_reset (gfifo g')\<rparr>, v'))
      (let f0 = gfifo g; r = gregs g in
       if cmd = 0x0001 then do {
         (color, f1) \<leftarrow> fifo_pop_u32 f0;
         run_cmd g f1 (cmd_clear r color vram) }
       else if cmd = 0x0002 then do {
         (left, f1) \<leftarrow> fifo_pop_u32 f0; (right, f2) \<leftarrow> fifo_pop_u32 f1;
         run_cmd g f2 (cmd_grad_x r left right vram) }
       else if cmd = 0x0003 then do {
         (x, f1) \<leftarrow> fifo_pop f0; (y, f2) \<leftarrow> fifo_pop f1; (ch, f3) \<leftarrow> fifo_pop f2;
         (fg, f4) \<leftarrow> fifo_pop_u32 f3; (bg, f5) \<leftarrow> fifo_pop_u32 f4;
         run_cmd g f5 (cmd_putchar r x y ch fg bg vram) }
       else if cmd = 0x0004 then do {
         (x, f1) \<leftarrow> fifo_pop f0; (y, f2) \<leftarrow> fifo_pop f1; (len, f3) \<leftarrow> fifo_pop f2;
         (fg, f4) \<leftarrow> fifo_pop_u32 f3; (bg, f5) \<leftarrow> fifo_pop_u32 f4;
         cmd_puts x y len fg bg (g\<lparr>gfifo := f5\<rparr>) vram }
       else if cmd = 0x0006 then do {
         (x, f1) \<leftarrow> fifo_pop f0; (y, f2) \<leftarrow> fifo_pop f1; (w, f3) \<leftarrow> fifo_pop f2;
         (h, f4) \<leftarrow> fifo_pop f3; (color, f5) \<leftarrow> fifo_pop_u32 f4;
         run_cmd g f5 (cmd_fillrect r x y w h color vram) }
       else if cmd = 0x0007 then do {
         (top_c, f1) \<leftarrow> fifo_pop_u32 f0; (bot, f2) \<leftarrow> fifo_pop_u32 f1;
         run_cmd g f2 (cmd_grad_y r top_c bot vram) }
       else if cmd = 0x0008 then do {
         (x, f1) \<leftarrow> fifo_pop f0; (y, f2) \<leftarrow> fifo_pop f1; (w, f3) \<leftarrow> fifo_pop f2;
         (h, f4) \<leftarrow> fifo_pop f3; (color, f5) \<leftarrow> fifo_pop_u32 f4;
         run_cmd g f5 (cmd_rect_outline r x y w h color vram) }
       else if cmd = 0x0009 then do {
         (x0, f1) \<leftarrow> fifo_pop f0; (y0, f2) \<leftarrow> fifo_pop f1; (x1, f3) \<leftarrow> fifo_pop f2;
         (y1, f4) \<leftarrow> fifo_pop f3; (color, f5) \<leftarrow> fifo_pop_u32 f4;
         run_cmd g f5 (cmd_line r x0 y0 x1 y1 color vram) }
       else if cmd = 0x000A then do {
         (src_addr, f1) \<leftarrow> fifo_pop_u32 f0; (src_w, f2) \<leftarrow> fifo_pop f1;
         (src_h, f3) \<leftarrow> fifo_pop f2; (dst_x, f4) \<leftarrow> fifo_pop f3; (dst_y, f5) \<leftarrow> fifo_pop f4;
         run_cmd g f5 (cmd_blit r src_addr src_w src_h dst_x dst_y vram) }
       else if cmd = 0x0005 then do {
         (tm, f1) \<leftarrow> fifo_pop_u32 f0; (mw, f2) \<leftarrow> fifo_pop f1; (mh, f3) \<leftarrow> fifo_pop f2;
         (tw, f4) \<leftarrow> fifo_pop f3; (th, f5) \<leftarrow> fifo_pop f4; (ts, f6) \<leftarrow> fifo_pop_u32 f5;
         run_cmd g f6 (cmd_blit_tilemap r vram) }
       else if cmd = 0x000B then do {
         (c00, f1) \<leftarrow> fifo_pop_u32 f0; (c10, f2) \<leftarrow> fifo_pop_u32 f1;
         (c01, f3) \<leftarrow> fifo_pop_u32 f2; (c11, f4) \<leftarrow> fifo_pop_u32 f3;
         run_cmd g f4 (cmd_grad_xy r c00 c10 c01 c11 vram) }
       else Some (g, vram))"

subsection \<open>The register window\<close>

text \<open>\<open>read8\<close>: little-endian bytes of the registers; unlisted offsets read 0.\<close>

definition reg_byte :: "u32 \<Rightarrow> u32 \<Rightarrow> u8" where
  "reg_byte v k = ucast (drop_bit (unat (k * 8)) v AND 0xFF)"

definition gpu_read8 :: "gpu_mmio \<Rightarrow> u32 \<Rightarrow> u8 mem_result" where
  "gpu_read8 g paddr =
     (case within g paddr of
        None \<Rightarrow> Inl (Unmapped paddr)
      | Some off \<Rightarrow> Inr
          (let r = gregs g in
           if off = 0x00 then ucast (gwidth r AND 0xFF)
           else if off = 0x01 then ucast (drop_bit 8 (gwidth r))
           else if off = 0x02 then ucast (gheight r AND 0xFF)
           else if off = 0x03 then ucast (drop_bit 8 (gheight r))
           else if off = 0x04 then ucast (gpitch r AND 0xFF)
           else if off = 0x05 then ucast (drop_bit 8 (gpitch r))
           else if off = 0x06 then gbpp r
           else if 0x0C \<le> off \<and> off \<le> 0x0F then reg_byte (gstatus r) (off - 0x0C)
           else if 0x08 \<le> off \<and> off \<le> 0x0B then reg_byte (fb_addr r) (off - 0x08)
           else if 0x20 \<le> off \<and> off \<le> 0x23 then reg_byte (font_addr r) (off - 0x20)
           else if off = 0x24 then font_w r
           else if off = 0x25 then font_h r
           else if 0x28 \<le> off \<and> off \<le> 0x2B then reg_byte (palette_addr r) (off - 0x28)
           else 0))"

text \<open>\<open>write8\<close> into byte \<open>k\<close> of a 32-bit register: \<open>(v & !(0xFF << k*8)) | (b << k*8)\<close>.\<close>

definition set_reg_byte :: "u32 \<Rightarrow> u32 \<Rightarrow> u8 \<Rightarrow> u32" where
  "set_reg_byte v k b =
     (let shift = unat (k * 8) in (v AND NOT (push_bit shift 0xFF)) OR push_bit shift (ucast b))"

definition set_lo :: "u16 \<Rightarrow> u8 \<Rightarrow> u16" where
  "set_lo v b = (v AND 0xFF00) OR ucast b"

definition set_hi :: "u16 \<Rightarrow> u8 \<Rightarrow> u16" where
  "set_hi v b = (v AND 0x00FF) OR push_bit 8 (ucast b)"

text \<open>
  Writing the high byte of the command register (offset 0x11) runs the assembled
  command and clears the latch; the high byte of the parameter register (0x13) pushes
  the assembled entry and clears its latch. Every write inside the window succeeds.
\<close>

definition gpu_write_reg :: "u32 \<Rightarrow> u8 \<Rightarrow> gpu_mmio \<Rightarrow> bytes \<Rightarrow> (gpu_mmio \<times> bytes) option" where
  "gpu_write_reg off value g vram =
     (let r = gregs g; upd = (\<lambda>r'. Some (g\<lparr>gregs := r'\<rparr>, vram)) in
      if off = 0x00 then upd (r\<lparr>gwidth := set_lo (gwidth r) value\<rparr>)
      else if off = 0x01 then upd (r\<lparr>gwidth := set_hi (gwidth r) value\<rparr>)
      else if off = 0x02 then upd (r\<lparr>gheight := set_lo (gheight r) value\<rparr>)
      else if off = 0x03 then upd (r\<lparr>gheight := set_hi (gheight r) value\<rparr>)
      else if off = 0x04 then upd (r\<lparr>gpitch := set_lo (gpitch r) value\<rparr>)
      else if off = 0x05 then upd (r\<lparr>gpitch := set_hi (gpitch r) value\<rparr>)
      else if off = 0x06 then upd (r\<lparr>gbpp := value\<rparr>)
      else if 0x08 \<le> off \<and> off \<le> 0x0B then
        upd (r\<lparr>fb_addr := set_reg_byte (fb_addr r) (off - 0x08) value\<rparr>)
      else if 0x10 \<le> off \<and> off \<le> 0x11 then
        (if off - 0x10 = 0 then Some (g\<lparr>cmd_tmp := set_lo (cmd_tmp g) value\<rparr>, vram)
         else
           let c = set_hi (cmd_tmp g) value
           in map_option (\<lambda>(g', v'). (g'\<lparr>cmd_tmp := 0\<rparr>, v')) (exec_cmd c (g\<lparr>cmd_tmp := c\<rparr>) vram))
      else if 0x12 \<le> off \<and> off \<le> 0x13 then
        (if off - 0x12 = 0 then Some (g\<lparr>param_tmp := set_lo (param_tmp g) value\<rparr>, vram)
         else
           let t = set_hi (param_tmp g) value
           in Some (g\<lparr>gfifo := fifo_push t (gfifo g), param_tmp := 0\<rparr>, vram))
      else if 0x20 \<le> off \<and> off \<le> 0x23 then
        upd (r\<lparr>font_addr := set_reg_byte (font_addr r) (off - 0x20) value\<rparr>)
      else if off = 0x24 then upd (r\<lparr>font_w := value\<rparr>)
      else if off = 0x25 then upd (r\<lparr>font_h := value\<rparr>)
      else if 0x28 \<le> off \<and> off \<le> 0x2B then
        upd (r\<lparr>palette_addr := set_reg_byte (palette_addr r) (off - 0x28) value\<rparr>)
      else Some (g, vram))"

definition gpu_write8 :: "gpu_mmio \<Rightarrow> u32 \<Rightarrow> u8 \<Rightarrow> bytes \<Rightarrow> (unit mem_result \<times> gpu_mmio \<times> bytes) option" where
  "gpu_write8 g paddr value vram =
     (case within g paddr of
        None \<Rightarrow> Some (Inl (Unmapped paddr), g, vram)
      | Some off \<Rightarrow> map_option (\<lambda>(g', v'). (Inr (), g', v')) (gpu_write_reg off value g vram))"

subsection \<open>Invariant, reachable states and write sequences\<close>

text \<open>
  The invariant of the MMIO state: the status register holds 0 and the FIFO is
  well formed. The reachable states are those of the device as built by \<open>new\<close>
  after any sequence of byte writes (reads do not change it). \<open>gpu_writes\<close> runs a
  sequence of byte stores, as a program storing to the window issues them.
\<close>

definition gpu_ok :: "gpu_mmio \<Rightarrow> bool" where
  "gpu_ok g \<longleftrightarrow> gstatus (gregs g) = 0 \<and> fifo_ok (gfifo g)"

inductive gpu_reach :: "gpu_mmio \<Rightarrow> bool" where
  reach_init: "gpu_reach (gpu_new b p)"
| reach_step: "gpu_reach g \<Longrightarrow> gpu_write8 g a x v = Some (res, g', v') \<Longrightarrow> gpu_reach g'"

fun gpu_writes :: "gpu_mmio \<Rightarrow> (u32 \<times> u8) list \<Rightarrow> bytes \<Rightarrow> (gpu_mmio \<times> bytes) option" where
  "gpu_writes g [] v = Some (g, v)"
| "gpu_writes g ((a, b) # ws) v =
     (case gpu_write8 g a b v of None \<Rightarrow> None | Some (_, g', v') \<Rightarrow> gpu_writes g' ws v')"

subsection \<open>Lemmas\<close>

lemma frame_status0: "gstatus r = 0 \<Longrightarrow> r\<lparr>gstatus := gstatus r AND NOT 1\<rparr> = r"
  by simp

lemma status0_upd: "gstatus r = 0 \<Longrightarrow> r\<lparr>gstatus := 0\<rparr> = r"
  by simp

lemmas cmd_defs = cmd_clear_def cmd_grad_x_def cmd_grad_y_def cmd_grad_xy_def cmd_putchar_def
  cmd_fillrect_def cmd_rect_outline_def cmd_line_def cmd_blit_def cmd_blit_tilemap_def

lemma puts_keeps_regs:
  assumes "cmd_puts x y len fg bg g v = Some (g', v')" "gstatus (gregs g) = 0"
  shows "\<exists>f. g' = g\<lparr>gfifo := f\<rparr> \<and> length (fbuf f) = length (fbuf (gfifo g))"
proof -
  let ?P = "\<lambda>s. \<exists>f. fst (snd s) = g\<lparr>gfifo := f\<rparr> \<and> length (fbuf f) = length (fbuf (gfifo g))"
  obtain cx where run: "for_each [0..<unat len] (puts_step y fg bg) (x, g, v) = Some (cx, g', v')"
    using assms(1) by (auto simp: cmd_puts_def)
  have step: "\<And>i u u'. puts_step y fg bg i u = Some u' \<Longrightarrow> ?P u \<Longrightarrow> ?P u'"
    using assms(2)
    by (auto simp: puts_step_def cmd_defs status0_upd bind_eq_Some_conv dest!: fifo_pop_len
        split: prod.splits)
  have "?P (x, g, v)" by (intro exI[of _ "gfifo g"]) simp
  from for_each_preserves[OF run, where P = ?P, OF this step] show ?thesis by simp
qed

lemma exec_cmd_inv:
  assumes "exec_cmd c g v = Some (g', v')" "gstatus (gregs g) = 0"
  shows "\<exists>f. g' = g\<lparr>gfifo := f\<rparr> \<and> fhead f = 0 \<and> length (fbuf f) = length (fbuf (gfifo g))"
  using assms
  by (auto simp: exec_cmd_def run_cmd_def cmd_defs Let_def bind_eq_Some_conv status0_upd fifo_reset_def
      dest!: fifo_pop_len fifo_pop_u32_len puts_keeps_regs split: if_splits prod.splits)

lemma set_hi_set_lo: "set_hi (set_lo c lo) hi = from_le16 lo hi"
  unfolding set_hi_def set_lo_def from_le16_def
  by (rule word16_eq_by_bits) (simp add: field_bits)

lemma gpu_write_reg_ok:
  assumes "gpu_write_reg off x g v = Some (g', v')" "gpu_ok g"
  shows "gpu_ok g'"
proof -
  have ex: "exec_cmd c (g\<lparr>cmd_tmp := c\<rparr>) v = Some (g1, v1) \<Longrightarrow> gpu_ok (g1\<lparr>cmd_tmp := 0\<rparr>)" for c g1 v1
    using exec_cmd_inv[of c "g\<lparr>cmd_tmp := c\<rparr>" v g1 v1] assms(2)
    by (auto simp: gpu_ok_def fifo_ok_def)
  show ?thesis
    using assms ex fifo_push_step[of "gfifo g"]
    by (auto simp: gpu_write_reg_def gpu_ok_def Let_def split: if_splits)
qed

lemma gpu_write8_ok: "gpu_write8 g a x v = Some (res, g', v') \<Longrightarrow> gpu_ok g \<Longrightarrow> gpu_ok g'"
  by (auto simp: gpu_write8_def dest: gpu_write_reg_ok split: option.splits)

lemma gpu_ok_new: "gpu_ok (gpu_new b p)"
  by (simp add: gpu_ok_def gpu_new_def gpu_regs_default_def)

lemma gpu_reach_ok: "gpu_reach g \<Longrightarrow> gpu_ok g"
  by (induction rule: gpu_reach.induct) (auto simp: gpu_ok_new dest: gpu_write8_ok)

lemma reg_byte_0 [simp]: "reg_byte 0 k = 0"
  by (simp add: reg_byte_def)

lemma within_off [simp]: "(off::u32) < 0x100 \<Longrightarrow> within g (gbase g + off) = Some off"
  by (simp add: within_def)

subsection \<open>Properties\<close>

text \<open>
  C10: BUSY is never visible: in every reachable state of the GPU, a read of any byte
  of the status register returns 0, since each command sets and clears BUSY within
  the single byte store that starts it.
\<close>

lemma status_reads_zero:
  assumes "gpu_reach g" "0x0C \<le> a - gbase g" "a - gbase g \<le> 0x0F"
  shows "gpu_read8 g a = Inr 0"
proof -
  define off where "off = a - gbase g"
  have "off < 0x100" using assms(3) by (simp add: off_def le_less_trans)
  moreover have "off \<noteq> 0" "off \<noteq> 1" "off \<noteq> 2" "off \<noteq> 3" "off \<noteq> 4" "off \<noteq> 5" "off \<noteq> 6"
    using assms(2) by (auto simp: off_def word_le_nat_alt)
  ultimately show ?thesis
    using gpu_reach_ok[OF assms(1)] assms(2,3)
    by (simp add: gpu_read8_def within_def gpu_ok_def off_def[symmetric])
qed

lemma status_reads_zero_witness:
  "gpu_reach (gpu_new 0x1F802000 1) \<and> gpu_read8 (gpu_new 0x1F802000 1) 0x1F80200C = Inr 0"
  using status_reads_zero[where g = "gpu_new 0x1F802000 1" and a = "0x1F80200C"] gpu_reach.reach_init
  by (simp add: gpu_new_def)

text \<open>
  C34: the command register assembles its low byte (offset 0x10) and high byte (0x11)
  into the little-endian 16-bit opcode; the second store runs that opcode on the
  current FIFO and then clears the latch.
\<close>

lemma cmd_write_executes:
  "\<exists>g1. gpu_write8 g (gbase g + 0x10) lo v = Some (Inr (), g1, v)
      \<and> gbase g1 = gbase g
      \<and> gpu_write8 g1 (gbase g + 0x11) hi v
          = map_option (\<lambda>(g', v'). (Inr (), g'\<lparr>cmd_tmp := 0\<rparr>, v'))
              (exec_cmd (from_le16 lo hi) (g\<lparr>cmd_tmp := from_le16 lo hi\<rparr>) v)"
  by (intro exI[of _ "g\<lparr>cmd_tmp := set_lo (cmd_tmp g) lo\<rparr>"])
     (simp add: gpu_write8_def gpu_write_reg_def within_def set_hi_set_lo word_le_nat_alt option.map_comp
        comp_def split_def Let_def)

text \<open>
  C35: the parameter register assembles its two bytes (offsets 0x12, 0x13) into one
  16-bit entry, pushed on the FIFO by the second store, and clears its latch.
\<close>

lemma param_write_pushes:
  "\<exists>g1. gpu_write8 g (gbase g + 0x12) lo v = Some (Inr (), g1, v)
      \<and> gbase g1 = gbase g
      \<and> gpu_write8 g1 (gbase g + 0x13) hi v
          = Some (Inr (), g\<lparr>gfifo := fifo_push (from_le16 lo hi) (gfifo g), param_tmp := 0\<rparr>, v)"
  by (intro exI[of _ "g\<lparr>param_tmp := set_lo (param_tmp g) lo\<rparr>"])
     (simp add: gpu_write8_def gpu_write_reg_def within_def set_hi_set_lo word_le_nat_alt)

end
