(* ===== verification/Bus.thy ===== *)
theory Bus
  imports GpuMmio
begin

text \<open>
  The memory bus of \<open>src/aiz32mips_core/src/memory.rs\<close>: a list of boxed devices
  searched in order for the first whose inclusive range contains the physical address,
  byte accesses dispatched to it, 16- and 32-bit accesses composed of byte accesses in
  little-endian order (each byte looked up on its own, \<open>paddr + 1\<close> wrapping), and the
  fixed-segment translation of virtual addresses. The \<open>dyn Device\<close> objects are the
  datatype \<open>device\<close>, one constructor per implementation; \<open>find_device_mut\<close>
  returns an index. The GPU reaches video memory through its raw pointer: here a GPU
  store takes the bytes of the device its \<open>vram_ptr\<close> names, and a pointer naming
  anything else is undefined behaviour, \<open>None\<close>. Reads do not change a device
  (no \<open>read8\<close> mutates, though the trait takes \<open>&mut self\<close>); a store returns the
  bus, changed up to the first failing byte, since the source does not roll back.
\<close>

datatype device = Ram byte_dev | Rom byte_dev | Vram byte_dev | Gpu gpu_mmio

record bus =
  devices :: "device list"
  little_endian :: bool

definition bus_new :: "bool \<Rightarrow> bus" where
  "bus_new le = \<lparr>devices = [], little_endian = le\<rparr>"

definition add_device :: "device \<Rightarrow> bus \<Rightarrow> bus" where
  "add_device d b = b\<lparr>devices := devices b @ [d]\<rparr>"

text \<open>\<open>Device::range\<close> of each implementation, and \<open>RangeInclusive::contains\<close>.\<close>

primrec dev_range :: "device \<Rightarrow> u32 \<times> u32" where
  "dev_range (Ram d) = mem_range d"
| "dev_range (Rom d) = rom_range d"
| "dev_range (Vram d) = vram_range d"
| "dev_range (Gpu g) = gpu_range g"

definition dev_contains :: "device \<Rightarrow> u32 \<Rightarrow> bool" where
  "dev_contains d p = (fst (dev_range d) \<le> p \<and> p \<le> snd (dev_range d))"

fun find_device :: "device list \<Rightarrow> u32 \<Rightarrow> nat option" where
  "find_device [] p = None"
| "find_device (d # ds) p = (if dev_contains d p then Some 0 else map_option Suc (find_device ds p))"

primrec dev_read8 :: "device \<Rightarrow> u32 \<Rightarrow> u8 mem_result" where
  "dev_read8 (Ram d) p = mem_read8 d p"
| "dev_read8 (Rom d) p = rom_read8 d p"
| "dev_read8 (Vram d) p = vram_read8 d p"
| "dev_read8 (Gpu g) p = gpu_read8 g p"

definition bus_read8 :: "bus \<Rightarrow> u32 \<Rightarrow> u8 mem_result" where
  "bus_read8 b p =
     (case find_device (devices b) p of
        None \<Rightarrow> Inl (Unmapped p)
      | Some i \<Rightarrow> dev_read8 (devices b ! i) p)"

text \<open>
  A byte store on device \<open>i\<close>: RAM and video memory change their bytes, ROM refuses,
  the GPU updates its registers and the video memory its pointer names.
\<close>

definition store_result :: "bus \<Rightarrow> nat \<Rightarrow> (byte_dev \<Rightarrow> device) \<Rightarrow> byte_dev mem_result
                            \<Rightarrow> (unit mem_result \<times> bus) option" where
  "store_result b i k r =
     (case r of
        Inl e \<Rightarrow> Some (Inl e, b)
      | Inr d' \<Rightarrow> Some (Inr (), b\<lparr>devices := (devices b)[i := k d']\<rparr>))"

definition dev_write8 :: "bus \<Rightarrow> nat \<Rightarrow> u32 \<Rightarrow> u8 \<Rightarrow> (unit mem_result \<times> bus) option" where
  "dev_write8 b i p v =
     (case devices b ! i of
        Ram d \<Rightarrow> store_result b i Ram (ram_write8 d p v)
      | Rom d \<Rightarrow> store_result b i Rom (rom_write8 d p v)
      | Vram d \<Rightarrow> store_result b i Vram (vram_write8 d p v)
      | Gpu g \<Rightarrow>
          (case get_idx (devices b) (vram_ptr g) of
             Some (Vram vd) \<Rightarrow>
               map_option
                 (\<lambda>(r, g', v'). (r, b\<lparr>devices := (devices b)[i := Gpu g', vram_ptr g := Vram (vd\<lparr>data := v'\<rparr>)]\<rparr>))
                 (gpu_write8 g p v (data vd))
           | _ \<Rightarrow> None))"

definition bus_write8 :: "bus \<Rightarrow> u32 \<Rightarrow> u8 \<Rightarrow> (unit mem_result \<times> bus) option" where
  "bus_write8 b p v =
     (case find_device (devices b) p of
        None \<Rightarrow> Some (Inl (Unmapped p), b)
      | Some i \<Rightarrow> dev_write8 b i p v)"

text \<open>Multi-byte reads: each \<open>?\<close> returns the first error.\<close>

definition bus_read16 :: "bus \<Rightarrow> u32 \<Rightarrow> u16 mem_result" where
  "bus_read16 b p =
     (case bus_read8 b p of
        Inl e \<Rightarrow> Inl e
      | Inr b0 \<Rightarrow> (case bus_read8 b (p + 1) of Inl e \<Rightarrow> Inl e | Inr b1 \<Rightarrow> Inr (from_le16 b0 b1)))"

definition bus_read32 :: "bus \<Rightarrow> u32 \<Rightarrow> u32 mem_result" where
  "bus_read32 b p =
     (case bus_read8 b p of Inl e \<Rightarrow> Inl e | Inr b0 \<Rightarrow>
      case bus_read8 b (p + 1) of Inl e \<Rightarrow> Inl e | Inr b1 \<Rightarrow>
      case bus_read8 b (p + 2) of Inl e \<Rightarrow> Inl e | Inr b2 \<Rightarrow>
      case bus_read8 b (p + 3) of Inl e \<Rightarrow> Inl e | Inr b3 \<Rightarrow> Inr (from_le32 b0 b1 b2 b3))"

text \<open>
  Multi-byte stores: the bytes in order, stopping at the first error with the stores
  before it kept (\<open>write16\<close>, and \<open>write32\<close>'s loop over \<open>bytes.iter().enumerate()\<close>).
\<close>

fun write_bytes :: "bus \<Rightarrow> u32 \<Rightarrow> (nat \<times> u8) list \<Rightarrow> (unit mem_result \<times> bus) option" where
  "write_bytes b p [] = Some (Inr (), b)"
| "write_bytes b p ((i, x) # xs) =
     (case bus_write8 b (p + word_of_nat i) x of
        None \<Rightarrow> None
      | Some (Inl e, b') \<Rightarrow> Some (Inl e, b')
      | Some (Inr u, b') \<Rightarrow> write_bytes b' p xs)"

definition bus_write16 :: "bus \<Rightarrow> u32 \<Rightarrow> u16 \<Rightarrow> (unit mem_result \<times> bus) option" where
  "bus_write16 b p v = write_bytes b p (enumerate 0 (le_bytes16 v))"

definition bus_write32 :: "bus \<Rightarrow> u32 \<Rightarrow> u32 \<Rightarrow> (unit mem_result \<times> bus) option" where
  "bus_write32 b p v = write_bytes b p (enumerate 0 (le_bytes32 v))"

subsection \<open>Virtual addresses\<close>

definition translate_vaddr :: "u32 \<Rightarrow> u32 mem_result" where
  "translate_vaddr v =
     (if v \<le> 0x7FFFFFFF then Inr v
      else if v \<le> 0x9FFFFFFF then Inr (v - 0x80000000)
      else if v \<le> 0xBFFFFFFF then Inr (v - 0xA0000000)
      else Inl (Unmapped v))"

definition read8_virt :: "bus \<Rightarrow> u32 \<Rightarrow> u8 mem_result" where
  "read8_virt b v = (case translate_vaddr v of Inl e \<Rightarrow> Inl e | Inr p \<Rightarrow> bus_read8 b p)"

definition read16_virt :: "bus \<Rightarrow> u32 \<Rightarrow> u16 mem_result" where
  "read16_virt b v = (case translate_vaddr v of Inl e \<Rightarrow> Inl e | Inr p \<Rightarrow> bus_read16 b p)"

definition read32_virt :: "bus \<Rightarrow> u32 \<Rightarrow> u32 mem_result" where
  "read32_virt b v = (case translate_vaddr v of Inl e \<Rightarrow> Inl e | Inr p \<Rightarrow> bus_read32 b p)"

definition write8_virt :: "bus \<Rightarrow> u32 \<Rightarrow> u8 \<Rightarrow> (unit mem_result \<times> bus) option" where
  "write8_virt b v x = (case translate_vaddr v of Inl e \<Rightarrow> Some (Inl e, b) | Inr p \<Rightarrow> bus_write8 b p x)"

definition write16_virt :: "bus \<Rightarrow> u32 \<Rightarrow> u16 \<Rightarrow> (unit mem_result \<times> bus) option" where
  "write16_virt b v x = (case translate_vaddr v of Inl e \<Rightarrow> Some (Inl e, b) | Inr p \<Rightarrow> bus_write16 b p x)"

definition write32_virt :: "bus \<Rightarrow> u32 \<Rightarrow> u32 \<Rightarrow> (unit mem_result \<times> bus) option" where
  "write32_virt b v x = (case translate_vaddr v of Inl e \<Rightarrow> Some (Inl e, b) | Inr p \<Rightarrow> bus_write32 b p x)"

subsection \<open>Well-formed devices and a sample bus\<close>

text \<open>
  A byte device is well formed when it holds at least one byte and does not reach past
  the top of the address space; then its range test and its offset test agree. A
  sample bus: 16 bytes of RAM at 0, a 4-byte ROM at 0x1FC00000, 32 bytes of video
  memory at 0x10000000 and the GPU at 0x1F802000 pointing at the video memory (the
  emulator's layout with small memories).
\<close>

definition dev_ok :: "byte_dev \<Rightarrow> bool" where
  "dev_ok d \<longleftrightarrow> 0 < length (data d) \<and> unat (base d) + length (data d) \<le> 2 ^ 32"

definition demo_bus :: bus where
  "demo_bus = \<lparr>devices = [Ram (ram_new 0 16), Rom (rom_new 0x1FC00000 [1, 2, 3, 4]),
                           Vram (ram_new 0x10000000 32), Gpu (gpu_new 0x1F802000 2)],
                little_endian = True\<rparr>"

subsection \<open>Lemmas\<close>

lemma translate_vaddr_Inr: "translate_vaddr v = Inr p \<Longrightarrow> unat v < 0xC0000000"
  by (auto simp: translate_vaddr_def word_le_nat_alt split: if_splits)

lemma read32_virt_below: "read32_virt b v = Inr x \<Longrightarrow> unat v < 0xC0000000"
  by (auto simp: read32_virt_def dest: translate_vaddr_Inr split: sum.splits)

lemma mem_range_offset:
  assumes "dev_ok d"
  shows "(fst (mem_range d) \<le> p \<and> p \<le> snd (mem_range d)) \<longleftrightarrow> dev_offset d p \<noteq> None"
proof -
  define n where "n = length (data d)"
  have n: "0 < n" "unat (base d) + n \<le> 2 ^ 32" using assms by (simp_all add: dev_ok_def n_def)
  have w: "(word_of_nat n - 1 :: u32) = word_of_nat (n - 1)" using n(1) by (simp add: of_nat_diff)
  have u: "unat (word_of_nat (n - 1) :: u32) = n - 1"
    by (rule of_nat_inverse) (use n in simp_all)
  have e: "unat (base d + word_of_nat (n - 1)) = unat (base d) + (n - 1)"
    using n u by (subst unat_add_lem[THEN iffD1]) simp_all
  have "(base d \<le> p \<and> p \<le> base d + word_of_nat (n - 1)) \<longleftrightarrow> unat (p - base d) < n"
  proof
    assume "base d \<le> p \<and> p \<le> base d + word_of_nat (n - 1)"
    then have "unat (base d) \<le> unat p" "unat p \<le> unat (base d) + (n - 1)"
      using e by (simp_all add: word_le_nat_alt)
    moreover have "unat (p - base d) = unat p - unat (base d)"
      using \<open>base d \<le> p \<and> _\<close> by (simp add: unat_sub)
    ultimately show "unat (p - base d) < n" using n(1) by linarith
  next
    assume a: "unat (p - base d) < n"
    show "base d \<le> p \<and> p \<le> base d + word_of_nat (n - 1)"
    proof (cases "base d \<le> p")
      case True
      then have "unat (p - base d) = unat p - unat (base d)" by (simp add: unat_sub)
      then show ?thesis using True a e by (simp add: word_le_nat_alt)
    next
      case False
      then have "unat (p - base d) = 2 ^ 32 + unat p - unat (base d)"
        by (simp add: unat_sub_if' word_le_nat_alt)
      then show ?thesis using a n by simp
    qed
  qed
  then show ?thesis by (simp add: mem_range_def dev_offset_def Let_def n_def[symmetric] w)
qed

lemma find_device_Some:
  "find_device ds p = Some i \<Longrightarrow> i < length ds \<and> dev_contains (ds ! i) p"
  by (induction ds p arbitrary: i rule: find_device.induct) (auto split: if_splits)

lemma find_device_ranges:
  "map dev_range ds = map dev_range ds' \<Longrightarrow> find_device ds p = find_device ds' p"
proof (induction ds arbitrary: ds')
  case Nil
  then show ?case by simp
next
  case (Cons d ds)
  then obtain d' ds'' where "ds' = d' # ds''" "dev_range d = dev_range d'" "map dev_range ds = map dev_range ds''"
    by (cases ds') auto
  with Cons.IH show ?case by (simp add: dev_contains_def)
qed

lemma find_device_update:
  "dev_range d' = dev_range (ds ! i) \<Longrightarrow> find_device (ds[i := d']) p = find_device ds p"
proof (rule find_device_ranges)
  assume r: "dev_range d' = dev_range (ds ! i)"
  show "map dev_range (ds[i := d']) = map dev_range ds"
  proof (cases "i < length ds")
    case True
    then have "(map dev_range ds)[i := dev_range (ds ! i)] = map dev_range ds"
      using list_update_id[of "map dev_range ds" i] by simp
    then show ?thesis using r by (simp add: map_update)
  next
    case False
    then show ?thesis by (simp add: list_update_beyond)
  qed
qed

lemma ram_store:
  assumes "find_device (devices b) q = Some i" "devices b ! i = Ram d" "dev_ok d"
  shows "\<exists>d'. bus_write8 b q x = Some (Inr (), b\<lparr>devices := (devices b)[i := Ram d']\<rparr>)
           \<and> dev_ok d' \<and> dev_range (Ram d') = dev_range (Ram d)
           \<and> (\<forall>r. mem_read8 d' r = (if r = q then Inr x else mem_read8 d r))"
proof -
  have c: "dev_contains (Ram d) q" using find_device_Some[OF assms(1)] assms(2) by simp
  then obtain off where off: "dev_offset d q = Some off"
    using mem_range_offset[OF assms(3)] by (auto simp: dev_contains_def)
  define d' where "d' = d\<lparr>data := (data d)[off := x]\<rparr>"
  have w: "ram_write8 d q x = Inr d'" using off by (simp add: ram_write8_def d'_def)
  show ?thesis
    using assms w mem_read8_ram_write8[OF w]
    by (intro exI[of _ d']) (auto simp: bus_write8_def dev_write8_def store_result_def dev_ok_def
        d'_def mem_range_def)
qed

lemma ram_store_read:
  assumes "find_device (devices b) q = Some i" "devices b ! i = Ram d" "dev_ok d"
  shows "\<exists>b' d'. bus_write8 b q x = Some (Inr (), b')
           \<and> (\<forall>r. bus_read8 b' r = (if r = q then Inr x else bus_read8 b r))
           \<and> (\<forall>r. find_device (devices b') r = find_device (devices b) r)
           \<and> devices b' ! i = Ram d' \<and> dev_ok d'"
proof -
  obtain d' where d': "bus_write8 b q x = Some (Inr (), b\<lparr>devices := (devices b)[i := Ram d']\<rparr>)"
    "dev_ok d'" "dev_range (Ram d') = dev_range (Ram d)"
    "\<forall>r. mem_read8 d' r = (if r = q then Inr x else mem_read8 d r)"
    using ram_store[OF assms] by blast
  have i: "i < length (devices b)" using find_device_Some[OF assms(1)] by simp
  have f: "\<forall>r. find_device ((devices b)[i := Ram d']) r = find_device (devices b) r"
    using find_device_update[of "Ram d'" "devices b" i] d'(3) assms(2) by simp
  have "\<forall>r. bus_read8 (b\<lparr>devices := (devices b)[i := Ram d']\<rparr>) r
              = (if r = q then Inr x else bus_read8 b r)"
    using f d'(4) assms(1,2) i
    by (auto simp: bus_read8_def nth_list_update split: option.splits)
  then show ?thesis using d' f i by (intro exI[of _ "b\<lparr>devices := (devices b)[i := Ram d']\<rparr>"] exI[of _ d']) simp
qed

text \<open>
  A 32-bit store to four addresses of a well-formed RAM device succeeds and leaves the
  stored word's little-endian bytes at those addresses.
\<close>

lemma ram_store32:
  assumes "devices b ! i = Ram d" "dev_ok d"
    and "\<forall>k \<in> {0, 1, 2, 3}. find_device (devices b) (p + k) = Some i"
  shows "\<exists>b'. bus_write32 b p v = Some (Inr (), b') \<and>
           map (\<lambda>k. bus_read8 b' (p + k)) [0, 1, 2, 3] = map Inr (le_bytes32 v)"
proof -
  obtain x0 x1 x2 x3 where xs: "le_bytes32 v = [x0, x1, x2, x3]" by (simp add: le_bytes32_def)
  have f: "find_device (devices b) (p + k) = Some i" if "k \<in> {0, 1, 2, 3}" for k
    using assms(3) that by blast
  obtain b1 d1 where 1: "bus_write8 b p x0 = Some (Inr (), b1)"
    "\<forall>r. bus_read8 b1 r = (if r = p then Inr x0 else bus_read8 b r)"
    "\<forall>r. find_device (devices b1) r = find_device (devices b) r" "devices b1 ! i = Ram d1" "dev_ok d1"
    using ram_store_read[OF f[of 0, simplified] assms(1,2)] by blast
  obtain b2 d2 where 2: "bus_write8 b1 (p + 1) x1 = Some (Inr (), b2)"
    "\<forall>r. bus_read8 b2 r = (if r = p + 1 then Inr x1 else bus_read8 b1 r)"
    "\<forall>r. find_device (devices b2) r = find_device (devices b1) r" "devices b2 ! i = Ram d2" "dev_ok d2"
    using ram_store_read[OF _ 1(4,5), where q = "p + 1" and x = x1] f[of 1] 1(3) by fastforce
  obtain b3 d3 where 3: "bus_write8 b2 (p + 2) x2 = Some (Inr (), b3)"
    "\<forall>r. bus_read8 b3 r = (if r = p + 2 then Inr x2 else bus_read8 b2 r)"
    "\<forall>r. find_device (devices b3) r = find_device (devices b2) r" "devices b3 ! i = Ram d3" "dev_ok d3"
    using ram_store_read[OF _ 2(4,5), where q = "p + 2" and x = x2] f[of 2] 1(3) 2(3) by fastforce
  obtain b4 d4 where 4: "bus_write8 b3 (p + 3) x3 = Some (Inr (), b4)"
    "\<forall>r. bus_read8 b4 r = (if r = p + 3 then Inr x3 else bus_read8 b3 r)"
    using ram_store_read[OF _ 3(4,5), where q = "p + 3" and x = x3] f[of 3] 1(3) 2(3) 3(3)
    by fastforce
  have "bus_write32 b p v = Some (Inr (), b4)"
    using 1(1) 2(1) 3(1) 4(1) xs by (simp add: bus_write32_def)
  moreover have "map (\<lambda>k. bus_read8 b4 (p + k)) [0, 1, 2, 3] = map Inr (le_bytes32 v)"
    using 1(2) 2(2) 3(2) 4(2) xs by simp
  ultimately show ?thesis by blast
qed

text \<open>\<open>MemoryBus::read32\<close> assembles four stored bytes little-endian.\<close>

lemma bus_read32_bytes:
  "map (\<lambda>k. bus_read8 b (p + k)) [0, 1, 2, 3] = map Inr (le_bytes32 v) \<Longrightarrow> bus_read32 b p = Inr v"
  by (simp add: bus_read32_def le_bytes32_def from_le32_le_bytes)

subsection \<open>Properties\<close>

text \<open>
  C4: a 32-bit store to four addresses of a well-formed RAM device followed by a 32-bit
  load from the same address returns the stored word (bytes in little-endian order).
\<close>

lemma bus_ram_roundtrip:
  assumes "devices b ! i = Ram d" "dev_ok d"
    and "\<forall>k \<in> {0, 1, 2, 3}. find_device (devices b) (p + k) = Some i"
  shows "\<exists>b'. bus_write32 b p v = Some (Inr (), b') \<and> bus_read32 b' p = Inr v"
  using ram_store32[OF assms, of v] bus_read32_bytes by blast

lemma bus_ram_roundtrip_witness:
  "\<exists>b'. bus_write32 demo_bus 8 0xDEADBEEF = Some (Inr (), b') \<and> bus_read32 b' 8 = Inr 0xDEADBEEF"
  using bus_ram_roundtrip[of demo_bus 0 "ram_new 0 16" 8 "0xDEADBEEF"]
  by (simp add: demo_bus_def dev_ok_def ram_new_def dev_contains_def mem_range_def vram_range_def
      rom_new_def gpu_range_def gpu_new_def)

text \<open>
  C25: a byte store to an address owned by a ROM fails with \<open>RomWrite\<close> of that address
  and leaves the bus unchanged, so a later read returns the original ROM byte.
\<close>

lemma bus_rom_write:
  assumes "find_device (devices b) p = Some i" "devices b ! i = Rom d"
  shows "bus_write8 b p v = Some (Inl (RomWrite p), b) \<and> bus_read8 b p = mem_read8 d p"
  using assms by (simp add: bus_write8_def dev_write8_def store_result_def rom_write8_def bus_read8_def)

lemma bus_rom_write_witness:
  "bus_write8 demo_bus 0x1FC00001 7 = Some (Inl (RomWrite 0x1FC00001), demo_bus)
   \<and> bus_read8 demo_bus 0x1FC00001 = mem_read8 (rom_new 0x1FC00000 [1, 2, 3, 4]) 0x1FC00001"
  using bus_rom_write[of demo_bus "0x1FC00001" 1 "rom_new 0x1FC00000 [1, 2, 3, 4]" 7]
  by (simp add: demo_bus_def dev_contains_def mem_range_def ram_new_def rom_new_def)

text \<open>
  C26: translation of KSEG0 subtracts 0x80000000, and the KSEG1 address 0x20000000
  higher reaches the same physical address.
\<close>

lemma translate_kseg:
  assumes "0x80000000 \<le> v" "v \<le> 0x9FFFFFFF"
  shows "translate_vaddr v = Inr (v - 0x80000000) \<and> translate_vaddr (v + 0x20000000) = Inr (v - 0x80000000)"
proof -
  have v: "0x80000000 \<le> unat v" "unat v \<le> 0x9FFFFFFF" using assms by (simp_all add: word_le_nat_alt)
  have "unat v + unat (0x20000000 :: u32) < 2 ^ LENGTH(32)" using v by simp
  then have u: "unat (v + 0x20000000) = unat v + 0x20000000"
    using unat_add_lem[of v "0x20000000 :: u32"] by simp
  have "(v + 0x20000000) - 0xA0000000 = v - 0x80000000" by simp
  then show ?thesis using v u by (simp add: translate_vaddr_def word_le_nat_alt)
qed

lemma translate_kseg_witness:
  "translate_vaddr 0x9FC00000 = Inr 0x1FC00000 \<and> translate_vaddr (0x9FC00000 + 0x20000000) = Inr 0x1FC00000"
  using translate_kseg[of "0x9FC00000"] by simp

end
