(* ===== verification/Cpu.thy ===== *)
theory Cpu
  imports Bus Alu Registers Instructions
begin

text \<open>
  The interpreter of \<open>src/aiz32mips_core/src/cpu.rs\<close>: the \<open>CPU\<close> struct (registers and
  the two coprocessor banks; the \<open>ALU\<close> field is a unit struct and carries nothing),
  \<open>reset\<close>, \<open>fetch\<close>, \<open>execute\<close> and \<open>step\<close> on a CPU and a bus. \<open>fetch\<close> returns
  Rust's \<open>Option\<close>: \<open>None\<close> when the bus read fails, with the PC unchanged. \<open>execute\<close>
  returns its \<open>u32\<close> result with the new CPU and bus, or \<open>None\<close> where the Rust code
  panics (the ALU's \<open>i32::MIN / -1\<close>, a register index out of range, a GPU store
  through a pointer to something other than video memory). A taken branch or jump runs
  its delay slot by a nested fetch and \<open>execute\<close>: \<open>execute\<close> and \<open>delay_slot\<close> are
  mutually recursive and terminate because each nested fetch advances the PC by 4 and no
  fetch succeeds at or above \<open>0xC0000000\<close>. The lemmas show the invariant \<open>cpu_ok\<close>
  kept by every run, that store-free straight-line programs run to their end, and the
  step of every kind of instruction on every CPU and bus: the PC and link of branches
  and jumps, loads and stores with their addresses and error paths, the HI:LO
  accumulator, and the SW/LW round trip through the bus.
\<close>

record cpu =
  cpu_registers :: registers
  cpu_cop0 :: cop0
  cpu_cop1 :: cop1

text \<open>\<open>CPU::reset\<close>: default registers and banks, SP = 0x800FF000, GP and RA = 0xBFC00000.\<close>

definition cpu_reset :: "cpu \<Rightarrow> cpu" where
  "cpu_reset c =
     c\<lparr>cpu_registers :=
          reg_write 31 0xBFC00000 (set_gpc 0xBFC00000 (set_sp (0x80000000 + 0x00100000 - 0x1000)
            (registers_reset (cpu_registers c)))),
       cpu_cop0 := cop0_default, cpu_cop1 := cop1_default\<rparr>"

definition cpu_new :: cpu where
  "cpu_new = cpu_reset \<lparr>cpu_registers = registers_default, cpu_cop0 = cop0_default,
                         cpu_cop1 = cop1_default\<rparr>"

abbreviation cpu_pc :: "cpu \<Rightarrow> u32" where
  "cpu_pc c \<equiv> get_pc (cpu_registers c)"

abbreviation cpu_set_pc :: "u32 \<Rightarrow> cpu \<Rightarrow> cpu" where
  "cpu_set_pc v c \<equiv> c\<lparr>cpu_registers := set_pc v (cpu_registers c)\<rparr>"

abbreviation cpu_write :: "nat \<Rightarrow> u32 \<Rightarrow> cpu \<Rightarrow> cpu" where
  "cpu_write i v c \<equiv> c\<lparr>cpu_registers := reg_write i v (cpu_registers c)\<rparr>"

abbreviation cpu_read :: "cpu \<Rightarrow> u8 \<Rightarrow> u32 option" where
  "cpu_read c i \<equiv> reg_read (cpu_registers c) (unat i)"

text \<open>\<open>fetch\<close>: a 32-bit read at the virtual PC; on success the PC advances by 4 (wrapping).\<close>

definition fetch :: "cpu \<Rightarrow> bus \<Rightarrow> (u32 \<times> cpu) option" where
  "fetch c b =
     (let pc = cpu_pc c in
      case read32_virt b pc of
        Inr instr \<Rightarrow> Some (instr, cpu_set_pc (pc + 4) c)
      | Inl e \<Rightarrow> None)"

text \<open>\<open>if rd != 0 { write(rd, v) }\<close>, the guard the handlers put before a register write.\<close>

definition write_nz :: "u8 \<Rightarrow> u32 \<Rightarrow> cpu \<Rightarrow> cpu" where
  "write_nz r v c = (if r \<noteq> 0 then cpu_write (unat r) v c else c)"

text \<open>\<open>Result::unwrap_or\<close> on a bus result.\<close>

definition unwrap_or :: "'a mem_result \<Rightarrow> 'a \<Rightarrow> 'a" where
  "unwrap_or r d = (case r of Inr x \<Rightarrow> x | Inl e \<Rightarrow> d)"

subsection \<open>The straight-line handlers\<close>

text \<open>R-type ALU operations: HI and LO written when produced, then \<open>rd\<close> unless 0.\<close>

definition exec_alu_r :: "cpu \<Rightarrow> rtype \<Rightarrow> u32 \<Rightarrow> u32 \<Rightarrow> (u32 \<times> cpu) option" where
  "exec_alu_r c r rs_val rt_val =
     (let sp = special (cpu_registers c) in
      case alu_execute rs_val rt_val (r_shamt r) 0 (r_opcode r) (r_funct r) False (hi sp) (lo sp) of
        None \<Rightarrow> None
      | Some res \<Rightarrow>
          (let regs1 = (case res_hi res of Some h \<Rightarrow> write_special Hi h (cpu_registers c)
                                          | None \<Rightarrow> cpu_registers c);
               regs2 = (case res_lo res of Some l \<Rightarrow> write_special Lo l regs1 | None \<Rightarrow> regs1)
           in Some (res_value res, write_nz (r_rd r) (res_value res) (c\<lparr>cpu_registers := regs2\<rparr>))))"

text \<open>I-type ALU operations: \<open>rt\<close> unless 0; HI and LO are not touched.\<close>

definition exec_alu_i :: "cpu \<Rightarrow> itype \<Rightarrow> u32 \<Rightarrow> u32 \<Rightarrow> (u32 \<times> cpu) option" where
  "exec_alu_i c i rs_val rt_val =
     (let sp = special (cpu_registers c) in
      case alu_execute rs_val rt_val 0 (i_imm i) (i_opcode i) 0 True (hi sp) (lo sp) of
        None \<Rightarrow> None
      | Some res \<Rightarrow> Some (res_value res, write_nz (i_rt i) (res_value res) c))"

text \<open>
  Loads and stores, address \<open>rs + sext(imm)\<close>. LW keeps \<open>rt\<close> when the read fails; the
  byte and half-word loads write 0 then (\<open>unwrap_or(0)\<close>); LH, LHU and SH use the
  physical \<open>read16\<close>/\<open>write16\<close> without translation; store errors are dropped
  (\<open>.ok()\<close>).
\<close>

definition is_mem_op :: "u8 \<Rightarrow> bool" where
  "is_mem_op op \<longleftrightarrow> op \<in> {0x23, 0x2B, 0x20, 0x24, 0x21, 0x25, 0x28, 0x29}"

definition store_ok :: "cpu \<Rightarrow> (unit mem_result \<times> bus) option \<Rightarrow> (u32 \<times> cpu \<times> bus) option" where
  "store_ok c r = map_option (\<lambda>(e, b'). (0, c, b')) r"

definition exec_mem :: "cpu \<Rightarrow> bus \<Rightarrow> itype \<Rightarrow> u32 \<Rightarrow> u32 \<Rightarrow> (u32 \<times> cpu \<times> bus) option" where
  "exec_mem c b i rs_val rt_val =
     (let op = i_opcode i; addr = rs_val + scast (i_imm i) in
      if op = 0x23 then
        (case read32_virt b addr of
           Inr v \<Rightarrow> Some (v, write_nz (i_rt i) v c, b)
         | Inl e \<Rightarrow> Some (0, c, b))
      else if op = 0x2B then store_ok c (write32_virt b addr rt_val)
      else if op = 0x20 then
        (let v = scast (unwrap_or (read8_virt b addr) 0) in Some (v, write_nz (i_rt i) v c, b))
      else if op = 0x24 then
        (let v = ucast (unwrap_or (read8_virt b addr) 0) in Some (v, write_nz (i_rt i) v c, b))
      else if op = 0x21 then
        (let v = scast (unwrap_or (bus_read16 b addr) 0) in Some (v, write_nz (i_rt i) v c, b))
      else if op = 0x25 then
        (let v = ucast (unwrap_or (bus_read16 b addr) 0) in Some (v, write_nz (i_rt i) v c, b))
      else if op = 0x28 then store_ok c (write8_virt b addr (ucast (rt_val AND 0xFF)))
      else store_ok c (bus_write16 b addr (ucast (rt_val AND 0xFFFF))))"

text \<open>
  SPECIAL2: HI:LO as a 64-bit accumulator (\<open>hilo\<close>) plus or minus the signed or
  unsigned 64-bit product; MUL writes the low word to \<open>rd\<close> and the product to HI:LO.
  Other function codes only print.
\<close>

definition set_hilo :: "u64 \<Rightarrow> cpu \<Rightarrow> cpu" where
  "set_hilo v c = c\<lparr>cpu_registers := write_special Lo (lo_of v) (write_special Hi (hi_of v) (cpu_registers c))\<rparr>"

definition exec_special2 :: "cpu \<Rightarrow> special2 \<Rightarrow> (u32 \<times> cpu) option" where
  "exec_special2 c s =
     (case cpu_read c (s2_rs s) of None \<Rightarrow> None | Some rs_val \<Rightarrow>
      case cpu_read c (s2_rt s) of None \<Rightarrow> None | Some rt_val \<Rightarrow>
      let sp = special (cpu_registers c); acc = hilo (hi sp) (lo sp) in
      if s2_funct s = 0x00 then Some (0, set_hilo (acc + mult_prod rs_val rt_val) c)
      else if s2_funct s = 0x01 then Some (0, set_hilo (acc + multu_prod rs_val rt_val) c)
      else if s2_funct s = 0x02 then
        (let prod = mult_prod rs_val rt_val in
         Some (0, set_hilo prod (cpu_write (unat (s2_rd s)) (ucast prod) c)))
      else if s2_funct s = 0x04 then Some (0, set_hilo (acc - mult_prod rs_val rt_val) c)
      else if s2_funct s = 0x05 then Some (0, set_hilo (acc - multu_prod rs_val rt_val) c)
      else Some (0, c))"

subsection \<open>Branches\<close>

text \<open>\<open>((imm as i16 as i32) << 2) as u32\<close>.\<close>

definition branch_offset :: "u16 \<Rightarrow> u32" where
  "branch_offset imm = push_bit 2 (scast imm)"

text \<open>The conditions of BEQ, BNE, BLEZ and BGTZ (opcodes 4 to 7).\<close>

definition branch_cond :: "u8 \<Rightarrow> u32 \<Rightarrow> u32 \<Rightarrow> bool" where
  "branch_cond op rs_val rt_val =
     (if op = 0x04 then rs_val = rt_val
      else if op = 0x05 then rs_val \<noteq> rt_val
      else if op = 0x06 then sint rs_val \<le> 0
      else 0 < sint rs_val)"

text \<open>REGIMM: \<open>(cond, link)\<close> selected by the \<open>rt\<close> field.\<close>

definition regimm_cond :: "u8 \<Rightarrow> u32 \<Rightarrow> bool \<times> bool" where
  "regimm_cond rt rs_val =
     (if rt = 0x00 then (sint rs_val < 0, False)
      else if rt = 0x01 then (0 \<le> sint rs_val, False)
      else if rt = 0x10 then (sint rs_val < 0, True)
      else if rt = 0x11 then (0 \<le> sint rs_val, True)
      else (False, False))"

text \<open>After the REGIMM delay slot: link and target both read the PC as it is then.\<close>

definition regimm_finish :: "bool \<times> bool \<Rightarrow> u16 \<Rightarrow> cpu \<Rightarrow> cpu" where
  "regimm_finish cl imm c =
     (if fst cl then
        (let c1 = (if snd cl then cpu_write 31 (cpu_pc c + 4) c else c)
         in cpu_set_pc (cpu_pc c1 + branch_offset imm) c1)
      else c)"

definition jump_target :: "u32 \<Rightarrow> jtype \<Rightarrow> u32" where
  "jump_target pc_next j = (pc_next AND 0xF0000000) OR push_bit 2 (j_target j)"

subsection \<open>Execute\<close>

text \<open>The measure of the recursion: the distance of the PC below \<open>0xC0000004\<close>.\<close>

definition pc_room :: "cpu \<Rightarrow> nat" where
  "pc_room c = 0xC0000004 - unat (cpu_pc c)"

function execute :: "cpu \<Rightarrow> bus \<Rightarrow> instruction \<Rightarrow> (u32 \<times> cpu \<times> bus) option"
  and delay_slot :: "cpu \<Rightarrow> bus \<Rightarrow> (cpu \<times> bus) option" where
  "execute c b (RType r) =
     (case cpu_read c (r_rs r) of None \<Rightarrow> None | Some rs_val \<Rightarrow>
      case cpu_read c (r_rt r) of None \<Rightarrow> None | Some rt_val \<Rightarrow>
      if r_funct r = 0x08 then
        (case delay_slot c b of None \<Rightarrow> None | Some (c', b') \<Rightarrow> Some (0, cpu_set_pc rs_val c', b'))
      else if r_funct r = 0x09 then
        (case delay_slot (write_nz (r_rd r) (cpu_pc c + 4) c) b of
           None \<Rightarrow> None
         | Some (c', b') \<Rightarrow> Some (0, cpu_set_pc rs_val c', b'))
      else map_option (\<lambda>(v, c'). (v, c', b)) (exec_alu_r c r rs_val rt_val))"
| "execute c b (IType i) =
     (case cpu_read c (i_rs i) of None \<Rightarrow> None | Some rs_val \<Rightarrow>
      case cpu_read c (i_rt i) of None \<Rightarrow> None | Some rt_val \<Rightarrow>
      let pc_next = cpu_pc c in
      if i_opcode i \<in> {0x04, 0x05, 0x06, 0x07} then
        (if branch_cond (i_opcode i) rs_val rt_val then
           (case delay_slot c b of
              None \<Rightarrow> None
            | Some (c', b') \<Rightarrow> Some (0, cpu_set_pc (pc_next + branch_offset (i_imm i)) c', b'))
         else Some (0, c, b))
      else if i_opcode i = 0x01 then
        (case delay_slot c b of
           None \<Rightarrow> None
         | Some (c', b') \<Rightarrow> Some (0, regimm_finish (regimm_cond (i_rt i) rs_val) (i_imm i) c', b'))
      else if is_mem_op (i_opcode i) then exec_mem c b i rs_val rt_val
      else map_option (\<lambda>(v, c'). (v, c', b)) (exec_alu_i c i rs_val rt_val))"
| "execute c b (Special2 s) = map_option (\<lambda>(v, c'). (v, c', b)) (exec_special2 c s)"
| "execute c b (JType j) =
     (let pc_next = cpu_pc c;
          c1 = (if j_opcode j = 0x03 then cpu_write 31 (pc_next + 4) c else c) in
      case delay_slot c1 b of
        None \<Rightarrow> None
      | Some (c', b') \<Rightarrow> Some (0, cpu_set_pc (jump_target pc_next j) c', b'))"
| "execute c b (Cop0 x) = Some (0, c, b)"
| "execute c b (Cop1 x) = Some (0, c, b)"
| "execute c b (Special3 x) = Some (0, c, b)"
| "execute c b (Invalid w) = Some (0, c, b)"
| "delay_slot c b =
     (case fetch c b of
        None \<Rightarrow> Some (c, b)
      | Some (w, c1) \<Rightarrow> map_option snd (execute c1 b (decode w)))"
  by pat_completeness auto
termination
  apply (relation "measure (\<lambda>x. case x of Inl (c, b, i) \<Rightarrow> 2 * pc_room c + 1 | Inr (c, b) \<Rightarrow> 2 * pc_room c)")
  apply (simp_all add: pc_room_def write_nz_def)
  subgoal for c b x2 w c1
  proof -
    assume "fetch c b = Some x2" "(w, c1) = x2"
    then obtain x where r: "read32_virt b (cpu_pc c) = Inr x" and c1: "c1 = cpu_set_pc (cpu_pc c + 4) c"
      by (auto simp: fetch_def Let_def split: sum.splits)
    have lt: "unat (cpu_pc c) < 0xC0000000" using read32_virt_below[OF r] .
    then have "unat (cpu_pc c + 4) = unat (cpu_pc c) + 4"
      by (simp add: unat_add_lem[THEN iffD1])
    then show ?thesis using lt by (simp add: c1)
  qed
  done

subsection \<open>Step and run\<close>

text \<open>\<open>writeback\<close> ignores the result: every register write happened inside \<open>execute\<close>.\<close>

definition writeback :: "u32 \<Rightarrow> cpu \<Rightarrow> cpu" where
  "writeback r c = c"

text \<open>\<open>step\<close>: a failed fetch returns with the CPU and bus unchanged.\<close>

definition step :: "cpu \<Rightarrow> bus \<Rightarrow> (cpu \<times> bus) option" where
  "step c b =
     (case fetch c b of
        None \<Rightarrow> Some (c, b)
      | Some (w, c1) \<Rightarrow> map_option (\<lambda>(r, c', b'). (writeback r c', b')) (execute c1 b (decode w)))"

text \<open>The driver loop of \<open>main\<close>: \<open>for _ in 0..cycles { cpu.step(&mut bus) }\<close>.\<close>

fun run :: "nat \<Rightarrow> cpu \<Rightarrow> bus \<Rightarrow> (cpu \<times> bus) option" where
  "run 0 c b = Some (c, b)"
| "run (Suc n) c b = (case step c b of None \<Rightarrow> None | Some (c', b') \<Rightarrow> run n c' b')"

text \<open>A test bus: RAM of \<open>n\<close> bytes at 0 and the program words in ROM at the reset vector.\<close>

definition prog_bus :: "nat \<Rightarrow> u32 list \<Rightarrow> bus" where
  "prog_bus n ws = \<lparr>devices = [Ram (ram_new 0 n), Rom (rom_new 0x1FC00000 (concat (map le_bytes32 ws)))],
                     little_endian = True\<rparr>"

subsection \<open>The CPU invariant\<close>

text \<open>
  The arrays have their Rust lengths and the stored register 0 is zero (\<open>write\<close>
  never stores there).
\<close>

definition cpu_ok :: "cpu \<Rightarrow> bool" where
  "cpu_ok c \<longleftrightarrow> regs_ok (cpu_registers c) \<and> general (cpu_registers c) ! 0 = 0
                \<and> length (c0_regs (cpu_cop0 c)) = 32 \<and> length (fregs (cpu_cop1 c)) = 32"

text \<open>
  Instructions that do not transfer control (specification predicates of the lemmas):
  neither JR/JALR, nor a branch, REGIMM or jump; and the word at a virtual address is one.
\<close>

definition straight :: "instruction \<Rightarrow> bool" where
  "straight i =
     (case i of
        RType r \<Rightarrow> r_funct r \<notin> {0x08, 0x09}
      | IType it \<Rightarrow> i_opcode it \<notin> {0x01, 0x04, 0x05, 0x06, 0x07}
      | JType j \<Rightarrow> False
      | _ \<Rightarrow> True)"

definition straight_at :: "bus \<Rightarrow> u32 \<Rightarrow> bool" where
  "straight_at b a = (case read32_virt b a of Inr w \<Rightarrow> straight (decode w) | Inl e \<Rightarrow> False)"

text \<open>
  Instructions that neither transfer control, nor store, nor divide: every load, ALU
  and SPECIAL2 operation but DIV (a specification predicate of the lemmas).
\<close>

definition quiet :: "instruction \<Rightarrow> bool" where
  "quiet i =
     (case i of
        RType r \<Rightarrow> r_funct r \<notin> {0x08, 0x09, 0x1A}
      | IType it \<Rightarrow> i_opcode it \<notin> {0x01, 0x04, 0x05, 0x06, 0x07, 0x2B, 0x28, 0x29}
      | JType j \<Rightarrow> False
      | _ \<Rightarrow> True)"

subsection \<open>Lemmas\<close>

lemma general_updates [simp]:
  "general (set_pc v r) = general r" "general (write_special s v r) = general r"
  "general (reg_write i v r) ! 0 = general r ! 0" "regs_ok (r\<lparr>special := sp\<rparr>) = regs_ok r"
  by (cases s; simp add: set_pc_def reg_write_def regs_ok_def)+

lemma cpu_ok_regs_upd [simp]:
  "regs_ok r = regs_ok (cpu_registers c) \<Longrightarrow> general r ! 0 = general (cpu_registers c) ! 0
   \<Longrightarrow> cpu_ok (c\<lparr>cpu_registers := r\<rparr>) = cpu_ok c"
  by (simp add: cpu_ok_def)

lemma cpu_ok_updates [simp]:
  "cpu_ok (write_nz r v c) = cpu_ok c" "cpu_ok (set_hilo p c) = cpu_ok c"
  "cpu_ok (regimm_finish cl imm c) = cpu_ok c"
  by (simp_all add: write_nz_def set_hilo_def regimm_finish_def Let_def)

lemma handlers_ok:
  "exec_alu_r c r x y = Some (v, c') \<Longrightarrow> cpu_ok c' = cpu_ok c"
  "exec_alu_i c i x y = Some (v, c') \<Longrightarrow> cpu_ok c' = cpu_ok c"
  "exec_special2 c s = Some (v, c') \<Longrightarrow> cpu_ok c' = cpu_ok c"
  "exec_mem c b i x y = Some (v, c', b') \<Longrightarrow> cpu_ok c' = cpu_ok c"
  by (auto simp: exec_alu_r_def exec_alu_i_def exec_special2_def exec_mem_def store_ok_def Let_def
      split: option.splits if_splits sum.splits)

lemma fetch_Some:
  "fetch c b = Some (w, c1) \<longleftrightarrow> read32_virt b (cpu_pc c) = Inr w \<and> c1 = cpu_set_pc (cpu_pc c + 4) c"
  by (auto simp: fetch_def Let_def split: sum.splits)

lemma execute_ok:
  "execute c b i = Some (v, c', b') \<Longrightarrow> cpu_ok c \<Longrightarrow> cpu_ok c'"
  "delay_slot c b = Some (c', b') \<Longrightarrow> cpu_ok c \<Longrightarrow> cpu_ok c'"
proof (induction c b i and c b arbitrary: v c' b' and c' b' rule: execute_delay_slot.induct)
  case (9 c b)
  then show ?case
    by (auto simp: fetch_Some split: option.splits)
qed (auto simp: Let_def simp del: delay_slot.simps dest: handlers_ok split: option.splits if_splits prod.splits)

lemma step_ok: "step c b = Some (c', b') \<Longrightarrow> cpu_ok c \<Longrightarrow> cpu_ok c'"
  by (auto simp: step_def writeback_def fetch_Some dest: execute_ok(1) split: option.splits)

lemma run_Suc_Some:
  "run (Suc n) c b = Some (c', b') \<longleftrightarrow> (\<exists>c1 b1. step c b = Some (c1, b1) \<and> run n c1 b1 = Some (c', b'))"
  by (auto split: option.splits)

lemma cpu_ok_new: "cpu_ok cpu_new"
  by (simp add: cpu_ok_def cpu_new_def cpu_reset_def registers_reset_def registers_default_def
      regs_ok_def reg_write_def set_gpc_def set_sp_def cop0_default_def cop1_default_def)

lemma cpu_new_pc: "cpu_pc cpu_new = 0xBFC00000"
  by (simp add: cpu_new_def cpu_reset_def registers_reset_def registers_default_def special_default_def
      get_pc_def reg_write_def set_gpc_def set_sp_def)

lemma cpu_new_special: "special (cpu_registers cpu_new) = special_default\<lparr>pc := 0xBFC00000\<rparr>"
  by (simp add: cpu_new_def cpu_reset_def registers_reset_def registers_default_def special_default_def
      reg_write_def set_gpc_def set_sp_def)

lemma handlers_pc:
  "exec_alu_r c r x y = Some (v, c') \<Longrightarrow> cpu_pc c' = cpu_pc c"
  "exec_alu_i c i x y = Some (v, c') \<Longrightarrow> cpu_pc c' = cpu_pc c"
  "exec_special2 c s = Some (v, c') \<Longrightarrow> cpu_pc c' = cpu_pc c"
  "exec_mem c b i x y = Some (v, c', b') \<Longrightarrow> cpu_pc c' = cpu_pc c"
  by (auto simp: exec_alu_r_def exec_alu_i_def exec_special2_def exec_mem_def store_ok_def Let_def
      write_nz_def set_hilo_def get_pc_def reg_write_def split: option.splits if_splits sum.splits)

lemma straight_pc: "execute c b i = Some (v, c', b') \<Longrightarrow> straight i \<Longrightarrow> cpu_pc c' = cpu_pc c"
  by (cases i) (auto simp: straight_def Let_def dest: handlers_pc split: option.splits if_splits)

lemma delay_straight:
  assumes "delay_slot c b = Some (c', b')" "straight_at b (cpu_pc c)"
  shows "cpu_pc c' = cpu_pc c + 4"
proof -
  obtain w where r: "read32_virt b (cpu_pc c) = Inr w" and s: "straight (decode w)"
    using assms(2) by (auto simp: straight_at_def split: sum.splits)
  then obtain v where "execute (cpu_set_pc (cpu_pc c + 4) c) b (decode w) = Some (v, c', b')"
    using assms(1) by (auto simp: fetch_def)
  then show ?thesis using straight_pc s by fastforce
qed

lemma reg_read_set_pc [simp]: "reg_read (set_pc v r) i = reg_read r i"
  by (simp add: reg_read_def set_pc_def)

lemma step_fetched:
  "fetch c b = Some (w, c1) \<Longrightarrow> step c b = map_option (\<lambda>(r, c', b'). (c', b')) (execute c1 b (decode w))"
  by (simp add: step_def writeback_def split_def)

lemma unat_field5: "unat (ucast ((x::u32) AND 0x1F) :: u8) < 32"
proof -
  have "unat (x AND 0x1F) \<le> 31" using word_and_le1[of x "0x1F"] by (simp add: word_le_nat_alt)
  then show ?thesis by (simp add: unsigned_ucast_eq take_bit_nat_eq_self)
qed

lemma decode_fields:
  "decode w = RType r \<Longrightarrow> unat (r_rs r) < 32 \<and> unat (r_rt r) < 32 \<and> unat (r_rd r) < 32"
  "decode w = IType i \<Longrightarrow> unat (i_rs i) < 32 \<and> unat (i_rt i) < 32"
  "decode w = Special2 s \<Longrightarrow> unat (s2_rs s) < 32 \<and> unat (s2_rt s) < 32"
  by (auto simp: decode_def Let_def rtype_decode_def itype_decode_def special2_decode_def unat_field5
      split: if_splits)

lemma cpu_read_ok: "cpu_ok c \<Longrightarrow> unat x < 32 \<Longrightarrow> \<exists>v. cpu_read c x = Some v"
  by (simp add: cpu_ok_def reg_read_def get_idx_def regs_ok_def)

lemma alu_reg_not_div: "f \<noteq> 0x1A \<Longrightarrow> alu_reg a b sh f h l \<noteq> None"
  by (simp add: alu_reg_def Let_def)

lemma load_exec:
  "i_opcode i \<in> {0x23, 0x20, 0x24, 0x21, 0x25} \<Longrightarrow> \<exists>v c'. exec_mem c b i x y = Some (v, c', b)"
  by (auto simp: exec_mem_def Let_def split: sum.splits)

lemma quiet_execute:
  assumes ok: "cpu_ok c" and q: "quiet (decode w)"
  shows "\<exists>v c'. execute c b (decode w) = Some (v, c', b) \<and> cpu_pc c' = cpu_pc c \<and> cpu_ok c'"
proof (cases "decode w")
  case (RType r)
  then obtain x y where rs: "cpu_read c (r_rs r) = Some x" and rt: "cpu_read c (r_rt r) = Some y"
    using decode_fields(1) cpu_read_ok ok by blast
  have "alu_execute x y (r_shamt r) 0 (r_opcode r) (r_funct r) False
      (hi (special (cpu_registers c))) (lo (special (cpu_registers c))) \<noteq> None"
    using q RType alu_reg_not_div[of "r_funct r" x y "r_shamt r"] by (auto simp: quiet_def alu_execute_def)
  then obtain v c' where e: "exec_alu_r c r x y = Some (v, c')"
    by (auto simp: exec_alu_r_def Let_def split: option.splits)
  show ?thesis using e handlers_ok(1)[OF e] handlers_pc(1)[OF e] ok q RType rs rt
    by (auto simp: quiet_def)
next
  case (IType i)
  then obtain x y where rs: "cpu_read c (i_rs i) = Some x" and rt: "cpu_read c (i_rt i) = Some y"
    using decode_fields(2) cpu_read_ok ok by blast
  show ?thesis
  proof (cases "is_mem_op (i_opcode i)")
    case True
    then obtain v c' where e: "exec_mem c b i x y = Some (v, c', b)"
      using q IType load_exec[of i c b x y] by (auto simp: quiet_def is_mem_op_def)
    show ?thesis using e handlers_ok(4)[OF e] handlers_pc(4)[OF e] ok q IType rs rt True
      by (auto simp: quiet_def)
  next
    case False
    obtain v c' where e: "exec_alu_i c i x y = Some (v, c')"
      by (auto simp: exec_alu_i_def alu_execute_def Let_def)
    show ?thesis using e handlers_ok(2)[OF e] handlers_pc(2)[OF e] ok q IType rs rt False
      by (auto simp: quiet_def)
  qed
next
  case (Special2 s)
  then obtain x y where rs: "cpu_read c (s2_rs s) = Some x" and rt: "cpu_read c (s2_rt s) = Some y"
    using decode_fields(3) cpu_read_ok ok by blast
  then have "exec_special2 c s \<noteq> None" by (simp add: exec_special2_def Let_def)
  then obtain v c' where e: "exec_special2 c s = Some (v, c')" by auto
  show ?thesis using e handlers_ok(3)[OF e] handlers_pc(3)[OF e] ok Special2 by auto
qed (use assms in \<open>auto simp: quiet_def\<close>)

lemma cpu_read_write_nz:
  assumes "cpu_ok c" "unat q < 32"
  shows "cpu_read (write_nz r v c) q = Some (if q = 0 then 0 else if q = r then v else general (cpu_registers c) ! unat q)"
proof -
  have l: "length (general (cpu_registers c)) = 32" "general (cpu_registers c) ! 0 = 0"
    using assms(1) by (simp_all add: cpu_ok_def regs_ok_def)
  have eq: "(unat q = unat r) = (q = r)" "(unat r = unat q) = (q = r)" by (metis unsigned_word_eqI)+
  show ?thesis
    using l assms(2)
    by (auto simp: write_nz_def reg_read_def reg_write_def get_idx_def nth_list_update eq unat_eq_zero)
qed

lemma cpu_read_set_pc [simp]: "cpu_read (cpu_set_pc v c) q = cpu_read c q"
  by simp

lemma cpu_ok_set_pc [simp]: "cpu_ok (cpu_set_pc v c) = cpu_ok c"
  by (simp add: cpu_ok_def set_pc_def regs_ok_def)

text \<open>A fetched load or store is one call of \<open>exec_mem\<close> on the CPU past the fetch.\<close>

lemma step_mem:
  assumes "fetch c b = Some (w, c1)" "decode w = IType i" "is_mem_op (i_opcode i)"
    "cpu_read c (i_rs i) = Some x" "cpu_read c (i_rt i) = Some y"
  shows "step c b = map_option (\<lambda>(r, c', b'). (c', b')) (exec_mem c1 b i x y)"
proof -
  have c1: "c1 = cpu_set_pc (cpu_pc c + 4) c" using assms(1) by (simp add: fetch_Some)
  have "\<not> i_opcode i \<in> {0x04, 0x05, 0x06, 0x07}" "i_opcode i \<noteq> 0x01"
    using assms(3) by (auto simp: is_mem_op_def)
  then show ?thesis using assms(2-5) by (simp add: step_fetched[OF assms(1)] c1 Let_def)
qed

lemma run_idle: "fetch c b = None \<Longrightarrow> run m c b = Some (c, b)"
  by (induction m) (simp_all add: step_def)

lemma step_quiet:
  assumes "cpu_ok c" "read32_virt b (cpu_pc c) = Inr w" "quiet (decode w)"
  shows "\<exists>c'. step c b = Some (c', b) \<and> cpu_pc c' = cpu_pc c + 4 \<and> cpu_ok c'"
proof -
  have f: "fetch c b = Some (w, cpu_set_pc (cpu_pc c + 4) c)" using assms(2) by (simp add: fetch_Some)
  have "cpu_ok (cpu_set_pc (cpu_pc c + 4) c)" using assms(1) by (simp add: cpu_ok_def set_pc_def regs_ok_def)
  then obtain v c' where "execute (cpu_set_pc (cpu_pc c + 4) c) b (decode w) = Some (v, c', b)"
    "cpu_pc c' = cpu_pc c + 4" "cpu_ok c'"
    using quiet_execute assms(3) by fastforce
  then show ?thesis using f by (simp add: step_fetched)
qed

lemma run_add: "run (k + m) c b = (case run k c b of None \<Rightarrow> None | Some (c', b') \<Rightarrow> run m c' b')"
  by (induction k arbitrary: c b) (auto split: option.splits)

lemma quiet_run:
  assumes "cpu_ok c" "\<forall>j < k. \<exists>w. read32_virt b (cpu_pc c + word_of_nat (4 * j)) = Inr w \<and> quiet (decode w)"
  shows "\<exists>c'. run k c b = Some (c', b) \<and> cpu_pc c' = cpu_pc c + word_of_nat (4 * k) \<and> cpu_ok c'"
  using assms
proof (induction k arbitrary: c)
  case 0
  then show ?case by simp
next
  case (Suc k)
  then obtain w where "read32_virt b (cpu_pc c) = Inr w" "quiet (decode w)" by fastforce
  then obtain c1 where s: "step c b = Some (c1, b)" "cpu_pc c1 = cpu_pc c + 4" "cpu_ok c1"
    using step_quiet Suc.prems(1) by blast
  have "\<forall>j < k. \<exists>w. read32_virt b (cpu_pc c1 + word_of_nat (4 * j)) = Inr w \<and> quiet (decode w)"
  proof (intro allI impI)
    fix j assume "j < k"
    then have "\<exists>w. read32_virt b (cpu_pc c + word_of_nat (4 * Suc j)) = Inr w \<and> quiet (decode w)"
      using Suc.prems(2) by blast
    moreover have "cpu_pc c + word_of_nat (4 * Suc j) = cpu_pc c1 + word_of_nat (4 * j)"
      using s(2) by (simp add: algebra_simps)
    ultimately show "\<exists>w. read32_virt b (cpu_pc c1 + word_of_nat (4 * j)) = Inr w \<and> quiet (decode w)"
      by metis
  qed
  then obtain c' where "run k c1 b = Some (c', b)" "cpu_pc c' = cpu_pc c1 + word_of_nat (4 * k)" "cpu_ok c'"
    using Suc.IH s(3) by blast
  then show ?case using s by (simp add: algebra_simps)
qed

subsection \<open>Properties\<close>

text \<open>
  C1: every run of the interpreter from a well-formed CPU ends in a well-formed CPU: the
  register arrays keep their lengths, the stored register 0 stays zero and the
  coprocessor banks keep theirs.
\<close>

theorem run_cpu_ok: "cpu_ok c \<Longrightarrow> run n c b = Some (c', b') \<Longrightarrow> cpu_ok c'"
proof (induction n arbitrary: c b)
  case 0
  then show ?case by simp
next
  case (Suc n)
  then obtain c1 b1 where "step c b = Some (c1, b1)" "run n c1 b1 = Some (c', b')"
    by (auto split: option.splits)
  then show ?case using Suc step_ok by blast
qed

lemma run_cpu_ok_witness:
  "\<exists>c' b'. run 3 cpu_new (prog_bus 4 [0x24020005, 0x14400001, 0]) = Some (c', b') \<and> cpu_ok c'"
proof -
  have "run 3 cpu_new (prog_bus 4 [0x24020005, 0x14400001, 0]) \<noteq> None" by code_simp
  then obtain c' b' where r: "run 3 cpu_new (prog_bus 4 [0x24020005, 0x14400001, 0]) = Some (c', b')"
    by auto
  show ?thesis using run_cpu_ok[OF cpu_ok_new r] r by blast
qed

text \<open>
  C2: a taken BEQ, BNE, BLEZ or BGTZ ends its step at the address of its delay slot plus
  the offset, whatever the delay slot does; a branch not taken only advances the PC and
  leaves registers and bus alone, its delay slot not consumed.
\<close>

theorem branch_step:
  assumes "fetch c b = Some (w, c1)" "decode w = IType i" "i_opcode i \<in> {0x04, 0x05, 0x06, 0x07}"
    "cpu_read c (i_rs i) = Some x" "cpu_read c (i_rt i) = Some y" "step c b = Some (c', b')"
  shows "if branch_cond (i_opcode i) x y then cpu_pc c' = cpu_pc c + 4 + branch_offset (i_imm i)
         else c' = c1 \<and> b' = b"
  using assms by (auto simp: step_fetched fetch_Some Let_def split: option.splits)

lemma branch_step_witness:
  "\<exists>c' b'. step cpu_new (prog_bus 4 [0x10000001, 0, 0]) = Some (c', b') \<and> cpu_pc c' = 0xBFC00008"
proof -
  have f: "fetch cpu_new (prog_bus 4 [0x10000001, 0, 0]) = Some (0x10000001, cpu_set_pc 0xBFC00004 cpu_new)"
    by code_simp
  have "step cpu_new (prog_bus 4 [0x10000001, 0, 0]) \<noteq> None" by code_simp
  then obtain c' b' where s: "step cpu_new (prog_bus 4 [0x10000001, 0, 0]) = Some (c', b')" by auto
  have d: "decode 0x10000001 = IType \<lparr>i_opcode = 4, i_rs = 0, i_rt = 0, i_imm = 1\<rparr>" by code_simp
  define i where "i = \<lparr>i_opcode = 4, i_rs = 0, i_rt = 0, i_imm = 1\<rparr>"
  have r: "cpu_read cpu_new (i_rs i) = Some 0" "cpu_read cpu_new (i_rt i) = Some 0"
    by (simp_all add: reg_read_def i_def)
  have o: "i_opcode i \<in> {0x04, 0x05, 0x06, 0x07}" by (simp add: i_def)
  show ?thesis
    using branch_step[OF f d[folded i_def] o r s] s by (simp add: branch_cond_def branch_offset_def cpu_new_pc i_def)
qed

text \<open>
  C3: a taken REGIMM branch (BLTZ, BGEZ, BLTZAL, BGEZAL) whose delay slot does not
  transfer control ends its step one word past the MIPS target, at the branch address
  plus 8 plus the offset, and the linking forms write the branch address plus 12 to
  register 31 instead of plus 8: both read the PC after the delay slot has run.
\<close>

theorem regimm_step:
  assumes f: "fetch c b = Some (w, c1)" and d: "decode w = IType i" and op: "i_opcode i = 0x01"
    and rs: "cpu_read c (i_rs i) = Some x" and rt: "cpu_read c (i_rt i) = Some y"
    and cond: "fst (regimm_cond (i_rt i) x)" and sl: "straight_at b (cpu_pc c + 4)"
    and ok: "cpu_ok c" and s: "step c b = Some (c', b')"
  shows "cpu_pc c' = cpu_pc c + 8 + branch_offset (i_imm i)
         \<and> (snd (regimm_cond (i_rt i) x) \<longrightarrow> reg_read (cpu_registers c') 31 = Some (cpu_pc c + 12))"
proof -
  have c1: "c1 = cpu_set_pc (cpu_pc c + 4) c" using f by (simp add: fetch_Some)
  obtain c2 b2 where ds: "delay_slot c1 b = Some (c2, b2)"
    and c': "c' = regimm_finish (regimm_cond (i_rt i) x) (i_imm i) c2"
    using s f d op rs rt by (auto simp: step_fetched c1 split: option.splits)
  have pc2: "cpu_pc c2 = cpu_pc c + 8" using delay_straight[OF ds] sl c1 by simp
  have ok2: "cpu_ok c2" using execute_ok(2)[OF ds] ok c1 by simp
  show ?thesis
    using pc2 ok2 cond unfolding c'
    by (auto simp: regimm_finish_def reg_read_def get_idx_def cpu_ok_def regs_ok_def reg_write_def
        get_pc_def set_pc_def)
qed

lemma regimm_step_witness:
  "\<exists>c' b'. step cpu_new (prog_bus 4 [0x04110002, 0]) = Some (c', b') \<and> cpu_pc c' = 0xBFC00010
     \<and> reg_read (cpu_registers c') 31 = Some 0xBFC0000C"
proof -
  define i where "i = \<lparr>i_opcode = 1, i_rs = 0, i_rt = 0x11, i_imm = 2\<rparr>"
  have f: "fetch cpu_new (prog_bus 4 [0x04110002, 0]) = Some (0x04110002, cpu_set_pc 0xBFC00004 cpu_new)"
    by code_simp
  have d: "decode 0x04110002 = IType i" unfolding i_def by code_simp
  have "step cpu_new (prog_bus 4 [0x04110002, 0]) \<noteq> None" by code_simp
  then obtain c' b' where s: "step cpu_new (prog_bus 4 [0x04110002, 0]) = Some (c', b')" by auto
  have r: "cpu_read cpu_new (i_rs i) = Some 0" "cpu_read cpu_new (i_rt i) = Some 0"
    unfolding i_def by code_simp+
  have o: "i_opcode i = 0x01" and cnd: "fst (regimm_cond (i_rt i) 0)" and lk: "snd (regimm_cond (i_rt i) 0)"
    by (simp_all add: i_def regimm_cond_def)
  have sl: "straight_at (prog_bus 4 [0x04110002, 0]) (cpu_pc cpu_new + 4)"
    unfolding cpu_new_pc by code_simp
  show ?thesis
    using regimm_step[OF f d o r cnd sl cpu_ok_new s] s lk
    by (simp add: cpu_new_pc branch_offset_def i_def)
qed

text \<open>
  C23: an LW whose bus read fails leaves its destination register unchanged: the step
  only advances the PC (the specification says a failed load yields 0).
\<close>

theorem lw_fail_keeps:
  assumes "fetch c b = Some (w, c1)" "decode w = IType i" "i_opcode i = 0x23"
    "cpu_read c (i_rs i) = Some x" "cpu_read c (i_rt i) = Some y"
    "read32_virt b (x + scast (i_imm i)) = Inl e"
  shows "step c b = Some (c1, b)"
  using assms by (simp add: step_fetched fetch_Some is_mem_op_def exec_mem_def)

lemma lw_fail_keeps_witness: "step cpu_new (prog_bus 4 [0x8C051000]) = Some (cpu_set_pc 0xBFC00004 cpu_new, prog_bus 4 [0x8C051000])"
proof -
  define i where "i = \<lparr>i_opcode = 0x23, i_rs = 0, i_rt = 5, i_imm = 0x1000\<rparr>"
  have f: "fetch cpu_new (prog_bus 4 [0x8C051000]) = Some (0x8C051000, cpu_set_pc 0xBFC00004 cpu_new)"
    by code_simp
  have d: "decode 0x8C051000 = IType i" unfolding i_def by code_simp
  have r: "cpu_read cpu_new (i_rs i) = Some 0" "cpu_read cpu_new (i_rt i) = Some 0"
    unfolding i_def by code_simp+
  have o: "i_opcode i = 0x23" by (simp add: i_def)
  have m: "read32_virt (prog_bus 4 [0x8C051000]) (0 + scast (i_imm i)) = Inl (Unmapped 0x1000)"
    unfolding i_def by code_simp
  show ?thesis using lw_fail_keeps[OF f d o r m] .
qed

text \<open>
  C24: the SPECIAL2 multiply-accumulate group treats HI:LO as one 64-bit accumulator:
  MADD and MADDU add the signed and unsigned 64-bit product of rs and rt, MSUB and MSUBU
  subtract it, MUL replaces it by the signed product, other function codes leave it;
  the bus is untouched.
\<close>

theorem special2_hilo:
  assumes "execute c b (Special2 s) = Some (v, c', b')"
    "cpu_read c (s2_rs s) = Some x" "cpu_read c (s2_rt s) = Some y"
  shows "hilo (hi (special (cpu_registers c'))) (lo (special (cpu_registers c')))
         = (let acc = hilo (hi (special (cpu_registers c))) (lo (special (cpu_registers c))) in
            if s2_funct s = 0x00 then acc + mult_prod x y
            else if s2_funct s = 0x01 then acc + multu_prod x y
            else if s2_funct s = 0x02 then mult_prod x y
            else if s2_funct s = 0x04 then acc - mult_prod x y
            else if s2_funct s = 0x05 then acc - multu_prod x y
            else acc) \<and> b' = b"
  using assms
  by (auto simp: exec_special2_def set_hilo_def hilo_split reg_write_def Let_def split: if_splits)

lemma special2_hilo_witness:
  "\<exists>v c' b'. execute cpu_new (prog_bus 4 []) (Special2 \<lparr>s2_opcode = 0x1C, s2_rs = 29, s2_rt = 29,
       s2_rd = 0, s2_shamt = 0, s2_funct = 0x05\<rparr>) = Some (v, c', b')
     \<and> hilo (hi (special (cpu_registers c'))) (lo (special (cpu_registers c'))) = - multu_prod 0x800FF000 0x800FF000"
proof -
  define s where "s = \<lparr>s2_opcode = 0x1C, s2_rs = 29, s2_rt = 29, s2_rd = 0, s2_shamt = 0, s2_funct = 0x05 :: u8\<rparr>"
  have "execute cpu_new (prog_bus 4 []) (Special2 s) \<noteq> None" unfolding s_def by code_simp
  then obtain v c' b' where e: "execute cpu_new (prog_bus 4 []) (Special2 s) = Some (v, c', b')" by auto
  have r: "cpu_read cpu_new (s2_rs s) = Some 0x800FF000" "cpu_read cpu_new (s2_rt s) = Some 0x800FF000"
    unfolding s_def by code_simp+
  have a: "hilo (hi (special (cpu_registers cpu_new))) (lo (special (cpu_registers cpu_new))) = 0"
    by (simp add: cpu_new_special special_default_def hilo_def)
  have fn: "s2_funct s = 0x05" by (simp add: s_def)
  show ?thesis
    using special2_hilo[OF e r] e a fn unfolding s_def[symmetric] by (simp add: Let_def)
qed

text \<open>
  C11: a program of straight-line instructions that neither store nor divide runs to
  its end and the machine then idles: from a well-formed CPU whose next k words are such
  instructions and whose word after them cannot be fetched, the PC advances by 4 per
  step to the end of the program and every later step leaves CPU and bus unchanged.
\<close>

theorem quiet_program_halts:
  assumes "cpu_ok c"
    and "\<forall>j < k. \<exists>w. read32_virt b (cpu_pc c + word_of_nat (4 * j)) = Inr w \<and> quiet (decode w)"
    and "\<exists>e. read32_virt b (cpu_pc c + word_of_nat (4 * k)) = Inl e"
  shows "\<exists>c'. cpu_pc c' = cpu_pc c + word_of_nat (4 * k) \<and> cpu_ok c' \<and> (\<forall>m. run (k + m) c b = Some (c', b))"
proof -
  obtain c' where r: "run k c b = Some (c', b)" "cpu_pc c' = cpu_pc c + word_of_nat (4 * k)" "cpu_ok c'"
    using quiet_run[OF assms(1,2)] by blast
  have "fetch c' b = None" using assms(3) r(2) by (auto simp: fetch_def)
  then show ?thesis using r run_idle by (auto simp: run_add)
qed

lemma quiet_program_halts_witness:
  "\<exists>c'. cpu_pc c' = 0xBFC00008 \<and> cpu_ok c'
     \<and> (\<forall>m. run (2 + m) cpu_new (prog_bus 4 [0x24020005, 0x3C010001]) = Some (c', prog_bus 4 [0x24020005, 0x3C010001]))"
proof -
  have w: "\<forall>j < 2. \<exists>w. read32_virt (prog_bus 4 [0x24020005, 0x3C010001]) (cpu_pc cpu_new + word_of_nat (4 * j)) = Inr w
             \<and> quiet (decode w)"
  proof (intro allI impI)
    fix j :: nat assume "j < 2"
    then consider "j = 0" | "j = 1" by linarith
    then show "\<exists>w. read32_virt (prog_bus 4 [0x24020005, 0x3C010001]) (cpu_pc cpu_new + word_of_nat (4 * j)) = Inr w
             \<and> quiet (decode w)"
    proof cases
      case 1
      have "read32_virt (prog_bus 4 [0x24020005, 0x3C010001]) 0xBFC00000 = Inr 0x24020005
            \<and> quiet (decode 0x24020005)" by code_simp
      then show ?thesis using 1 by (auto simp: cpu_new_pc)
    next
      case 2
      have "read32_virt (prog_bus 4 [0x24020005, 0x3C010001]) 0xBFC00004 = Inr 0x3C010001
            \<and> quiet (decode 0x3C010001)" by code_simp
      then show ?thesis using 2 by (auto simp: cpu_new_pc)
    qed
  qed
  have e: "\<exists>e. read32_virt (prog_bus 4 [0x24020005, 0x3C010001]) (cpu_pc cpu_new + word_of_nat (4 * 2)) = Inl e"
  proof -
    have "read32_virt (prog_bus 4 [0x24020005, 0x3C010001]) 0xBFC00008 = Inl (Unmapped 0x1FC00008)" by code_simp
    then show ?thesis by (auto simp: cpu_new_pc)
  qed
  show ?thesis using quiet_program_halts[OF cpu_ok_new w e] by (simp add: cpu_new_pc)
qed


text \<open>
  C19: a store (SW, SB or SH) passes the value of rt, truncated to the access width, to
  the bus at rs plus the sign-extended offset: SW and SB through address translation,
  SH to the untranslated address. The error the bus returns is dropped, a panic of the
  bus is a panic of the step, and the CPU only advances its PC.
\<close>

theorem store_step:
  assumes "fetch c b = Some (w, c1)" "decode w = IType i" "i_opcode i \<in> {0x2B, 0x28, 0x29}"
    "cpu_read c (i_rs i) = Some x" "cpu_read c (i_rt i) = Some y"
  shows "step c b = map_option (\<lambda>(r, b'). (c1, b'))
           (let a = x + scast (i_imm i) in
            if i_opcode i = 0x2B then write32_virt b a y
            else if i_opcode i = 0x28 then write8_virt b a (ucast y)
            else bus_write16 b a (ucast y))"
proof -
  have m: "is_mem_op (i_opcode i)" using assms(3) by (auto simp: is_mem_op_def)
  from assms(3) consider "i_opcode i = 0x2B" | "i_opcode i = 0x28" | "i_opcode i = 0x29" by blast
  then show ?thesis
    by cases (simp_all add: step_mem[OF assms(1,2) m assms(4,5)] exec_mem_def store_ok_def Let_def
        option.map_comp o_def split_def)
qed

lemma store_step_witness:
  "step cpu_new (prog_bus 260 [0xAC1D0100])
     = map_option (\<lambda>(r, b'). (cpu_set_pc 0xBFC00004 cpu_new, b'))
         (write32_virt (prog_bus 260 [0xAC1D0100]) 0x100 0x800FF000)"
proof -
  define i where "i = \<lparr>i_opcode = 0x2B, i_rs = 0, i_rt = 29, i_imm = 0x100\<rparr>"
  have f: "fetch cpu_new (prog_bus 260 [0xAC1D0100]) = Some (0xAC1D0100, cpu_set_pc 0xBFC00004 cpu_new)"
    by code_simp
  have d: "decode 0xAC1D0100 = IType i" unfolding i_def by code_simp
  have r: "cpu_read cpu_new (i_rs i) = Some 0" "cpu_read cpu_new (i_rt i) = Some 0x800FF000"
    unfolding i_def by code_simp+
  have o: "i_opcode i \<in> {0x2B, 0x28, 0x29}" by (simp add: i_def)
  show ?thesis using store_step[OF f d o r] by (simp add: i_def Let_def)
qed

text \<open>
  C20: a byte or half-word load (LB, LBU, LH, LHU) advances the PC, leaves the bus and
  every other register alone and writes to rt (unless it is register 0) the byte or
  half-word at rs plus the sign-extended offset, sign- or zero-extended, 0 when the
  read fails. LB and LBU translate the address; LH and LHU read the physical bus at the
  untranslated address, so a KSEG0 or KSEG1 address reaches no device.
\<close>

theorem load_step:
  assumes ok: "cpu_ok c" and f: "fetch c b = Some (w, c1)" and d: "decode w = IType i"
    and op: "i_opcode i \<in> {0x20, 0x24, 0x21, 0x25}" and rs: "cpu_read c (i_rs i) = Some x"
  shows "\<exists>c'. step c b = Some (c', b) \<and> cpu_pc c' = cpu_pc c + 4 \<and>
           (\<forall>q. unat q < 32 \<longrightarrow> cpu_read c' q =
              (if q = i_rt i \<and> q \<noteq> 0 then
                 Some (let a = x + scast (i_imm i) in
                       if i_opcode i = 0x20 then scast (unwrap_or (read8_virt b a) 0)
                       else if i_opcode i = 0x24 then ucast (unwrap_or (read8_virt b a) 0)
                       else if i_opcode i = 0x21 then scast (unwrap_or (bus_read16 b a) 0)
                       else ucast (unwrap_or (bus_read16 b a) 0))
               else cpu_read c q))"
proof -
  obtain y where rt: "cpu_read c (i_rt i) = Some y" using decode_fields(2)[OF d] cpu_read_ok[OF ok] by blast
  have c1: "c1 = cpu_set_pc (cpu_pc c + 4) c" using f by (simp add: fetch_Some)
  have m: "is_mem_op (i_opcode i)" using op by (auto simp: is_mem_op_def)
  define val where "val = (let a = x + scast (i_imm i) in
                       if i_opcode i = 0x20 then scast (unwrap_or (read8_virt b a) 0)
                       else if i_opcode i = 0x24 then ucast (unwrap_or (read8_virt b a) 0)
                       else if i_opcode i = 0x21 then scast (unwrap_or (bus_read16 b a) 0)
                       else (ucast (unwrap_or (bus_read16 b a) 0) :: u32))"
  have e: "exec_mem c1 b i x y = Some (val, write_nz (i_rt i) val c1, b)"
    using op by (auto simp: exec_mem_def val_def Let_def)
  have s: "step c b = Some (write_nz (i_rt i) val c1, b)"
    using e by (simp add: step_mem[OF f d m rs rt])
  have "cpu_read (write_nz (i_rt i) val c1) q = (if q = i_rt i \<and> q \<noteq> 0 then Some val else cpu_read c q)"
    if "unat q < 32" for q
    using cpu_read_write_nz[of c1 q "i_rt i" val] ok that reg_read_Some[of "cpu_registers c" "unat q"]
    by (auto simp: c1 cpu_ok_def)
  then show ?thesis using s by (simp add: c1 write_nz_def val_def)
qed

lemma load_step_witness:
  "\<exists>c'. step cpu_new (prog_bus 4 [0x84020000]) = Some (c', prog_bus 4 [0x84020000])
        \<and> cpu_pc c' = 0xBFC00004 \<and> cpu_read c' 2 = Some 0"
proof -
  define i where "i = \<lparr>i_opcode = 0x21, i_rs = 0, i_rt = 2, i_imm = 0\<rparr>"
  have f: "fetch cpu_new (prog_bus 4 [0x84020000]) = Some (0x84020000, cpu_set_pc 0xBFC00004 cpu_new)"
    by code_simp
  have d: "decode 0x84020000 = IType i" unfolding i_def by code_simp
  have r: "cpu_read cpu_new (i_rs i) = Some 0" unfolding i_def by code_simp
  have o: "i_opcode i \<in> {0x20, 0x24, 0x21, 0x25}" by (simp add: i_def)
  have m: "bus_read16 (prog_bus 4 [0x84020000]) 0 = Inr 0" by code_simp
  obtain c' where s: "step cpu_new (prog_bus 4 [0x84020000]) = Some (c', prog_bus 4 [0x84020000])"
    and pc: "cpu_pc c' = cpu_pc cpu_new + 4"
    and rd: "\<forall>q. unat q < 32 \<longrightarrow> cpu_read c' q =
              (if q = i_rt i \<and> q \<noteq> 0 then
                 Some (let a = 0 + scast (i_imm i) in
                       if i_opcode i = 0x20 then scast (unwrap_or (read8_virt (prog_bus 4 [0x84020000]) a) 0)
                       else if i_opcode i = 0x24 then ucast (unwrap_or (read8_virt (prog_bus 4 [0x84020000]) a) 0)
                       else if i_opcode i = 0x21 then scast (unwrap_or (bus_read16 (prog_bus 4 [0x84020000]) a) 0)
                       else ucast (unwrap_or (bus_read16 (prog_bus 4 [0x84020000]) a) 0))
               else cpu_read cpu_new q)"
    using load_step[OF cpu_ok_new f d o r] by blast
  have "cpu_read c' 2 = Some (scast (unwrap_or (bus_read16 (prog_bus 4 [0x84020000]) 0) 0))"
    using rd[rule_format, of 2] by (simp add: i_def)
  then show ?thesis using s pc m by (simp add: cpu_new_pc unwrap_or_def)
qed

text \<open>
  C21: J and JAL end their step at the jump target computed from the PC after the
  fetch, after running the delay slot on a CPU in which JAL has already written the
  address after the delay slot to register 31: the link precedes the delay slot, which
  can overwrite it (the specification orders the link after the delay slot).
\<close>

theorem jump_step:
  assumes "fetch c b = Some (w, c1)" "decode w = JType j"
  shows "step c b = map_option (\<lambda>(c', b'). (cpu_set_pc (jump_target (cpu_pc c1) j) c', b'))
           (delay_slot (if j_opcode j = 0x03 then cpu_write 31 (cpu_pc c1 + 4) c1 else c1) b)"
  using assms
  by (simp add: step_fetched Let_def split: option.split del: delay_slot.simps)

lemma jump_step_witness:
  "step cpu_new (prog_bus 4 [0x0FF00002, 0x241F0007])
     = map_option (\<lambda>(c', b'). (cpu_set_pc 0xBFC00008 c', b'))
         (delay_slot (cpu_write 31 0xBFC00008 (cpu_set_pc 0xBFC00004 cpu_new)) (prog_bus 4 [0x0FF00002, 0x241F0007]))
   \<and> map_option (\<lambda>(c, b). cpu_read c 31) (step cpu_new (prog_bus 4 [0x0FF00002, 0x241F0007])) = Some (Some 7)"
proof -
  define j where "j = \<lparr>j_opcode = 0x03, j_target = 0x3F00002\<rparr>"
  have f: "fetch cpu_new (prog_bus 4 [0x0FF00002, 0x241F0007]) = Some (0x0FF00002, cpu_set_pc 0xBFC00004 cpu_new)"
    by code_simp
  have d: "decode 0x0FF00002 = JType j" unfolding j_def by code_simp
  have t: "jump_target 0xBFC00004 j = 0xBFC00008" unfolding j_def by code_simp
  have "map_option (\<lambda>(c, b). cpu_read c 31) (step cpu_new (prog_bus 4 [0x0FF00002, 0x241F0007])) = Some (Some 7)"
    by code_simp
  then show ?thesis using jump_step[OF f d] t by (simp add: j_def)
qed



text \<open>
  C17: a word stored by SW to a well-formed RAM is loaded back by an LW that follows it
  with the same base register and offset: the SW step succeeds, and whenever the next
  word is such an LW, its step succeeds and writes the stored value to its rt (0 for
  register 0). CPU, address translation, bus and RAM compose.
\<close>

theorem sw_lw_roundtrip:
  assumes ok: "cpu_ok c" and f1: "fetch c b = Some (w1, c1)" and d1: "decode w1 = IType i1"
    and o1: "i_opcode i1 = 0x2B" and rs: "cpu_read c (i_rs i1) = Some x" and rt: "cpu_read c (i_rt i1) = Some v"
    and tr: "translate_vaddr (x + scast (i_imm i1)) = Inr p"
    and ram: "devices b ! k = Ram d" "dev_ok d" "\<forall>j \<in> {0, 1, 2, 3}. find_device (devices b) (p + j) = Some k"
  shows "\<exists>b2. step c b = Some (c1, b2) \<and>
           (\<forall>w2 i2. read32_virt b2 (cpu_pc c1) = Inr w2 \<longrightarrow> decode w2 = IType i2 \<longrightarrow>
              i_opcode i2 = 0x23 \<longrightarrow> i_rs i2 = i_rs i1 \<longrightarrow> i_imm i2 = i_imm i1 \<longrightarrow>
              (\<exists>c4. step c1 b2 = Some (c4, b2) \<and> cpu_read c4 (i_rt i2) = Some (if i_rt i2 = 0 then 0 else v)))"
proof -
  obtain b2 where w: "bus_write32 b p v = Some (Inr (), b2)"
    and bytes: "map (\<lambda>j. bus_read8 b2 (p + j)) [0, 1, 2, 3] = map Inr (le_bytes32 v)"
    using ram_store32[OF ram] by blast
  have r32: "bus_read32 b2 p = Inr v" using bus_read32_bytes[OF bytes] .
  have m1: "is_mem_op (i_opcode i1)" using o1 by (simp add: is_mem_op_def)
  have s1: "step c b = Some (c1, b2)"
    using w tr o1 by (simp add: step_mem[OF f1 d1 m1 rs rt] exec_mem_def store_ok_def write32_virt_def Let_def)
  have ok1: "cpu_ok c1" using f1 ok by (simp add: fetch_Some)
  have "\<exists>c4. step c1 b2 = Some (c4, b2) \<and> cpu_read c4 (i_rt i2) = Some (if i_rt i2 = 0 then 0 else v)"
    if r2: "read32_virt b2 (cpu_pc c1) = Inr w2" and d2: "decode w2 = IType i2" and o2: "i_opcode i2 = 0x23"
      and rs2: "i_rs i2 = i_rs i1" and im2: "i_imm i2 = i_imm i1" for w2 i2
  proof -
    have f2: "fetch c1 b2 = Some (w2, cpu_set_pc (cpu_pc c1 + 4) c1)" using r2 by (simp add: fetch_Some)
    have rs1: "cpu_read c1 (i_rs i2) = Some x" using f1 rs rs2 by (simp add: fetch_Some)
    obtain y2 where rt2: "cpu_read c1 (i_rt i2) = Some y2" using decode_fields(2)[OF d2] cpu_read_ok[OF ok1] by blast
    have m2: "is_mem_op (i_opcode i2)" using o2 by (simp add: is_mem_op_def)
    have ld: "read32_virt b2 (x + scast (i_imm i2)) = Inr v" using tr r32 im2 by (simp add: read32_virt_def)
    have s2: "step c1 b2 = Some (write_nz (i_rt i2) v (cpu_set_pc (cpu_pc c1 + 4) c1), b2)"
      using ld o2 by (simp add: step_mem[OF f2 d2 m2 rs1 rt2] exec_mem_def Let_def)
    have "cpu_read (write_nz (i_rt i2) v (cpu_set_pc (cpu_pc c1 + 4) c1)) (i_rt i2) = Some (if i_rt i2 = 0 then 0 else v)"
      using cpu_read_write_nz[of "cpu_set_pc (cpu_pc c1 + 4) c1" "i_rt i2" "i_rt i2" v] ok1 decode_fields(2)[OF d2]
      by simp
    then show ?thesis using s2 by blast
  qed
  then show ?thesis using s1 by blast
qed

lemma sw_lw_roundtrip_witness:
  "\<exists>c4 b2. run 2 cpu_new (prog_bus 260 [0xAC1D0100, 0x8C020100]) = Some (c4, b2)
      \<and> cpu_read c4 2 = Some 0x800FF000"
proof -
  let ?P = "prog_bus 260 [0xAC1D0100, 0x8C020100]"
  define i1 where "i1 = \<lparr>i_opcode = 0x2B, i_rs = 0, i_rt = 29, i_imm = 0x100\<rparr>"
  define i2 where "i2 = \<lparr>i_opcode = 0x23, i_rs = 0, i_rt = 2, i_imm = 0x100\<rparr>"
  have f: "fetch cpu_new ?P = Some (0xAC1D0100, cpu_set_pc 0xBFC00004 cpu_new)" by code_simp
  have d: "decode 0xAC1D0100 = IType i1" unfolding i1_def by code_simp
  have d2: "decode 0x8C020100 = IType i2" unfolding i2_def by code_simp
  have r: "cpu_read cpu_new (i_rs i1) = Some 0" "cpu_read cpu_new (i_rt i1) = Some 0x800FF000"
    unfolding i1_def by code_simp+
  have o: "i_opcode i1 = 0x2B" by (simp add: i1_def)
  have t: "translate_vaddr (0 + scast (i_imm i1)) = Inr 0x100" by (simp add: i1_def translate_vaddr_def)
  have rm: "devices ?P ! 0 = Ram (ram_new 0 260)" "dev_ok (ram_new 0 260)"
    by (simp_all add: prog_bus_def dev_ok_def ram_new_def)
  have fd: "\<forall>j \<in> {0, 1, 2, 3}. find_device (devices ?P) (0x100 + j) = Some 0"
    by (simp add: prog_bus_def dev_contains_def ram_new_def mem_range_def)
  obtain b2 where s1: "step cpu_new ?P = Some (cpu_set_pc 0xBFC00004 cpu_new, b2)"
    and h: "\<forall>w2 i2. read32_virt b2 (cpu_pc (cpu_set_pc 0xBFC00004 cpu_new)) = Inr w2 \<longrightarrow> decode w2 = IType i2 \<longrightarrow>
              i_opcode i2 = 0x23 \<longrightarrow> i_rs i2 = i_rs i1 \<longrightarrow> i_imm i2 = i_imm i1 \<longrightarrow>
              (\<exists>c4. step (cpu_set_pc 0xBFC00004 cpu_new) b2 = Some (c4, b2) \<and>
                    cpu_read c4 (i_rt i2) = Some (if i_rt i2 = 0 then 0 else 0x800FF000))"
    using sw_lw_roundtrip[OF cpu_ok_new f d o r t rm fd] by blast
  have "map_option (\<lambda>(c, b). read32_virt b 0xBFC00004) (step cpu_new ?P) = Some (Inr 0x8C020100)"
    by code_simp
  then have r2: "read32_virt b2 (cpu_pc (cpu_set_pc 0xBFC00004 cpu_new)) = Inr 0x8C020100"
    using s1 by simp
  obtain c4 where "step (cpu_set_pc 0xBFC00004 cpu_new) b2 = Some (c4, b2)" "cpu_read c4 2 = Some 0x800FF000"
    using h[rule_format, OF r2 d2] by (auto simp: i1_def i2_def)
  then show ?thesis using s1 by (simp add: numeral_2_eq_2)
qed

end
