(* ===== verification/Emu.thy ===== *)
theory Emu
  imports Cpu
begin

text \<open>
  The emulator's driver, \<open>src/aiz32mips_emu/src/main.rs\<close> with the register addresses of
  \<open>mmio_offsets.rs\<close>: the bus of 2 MiB RAM at 0, the ROM image at 0x1FC00000, 4 MiB of
  video memory at 0x10000000 holding the font ROM at offset 0x200000, and the GPU
  window at 0x1F802000; the GPU set to 320 by 200 at 32 bits per pixel through
  virtual stores whose results are ignored (\<open>let _ =\<close>); then \<open>cycles\<close> steps of a
  fresh CPU. Copying a font longer than the space after 0x200000 panics, \<open>None\<close>.
\<close>

definition gpu_mmio_base :: u32 where "gpu_mmio_base = 0x1F802000"
definition reg_width :: u32 where "reg_width = gpu_mmio_base + 0x00"
definition reg_height :: u32 where "reg_height = gpu_mmio_base + 0x02"
definition reg_pitch :: u32 where "reg_pitch = gpu_mmio_base + 0x04"
definition reg_bpp :: u32 where "reg_bpp = gpu_mmio_base + 0x06"
definition reg_fbaddr :: u32 where "reg_fbaddr = gpu_mmio_base + 0x08"
definition reg_status :: u32 where "reg_status = gpu_mmio_base + 0x0C"
definition reg_cmd :: u32 where "reg_cmd = gpu_mmio_base + 0x10"
definition reg_fontaddr :: u32 where "reg_fontaddr = gpu_mmio_base + 0x20"

definition emu_bus :: "bytes \<Rightarrow> bytes \<Rightarrow> bus option" where
  "emu_bus rom font = do {
     vdata \<leftarrow> write_slice 0x200000 font (data (ram_new 0x10000000 0x400000));
     let b = add_device (Gpu (gpu_new gpu_mmio_base 2))
               (add_device (Vram \<lparr>base = 0x10000000, data = vdata\<rparr>)
                 (add_device (Rom (rom_new 0x1FC00000 rom))
                   (add_device (Ram (ram_new 0 0x200000)) (bus_new True))));
     (r1, b1) \<leftarrow> write16_virt b reg_width 320;
     (r2, b2) \<leftarrow> write16_virt b1 reg_height 200;
     (r3, b3) \<leftarrow> write16_virt b2 reg_pitch 320;
     (r4, b4) \<leftarrow> write8_virt b3 reg_bpp 32;
     (r5, b5) \<leftarrow> write32_virt b4 reg_fbaddr 0;
     (r6, b6) \<leftarrow> write32_virt b5 reg_fontaddr 0x200000;
     Some b6
   }"

definition emu_main :: "bytes \<Rightarrow> bytes \<Rightarrow> nat \<Rightarrow> (cpu \<times> bus) option" where
  "emu_main rom font cycles = do { b \<leftarrow> emu_bus rom font; run cycles cpu_new b }"

subsection \<open>Properties\<close>

text \<open>
  C12: for every ROM image and every font of at most 2 MiB, the setup of \<open>main\<close>
  succeeds: the bus holds RAM, ROM, the video memory with the font copied to offset
  0x200000, and the GPU pointing at the video memory with width 320, height 200, pitch
  320, 32 bits per pixel, framebuffer at 0 and font at 0x200000, every other GPU
  register and the FIFO as created.
\<close>

theorem emu_bus_config:
  assumes "length font \<le> 0x200000"
  shows "\<exists>vdata. emu_bus rom font = Some \<lparr>devices = [Ram (ram_new 0 0x200000), Rom (rom_new 0x1FC00000 rom),
      Vram \<lparr>base = 0x10000000, data = vdata\<rparr>,
      Gpu ((gpu_new gpu_mmio_base 2)\<lparr>gregs := gpu_regs_default\<lparr>gwidth := 320, gheight := 200, gpitch := 320,
             gbpp := 32, font_addr := 0x200000\<rparr>\<rparr>)], little_endian = True\<rparr>
    \<and> write_slice 0x200000 font (replicate 0x400000 0) = Some vdata"
proof -
  obtain v where v: "write_slice 0x200000 font (replicate 0x400000 0) = Some v"
    using assms write_slice_Some_iff[of "0x200000" font "replicate 0x400000 0"] by auto
  have l: "length v = 0x400000" using write_slice_length[OF v] by simp
  show ?thesis
    using v l
    apply (simp add: emu_bus_def ram_new_def write16_virt_def write8_virt_def write32_virt_def
        translate_vaddr_def bus_write16_def bus_write32_def bus_write8_def add_device_def bus_new_def
        reg_width_def reg_height_def reg_pitch_def reg_bpp_def reg_fbaddr_def reg_fontaddr_def gpu_mmio_base_def
        dev_contains_def mem_range_def vram_range_def gpu_range_def rom_new_def gpu_new_def dev_write8_def
        get_idx_def gpu_write8_def within_def gpu_write_reg_def le_bytes16_def le_bytes32_def
        gpu_regs_default_def set_hi_def set_lo_def set_reg_byte_def)
    done
qed

lemma emu_bus_config_witness:
  "\<exists>vdata. emu_bus [] [] = Some \<lparr>devices = [Ram (ram_new 0 0x200000), Rom (rom_new 0x1FC00000 []),
      Vram \<lparr>base = 0x10000000, data = vdata\<rparr>,
      Gpu ((gpu_new gpu_mmio_base 2)\<lparr>gregs := gpu_regs_default\<lparr>gwidth := 320, gheight := 200, gpitch := 320,
             gbpp := 32, font_addr := 0x200000\<rparr>\<rparr>)], little_endian = True\<rparr>
    \<and> write_slice 0x200000 [] (replicate 0x400000 0) = Some vdata"
  using emu_bus_config[of "[]" "[]"] by simp

end
