(* ===== verification/Display.thy ===== *)
theory Display
  imports Emu
begin

text \<open>
  The framebuffer read-out of \<open>src/aiz32mips_emu/src/ui/display.rs\<close>: \<open>read_regs\<close>
  reads width, height, pitch (in pixels), depth and framebuffer offset through the bus,
  the first failing read ending it with that error (\<open>?\<close>); \<open>present_from_bus\<close>
  returns early unless the screen is non-empty at 32 bits per pixel, and otherwise
  copies each row of \<open>w * 4\<close> bytes from virtual \<open>0x10000000 + fb_off + y * stride\<close>,
  a failed byte read giving 0. The rows are the bytes handed to the ARGB8888 texture.
  The second part holds the display's own state: \<open>new\<close>, \<open>ensure_texture\<close> and the
  whole of \<open>present_from_bus\<close> on it, with the invariant that the picture fills the
  window. Arithmetic is \<open>u32\<close> and wraps as in a release build.
\<close>

definition display_read_regs :: "bus \<Rightarrow> (u32 \<times> u32 \<times> u32 \<times> u32 \<times> u32) mem_result" where
  "display_read_regs b =
     (case read16_virt b reg_width of Inl e \<Rightarrow> Inl e | Inr w \<Rightarrow>
      case read16_virt b reg_height of Inl e \<Rightarrow> Inl e | Inr h \<Rightarrow>
      case read16_virt b reg_pitch of Inl e \<Rightarrow> Inl e | Inr pit \<Rightarrow>
      case read8_virt b reg_bpp of Inl e \<Rightarrow> Inl e | Inr bpp \<Rightarrow>
      case read32_virt b reg_fbaddr of Inl e \<Rightarrow> Inl e | Inr fblo \<Rightarrow>
      Inr (ucast w, ucast h, ucast pit, ucast bpp, fblo))"

text \<open>The copy loop inside \<open>tex.with_lock\<close>: row \<open>y\<close> is \<open>w * 4\<close> bytes.\<close>

definition frame_rows :: "bus \<Rightarrow> u32 \<Rightarrow> u32 \<Rightarrow> u32 \<Rightarrow> u32 \<Rightarrow> bytes list" where
  "frame_rows b w h stride fb_off =
     map (\<lambda>y. let src_line_off = fb_off + word_of_nat y * stride in
               map (\<lambda>x. unwrap_or (read8_virt b (0x10000000 + src_line_off + word_of_nat x)) 0)
                 [0..<unat (w * 4)])
       [0..<unat h]"

text \<open>\<open>present_from_bus\<close>: \<open>Inr None\<close> is the early \<open>Ok(())\<close> with nothing drawn.\<close>

definition present_frame :: "bus \<Rightarrow> bytes list option mem_result" where
  "present_frame b =
     (case display_read_regs b of
        Inl e \<Rightarrow> Inl e
      | Inr (w, h, pitch_pixels, bpp, fb_off) \<Rightarrow>
          if w = 0 \<or> h = 0 \<or> bpp \<noteq> 32 then Inr None
          else Inr (Some (frame_rows b w h (pitch_pixels * 4) fb_off)))"

subsection \<open>The display's own state\<close>

text \<open>
  \<open>SdlDisplay\<close> keeps the size of the last texture (\<open>cur_w\<close>, \<open>cur_h\<close>) and the
  window scale; the window's size and the picture on the canvas are what SDL shows,
  kept here as \<open>win_size\<close> and \<open>shown\<close> (the texture rows and the destination
  rectangle of \<open>canvas.copy\<close>). The SDL context, the canvas and the texture creator
  are host objects and are not modelled; the SDL calls are taken to succeed.
\<close>

record sdl_display =
  cur_w :: u32
  cur_h :: u32
  scale :: u32
  win_size :: "u32 \<times> u32"
  shown :: "(bytes list \<times> u32 \<times> u32) option"

text \<open>\<open>SdlDisplay::new\<close>: the window is \<open>320 * initial_scale\<close> by \<open>200 * initial_scale\<close>.\<close>

definition sdl_new :: "u32 \<Rightarrow> sdl_display" where
  "sdl_new initial_scale =
     \<lparr>cur_w = 0, cur_h = 0, scale = max initial_scale 1,
      win_size = (320 * initial_scale, 200 * initial_scale), shown = None\<rparr>"

text \<open>\<open>ensure_texture\<close>: a new size resizes the window to the scaled size.\<close>

definition ensure_texture :: "sdl_display \<Rightarrow> u32 \<Rightarrow> u32 \<Rightarrow> sdl_display" where
  "ensure_texture d w h =
     (if cur_w d \<noteq> w \<or> cur_h d \<noteq> h
      then d\<lparr>cur_w := w, cur_h := h, win_size := (w * scale d, h * scale d)\<rparr>
      else d)"

text \<open>
  \<open>present_from_bus\<close> on the display state: the register read-out's error is returned
  with the display unchanged, the early return leaves it unchanged, and otherwise the
  texture is resized if needed and the rows are copied to a \<open>w * scale\<close> by
  \<open>h * scale\<close> rectangle.
\<close>

definition sdl_present :: "sdl_display \<Rightarrow> bus \<Rightarrow> unit mem_result \<times> sdl_display" where
  "sdl_present d b =
     (case display_read_regs b of
        Inl e \<Rightarrow> (Inl e, d)
      | Inr (w, h, pitch_pixels, bpp, fb_off) \<Rightarrow>
          if w = 0 \<or> h = 0 \<or> bpp \<noteq> 32 then (Inr (), d)
          else
            let d1 = ensure_texture d w h;
                stride = pitch_pixels * 4
            in (Inr (), d1\<lparr>shown := Some (frame_rows b w h stride fb_off, w * scale d1, h * scale d1)\<rparr>))"

text \<open>
  The display's invariant: once a texture size is set the window has its scaled size,
  and the picture shown fills the window.
\<close>

definition disp_ok :: "sdl_display \<Rightarrow> bool" where
  "disp_ok d =
     ((cur_w d \<noteq> 0 \<or> cur_h d \<noteq> 0 \<longrightarrow> win_size d = (cur_w d * scale d, cur_h d * scale d)) \<and>
      (case shown d of None \<Rightarrow> True | Some (rows, r) \<Rightarrow> r = win_size d \<and> cur_w d \<noteq> 0))"

subsection \<open>Properties\<close>

lemma disp_ok_new: "disp_ok (sdl_new s)"
  by (simp add: disp_ok_def sdl_new_def)

text \<open>\<open>new\<close> clamps the scale to 1 but sizes the window with the unclamped argument.\<close>

lemma sdl_new_zero: "scale (sdl_new 0) = 1 \<and> win_size (sdl_new 0) = (0, 0)"
  by (simp add: sdl_new_def)

lemma ensure_texture_size:
  assumes "disp_ok d" "w \<noteq> 0"
  shows "win_size (ensure_texture d w h) = (w * scale d, h * scale d)
         \<and> cur_w (ensure_texture d w h) = w \<and> cur_h (ensure_texture d w h) = h
         \<and> scale (ensure_texture d w h) = scale d \<and> shown (ensure_texture d w h) = shown d"
  using assms by (auto simp: ensure_texture_def disp_ok_def)



end
