(* ===== verification/DeviceTrait.thy ===== *)
theory DeviceTrait
  imports Bus
begin

text \<open>
  The default methods of the \<open>Device\<close> trait (\<open>src/aiz32mips_core/src/memory.rs\<close>):
  \<open>read16\<close>, \<open>read32\<close>, \<open>write16\<close> and \<open>write32\<close> are written once over the
  implementor's \<open>read8\<close> and \<open>write8\<close>, so here they take those two operations as
  parameters over the implementor's state type \<open>'d\<close>. A read leaves the state alone
  (no device changes on a read); a write returns the error it met together with the
  state after the stores before it, and \<open>None\<close> where \<open>write8\<close> panics. Each \<open>?\<close>
  returns the first error. \<open>paddr + 1\<close> wraps as in a release build. No device of the
  sources overrides these methods and the bus uses its own, so the lemma of this theory
  shows that the two are interchangeable: instantiated with the bus's byte accesses the
  defaults are \<open>MemoryBus::read16\<close> .. \<open>write32\<close>.
\<close>

type_synonym 'd read8_op = "'d \<Rightarrow> u32 \<Rightarrow> u8 mem_result"
type_synonym 'd write8_op = "'d \<Rightarrow> u32 \<Rightarrow> u8 \<Rightarrow> (unit mem_result \<times> 'd) option"

definition dflt_read16 :: "'d read8_op \<Rightarrow> 'd \<Rightarrow> u32 \<Rightarrow> u16 mem_result" where
  "dflt_read16 read8 d paddr =
     (case read8 d paddr of Inl e \<Rightarrow> Inl e | Inr lo \<Rightarrow>
      case read8 d (paddr + 1) of Inl e \<Rightarrow> Inl e | Inr hi \<Rightarrow>
      Inr (push_bit 8 (ucast hi) OR ucast lo))"

definition dflt_read32 :: "'d read8_op \<Rightarrow> 'd \<Rightarrow> u32 \<Rightarrow> u32 mem_result" where
  "dflt_read32 read8 d paddr =
     (case read8 d paddr of Inl e \<Rightarrow> Inl e | Inr b0 \<Rightarrow>
      case read8 d (paddr + 1) of Inl e \<Rightarrow> Inl e | Inr b1 \<Rightarrow>
      case read8 d (paddr + 2) of Inl e \<Rightarrow> Inl e | Inr b2 \<Rightarrow>
      case read8 d (paddr + 3) of Inl e \<Rightarrow> Inl e | Inr b3 \<Rightarrow>
      Inr (push_bit 24 (ucast b3) OR push_bit 16 (ucast b2) OR push_bit 8 (ucast b1) OR ucast b0))"

text \<open>\<open>self.write8(..)?; rest\<close>: the rest runs only after a successful store.\<close>

definition then_write :: "(unit mem_result \<times> 'd) option \<Rightarrow> ('d \<Rightarrow> (unit mem_result \<times> 'd) option)
                           \<Rightarrow> (unit mem_result \<times> 'd) option" where
  "then_write r k =
     (case r of
        None \<Rightarrow> None
      | Some (Inl e, d) \<Rightarrow> Some (Inl e, d)
      | Some (Inr u, d) \<Rightarrow> k d)"

definition dflt_write16 :: "'d write8_op \<Rightarrow> 'd \<Rightarrow> u32 \<Rightarrow> u16 \<Rightarrow> (unit mem_result \<times> 'd) option" where
  "dflt_write16 write8 d paddr value =
     then_write (write8 d paddr (ucast (value AND 0xFF)))
       (\<lambda>d. write8 d (paddr + 1) (ucast (drop_bit 8 value)))"

definition dflt_write32 :: "'d write8_op \<Rightarrow> 'd \<Rightarrow> u32 \<Rightarrow> u32 \<Rightarrow> (unit mem_result \<times> 'd) option" where
  "dflt_write32 write8 d paddr value =
     then_write (write8 d paddr (ucast (value AND 0xFF))) (\<lambda>d.
     then_write (write8 d (paddr + 1) (ucast (drop_bit 8 value AND 0xFF))) (\<lambda>d.
     then_write (write8 d (paddr + 2) (ucast (drop_bit 16 value AND 0xFF))) (\<lambda>d.
     write8 d (paddr + 3) (ucast (drop_bit 24 value AND 0xFF)))))"

subsection \<open>Lemmas\<close>

text \<open>One step of \<open>write_bytes\<close> is a \<open>then_write\<close>.\<close>

lemma write_bytes_Cons:
  "write_bytes b p ((i, x) # xs) = then_write (bus_write8 b (p + word_of_nat i) x) (\<lambda>b'. write_bytes b' p xs)"
  by (simp add: then_write_def split: option.split sum.split)

lemma then_write_last [simp]: "then_write r (\<lambda>d. Some (Inr (), d)) = r"
  by (auto simp: then_write_def split: option.split sum.split)

subsection \<open>Properties\<close>

text \<open>
  C15: the trait's default \<open>read16\<close>, \<open>read32\<close>, \<open>write16\<close> and \<open>write32\<close>, run over the
  bus's own byte read and byte store, behave exactly as \<open>MemoryBus::read16\<close>,
  \<open>read32\<close>, \<open>write16\<close> and \<open>write32\<close>: same values, same errors, same bus after a
  failed or successful store, the same panics.
\<close>

theorem default_methods_bus:
  "dflt_read16 bus_read8 b p = bus_read16 b p \<and>
   dflt_read32 bus_read8 b p = bus_read32 b p \<and>
   dflt_write16 bus_write8 b p h = bus_write16 b p h \<and>
   dflt_write32 bus_write8 b p w = bus_write32 b p w"
proof (intro conjI)
  show "dflt_read16 bus_read8 b p = bus_read16 b p"
    unfolding dflt_read16_def bus_read16_def from_le16_def ..
  show "dflt_read32 bus_read8 b p = bus_read32 b p"
    unfolding dflt_read32_def bus_read32_def from_le32_def ..
  show "dflt_write16 bus_write8 b p h = bus_write16 b p h"
    by (simp add: dflt_write16_def bus_write16_def le_bytes16_def write_bytes_Cons
        del: write_bytes.simps(2))
  show "dflt_write32 bus_write8 b p w = bus_write32 b p w"
    by (simp add: dflt_write32_def bus_write32_def le_bytes32_def write_bytes_Cons
        del: write_bytes.simps(2))
qed

end
