(* ===== verification/Driver.thy ===== *)
theory Driver
  imports Display
begin

text \<open>
  The whole of \<open>main\<close> (\<open>src/aiz32mips_emu/src/main.rs\<close>) around the setup of
  \<open>Emu\<close>: the argument check, the two file reads, the cycle argument (\<open>inf\<close> or a
  number, \<open>10000\<close> when it does not parse), and the two loops that pump the SDL events,
  step the CPU and present the screen every 10000 steps (\<open>present_every\<close>), the
  finite one presenting once more at its end; then the values of the register dump.
  The host is a parameter: the file system \<open>files\<close> maps a path to its bytes, and
  \<open>quit i\<close> is what \<open>pump_events_quit\<close> returns at the \<open>i\<close>-th iteration. The state
  of the loops is a record of the CPU, the bus, the counter and the display. A panic of
  \<open>step\<close> ends \<open>main\<close> (\<open>Panicked\<close>); the infinite loop is a
  \<open>partial_function (option)\<close>, \<open>None\<close> meaning that it runs forever.
\<close>

record emu_state =
  ecpu :: cpu
  ebus :: bus
  steps_since_present :: u32
  esdl :: sdl_display

definition present_every :: u32 where "present_every = 10000"

text \<open>One iteration after the quit check: step, count, and present when due.\<close>

definition loop_body :: "emu_state \<Rightarrow> emu_state option" where
  "loop_body s =
     (case step (ecpu s) (ebus s) of
        None \<Rightarrow> None
      | Some (c, b) \<Rightarrow>
          let k = steps_since_present s + 1 in
          if k \<ge> present_every
          then Some \<lparr>ecpu = c, ebus = b, steps_since_present = 0,
                     esdl = snd (sdl_present (esdl s) b)\<rparr>
          else Some (s\<lparr>ecpu := c, ebus := b, steps_since_present := k\<rparr>))"

text \<open>\<open>for _ in 0..cycles\<close>, leaving early on a quit event.\<close>

fun cycle_loop :: "(nat \<Rightarrow> bool) \<Rightarrow> nat \<Rightarrow> nat \<Rightarrow> emu_state \<Rightarrow> emu_state option" where
  "cycle_loop quit i 0 s = Some s"
| "cycle_loop quit i (Suc n) s =
     (if quit i then Some s
      else case loop_body s of None \<Rightarrow> None | Some s' \<Rightarrow> cycle_loop quit (Suc i) n s')"

datatype main_end = Usage_exit | Read_error string | Panicked | Finished emu_state

text \<open>\<open>loop { .. }\<close>: only a quit event ends it.\<close>

partial_function (option) inf_loop :: "(nat \<Rightarrow> bool) \<Rightarrow> nat \<Rightarrow> emu_state \<Rightarrow> main_end option" where
  "inf_loop quit i s =
     (if quit i then Some (Finished s)
      else case loop_body s of None \<Rightarrow> Some Panicked | Some s' \<Rightarrow> inf_loop quit (Suc i) s')"

text \<open>
  \<open>str::parse::<u64>\<close> as \<open>main\<close> calls it: an optional \<open>+\<close>, then one or more
  decimal digits whose value fits in 64 bits.
\<close>

fun digits_val :: "nat \<Rightarrow> string \<Rightarrow> nat option" where
  "digits_val acc [] = Some acc"
| "digits_val acc (ch # cs) =
     (if 48 \<le> (of_char ch :: nat) \<and> (of_char ch :: nat) \<le> 57
      then digits_val (acc * 10 + (of_char ch - 48)) cs
      else None)"

definition parse_u64 :: "string \<Rightarrow> u64 option" where
  "parse_u64 str =
     (let ds = (case str of CHR ''+'' # r \<Rightarrow> r | _ \<Rightarrow> str) in
      if ds = [] then None
      else case digits_val 0 ds of
             None \<Rightarrow> None
           | Some n \<Rightarrow> if n < 2 ^ 64 then Some (word_of_nat n) else None)"

definition cycles_config :: "string \<Rightarrow> bool \<times> u64" where
  "cycles_config cycles_arg =
     (let infinite = (cycles_arg = ''inf'') in
      (infinite, if infinite then 0 else case parse_u64 cycles_arg of Some n \<Rightarrow> n | None \<Rightarrow> 10000))"

text \<open>The values \<open>main\<close> prints: R0..R9, HI and LO as \<open>i32\<close>, PC and SP.\<close>

definition main_dump :: "cpu \<Rightarrow> (int list \<times> int \<times> int \<times> u32 \<times> u32) option" where
  "main_dump c = do {
     rs \<leftarrow> those (map (reg_read (cpu_registers c)) [0..<10]);
     Some (map sint rs, sint (hi (special (cpu_registers c))), sint (lo (special (cpu_registers c))),
           get_pc (cpu_registers c), get_sp (cpu_registers c))
   }"

definition emu_start :: "bus \<Rightarrow> emu_state" where
  "emu_start b = \<lparr>ecpu = cpu_new, ebus = b, steps_since_present = 0, esdl = sdl_new 3\<rparr>"

definition main_prog :: "(string \<Rightarrow> bytes option) \<Rightarrow> string list \<Rightarrow> (nat \<Rightarrow> bool) \<Rightarrow> main_end option" where
  "main_prog files args quit =
     (if length args < 4 then Some Usage_exit
      else case files (args ! 1) of None \<Rightarrow> Some (Read_error (args ! 1)) | Some rom_data \<Rightarrow>
           case files (args ! 2) of None \<Rightarrow> Some (Read_error (args ! 2)) | Some font_rom_data \<Rightarrow>
           case emu_bus rom_data font_rom_data of None \<Rightarrow> Some Panicked | Some b \<Rightarrow>
           let (infinite, cycles) = cycles_config (args ! 3) in
           if infinite then inf_loop quit 0 (emu_start b)
           else case cycle_loop quit 0 (unat cycles) (emu_start b) of
                  None \<Rightarrow> Some Panicked
                | Some s \<Rightarrow> Some (Finished (s\<lparr>esdl := snd (sdl_present (esdl s) (ebus s))\<rparr>)))"

subsection \<open>Lemmas: one iteration\<close>

text \<open>Presenting reads the bus and changes only the display: an iteration is a \<open>step\<close>.\<close>

lemma loop_body_step:
  "map_option (\<lambda>s'. (ecpu s', ebus s')) (loop_body s) = step (ecpu s) (ebus s)"
  by (auto simp: loop_body_def Let_def split: option.split)

lemma loop_body_Some:
  "loop_body s = Some s' \<Longrightarrow> step (ecpu s) (ebus s) = Some (ecpu s', ebus s')"
  using loop_body_step[of s] by auto

lemma loop_body_None: "loop_body s = None \<longleftrightarrow> step (ecpu s) (ebus s) = None"
  by (metis loop_body_step option.map_disc_iff)

text \<open>The counter never reaches \<open>present_every\<close> and counts the steps modulo 10000.\<close>

lemma loop_body_count:
  assumes "loop_body s = Some s'" and "steps_since_present s < present_every"
  shows "unat (steps_since_present s') = Suc (unat (steps_since_present s)) mod 10000
         \<and> steps_since_present s' < present_every"
proof -
  let ?k = "steps_since_present s"
  have lt: "unat ?k < 10000" using assms(2) by (simp add: present_every_def word_less_nat_alt)
  then have k1: "unat (?k + 1) = Suc (unat ?k)" by (simp add: unat_word_ariths)
  have "?k + 1 \<ge> present_every \<longleftrightarrow> Suc (unat ?k) = 10000"
    using lt k1 by (simp add: present_every_def word_le_nat_alt, linarith)
  then show ?thesis using assms(1) lt k1
    by (auto simp: loop_body_def Let_def present_every_def word_less_nat_alt split: option.splits if_splits)
qed

subsection \<open>Properties\<close>

text \<open>
  C13: while no quit event arrives, the driver loop of \<open>main\<close> runs the CPU and the bus
  exactly as \<open>n\<close> calls of \<open>step\<close> do (\<open>run\<close>): presenting the screen never changes
  them, and a panic of \<open>step\<close> is a panic of the loop. Its counter stays below
  \<open>present_every\<close> and has counted the steps modulo 10000.
\<close>

theorem cycle_loop_refines_run:
  assumes "\<forall>j<n. \<not> quit (i + j)" and "steps_since_present s < present_every"
  shows "map_option (\<lambda>s'. (ecpu s', ebus s')) (cycle_loop quit i n s) = run n (ecpu s) (ebus s) \<and>
         (\<forall>s'. cycle_loop quit i n s = Some s' \<longrightarrow>
               steps_since_present s' < present_every \<and>
               unat (steps_since_present s') = (unat (steps_since_present s) + n) mod 10000)"
  using assms
proof (induction n arbitrary: i s)
  case 0
  then show ?case by (simp add: present_every_def word_less_nat_alt)
next
  case (Suc n)
  have nq: "\<not> quit i" using Suc.prems(1) by (metis add_0_right zero_less_Suc)
  have nq': "\<forall>j<n. \<not> quit (Suc i + j)" using Suc.prems(1) by auto
  show ?case
  proof (cases "loop_body s")
    case None
    then show ?thesis using nq loop_body_None[of s] by simp
  next
    case (Some s1)
    note cnt = loop_body_count[OF Some Suc.prems(2)]
    note ih = Suc.IH[OF nq' conjunct2[OF cnt]]
    have "(Suc (unat (steps_since_present s)) mod 10000 + n) mod 10000
          = (unat (steps_since_present s) + Suc n) mod 10000" by (simp add: mod_add_left_eq)
    then show ?thesis using nq ih cnt loop_body_Some[OF Some]
      by (simp add: Some)
  qed
qed

lemma cycle_loop_refines_run_witness:
  "\<exists>s'. cycle_loop (\<lambda>_. False) 0 3 (emu_start (prog_bus 4 [0x24020005, 0x14400001, 0])) = Some s' \<and>
        reg_read (cpu_registers (ecpu s')) 2 = Some 5 \<and> cpu_pc (ecpu s') = 0xBFC0000C \<and>
        unat (steps_since_present s') = 3"
proof -
  let ?P = "prog_bus 4 [0x24020005, 0x14400001, 0]"
  have h: "\<forall>j<(3::nat). \<not> (\<lambda>_. False) (0 + j)" "steps_since_present (emu_start ?P) < present_every"
    by (simp_all add: emu_start_def present_every_def)
  have r: "map_option (\<lambda>(c, b). (reg_read (cpu_registers c) 2, cpu_pc c)) (run 3 cpu_new ?P)
           = Some (Some 5, 0xBFC0000C)" by code_simp
  have e: "map_option (\<lambda>s'. (ecpu s', ebus s')) (cycle_loop (\<lambda>_. False) 0 3 (emu_start ?P)) = run 3 cpu_new ?P"
    and cnt: "\<forall>s'. cycle_loop (\<lambda>_. False) 0 3 (emu_start ?P) = Some s' \<longrightarrow>
                unat (steps_since_present s') = 3"
    using cycle_loop_refines_run[of 3 "\<lambda>_. False" 0 "emu_start ?P", OF h] by (simp_all add: emu_start_def)
  obtain s' where s': "cycle_loop (\<lambda>_. False) 0 3 (emu_start ?P) = Some s'"
    using e r by (cases "cycle_loop (\<lambda>_. False) 0 3 (emu_start ?P)") auto
  then show ?thesis using e r cnt by auto
qed

text \<open>
  C14: the infinite loop of \<open>main\<close> (\<open>cycles = inf\<close>) ends at the first quit event:
  when the \<open>k\<close>-th iteration sees it and the \<open>k\<close> steps before it do not panic, the loop
  returns, in the CPU and bus state of those \<open>k\<close> steps.
\<close>

theorem inf_loop_quits:
  assumes "quit (i + k)" and "\<forall>j<k. \<not> quit (i + j)" and "run k (ecpu s) (ebus s) \<noteq> None"
  shows "\<exists>s'. inf_loop quit i s = Some (Finished s') \<and> run k (ecpu s) (ebus s) = Some (ecpu s', ebus s')"
  using assms
proof (induction k arbitrary: i s)
  case 0
  then show ?case by (simp add: inf_loop.simps)
next
  case (Suc k)
  have nq: "\<not> quit i" using Suc.prems(2) by (metis add_0_right zero_less_Suc)
  obtain c b where st: "step (ecpu s) (ebus s) = Some (c, b)" and rk: "run k c b \<noteq> None"
    using Suc.prems(3) by (auto split: option.splits)
  obtain s1 where s1: "loop_body s = Some s1"
    using st loop_body_None[of s] by (cases "loop_body s") auto
  have cb: "(ecpu s1, ebus s1) = (c, b)" using loop_body_Some[OF s1] st by simp
  have "\<exists>s'. inf_loop quit (Suc i) s1 = Some (Finished s') \<and> run k (ecpu s1) (ebus s1) = Some (ecpu s', ebus s')"
    using Suc.prems(1,2) rk cb by (intro Suc.IH) auto
  then show ?case using nq s1 st cb by (subst inf_loop.simps) simp
qed

lemma inf_loop_quits_witness:
  "\<exists>s'. inf_loop (\<lambda>j. j = 3) 0 (emu_start (prog_bus 4 [0x24020005, 0x14400001, 0])) = Some (Finished s') \<and>
        reg_read (cpu_registers (ecpu s')) 2 = Some 5 \<and> cpu_pc (ecpu s') = 0xBFC0000C"
proof -
  let ?P = "prog_bus 4 [0x24020005, 0x14400001, 0]"
  have r: "map_option (\<lambda>(c, b). (reg_read (cpu_registers c) 2, cpu_pc c)) (run 3 cpu_new ?P)
           = Some (Some 5, 0xBFC0000C)" by code_simp
  have h: "(\<lambda>j. j = (3::nat)) (0 + 3)" "\<forall>j<(3::nat). \<not> (\<lambda>j. j = (3::nat)) (0 + j)"
    "run 3 (ecpu (emu_start ?P)) (ebus (emu_start ?P)) \<noteq> None"
    using r by (auto simp: emu_start_def)
  show ?thesis using inf_loop_quits[of "\<lambda>j. j = 3" 0 3 "emu_start ?P", OF h] r
    by (auto simp: emu_start_def)
qed

end
